theory Spec2Isabelle
  imports Main "HOL-Library.Char_ord" "HOL-Library.List_Lexorder" "HOL-Library.Multiset"
begin

section \<open>pwman: a master-password protected credential vault\<close>

text \<open>
  A shallow embedding of the command-line password manager \<^verbatim>\<open>pwman.mts\<close> and of its
  modules \<^verbatim>\<open>dbState.mts\<close>, \<^verbatim>\<open>db.mts\<close>, \<^verbatim>\<open>credentialCrypto.mts\<close>, \<^verbatim>\<open>csvSpec.mts\<close>,
  \<^verbatim>\<open>utils.mts\<close>, \<^verbatim>\<open>master.mts\<close>, \<^verbatim>\<open>exitHandler.mts\<close> and \<^verbatim>\<open>messages.mts\<close>.

  Conventions of the model.
  \<^item> A JavaScript string is the list of the bytes of its UTF-8 encoding (\<^typ>\<open>string\<close>);
    a \<^verbatim>\<open>Buffer\<close> is a list of bytes as well, so the conversions \<^verbatim>\<open>'utf8'\<close> between the
    two are the identity (the strings of the program are well-formed text: they come from
    the command line, the terminal and files read as UTF-8).
  \<^item> \<^verbatim>\<open>exitWith\<close> throws an object that carries the exit code; every other failure is a
    thrown error with a message. Both are values of the type \<open>abort\<close>, and a
    computation returns \<open>abort + 'a\<close> together with the world it leaves behind.
  \<^item> The world holds what a run of the program can observe and change: the database file,
    the open transaction, the other files, the operator's answers at the terminal, the
    bytes of the system's random source, the schedule of storage faults and the lines
    printed by \<^verbatim>\<open>console.log\<close>.
\<close>

subsection \<open>Exit codes and aborts (exitHandler.mts)\<close>

abbreviation (input) ExitCode_OK :: nat where "ExitCode_OK \<equiv> 0"
abbreviation (input) ExitCode_GENERAL_ERROR :: nat where "ExitCode_GENERAL_ERROR \<equiv> 1"
abbreviation (input) ExitCode_USAGE_ERROR :: nat where "ExitCode_USAGE_ERROR \<equiv> 2"
abbreviation (input) ExitCode_AUTH_ERROR :: nat where "ExitCode_AUTH_ERROR \<equiv> 3"
abbreviation (input) ExitCode_IO_DB_ERROR :: nat where "ExitCode_IO_DB_ERROR \<equiv> 4"

text \<open>
  \<open>Exit code message\<close> is the object thrown by \<^verbatim>\<open>exitWith(code, message)\<close>, after the message
  was written to stdout (code 0) or stderr; \<open>Thrown message\<close> is any other JavaScript error;
  \<open>ProcessExit code\<close> is a direct \<^verbatim>\<open>process.exit(code)\<close>, which no \<^verbatim>\<open>catch\<close> sees;
  \<open>Blocked\<close> is a prompt that waits for a key the operator never types.
\<close>

datatype abort =
    Exit nat "string option"
  | Thrown string
  | ProcessExit nat
  | Blocked

subsection \<open>The persisted database (db.mts)\<close>

text \<open>The answer of \<^verbatim>\<open>PRAGMA integrity_check\<close>: the statement throws, returns no row, or
  returns a row with one text column.\<close>

datatype pragma_result = PragmaThrows | PragmaNoRow | PragmaRow string

record master_row =
  mid :: int
  password_hash :: string
  salt :: string

text \<open>A row of the table \<^verbatim>\<open>credentials\<close>; the same shape is \<^verbatim>\<open>CsvRecord\<close> of csvSpec.mts,
  where \<open>password\<close> is the plaintext.\<close>

record CsvRecord =
  service :: string
  username :: string
  password :: string

text \<open>A database file: a table that does not exist is \<open>None\<close>; rows are kept in
  insertion order.\<close>

record db =
  integrity_check :: pragma_result
  master :: "master_row list option"
  credentials :: "CsvRecord list option"

datatype fsnode = File string | Dir

datatype key = Line string | Interrupt

record world =
  dbfile :: "db option"
  txn :: "db option"
  files :: "string \<Rightarrow> fsnode option"
  tty :: "key list"
  entropy :: "nat \<Rightarrow> char"
  epos :: nat
  faults :: "nat option"
  stdout :: "string list"

text \<open>
  \<open>dbfile\<close> is the content of the file at \<^verbatim>\<open>DB_PATH\<close> as the open connection sees it
  (\<open>None\<close>: there is no file); \<open>txn\<close> is the content saved by \<^verbatim>\<open>BEGIN\<close>, to which
  \<^verbatim>\<open>ROLLBACK\<close> returns (\<open>None\<close>: no transaction is active, as in a fresh process);
  \<open>tty\<close> lists the values with which the prompts of \<^verbatim>\<open>askPassword\<close> and \<^verbatim>\<open>askChoice\<close>
  resolve, in order; \<open>entropy\<close> and \<open>epos\<close> are the random source and the number of bytes
  drawn from it; \<open>faults = Some n\<close> lets the storage engine execute \<open>n\<close> more writing
  statements and makes the next one throw (\<open>None\<close>: the engine never fails).
\<close>

type_synonym 'a comp = "world \<Rightarrow> (abort + 'a) \<times> world"

definition returnS :: "'a \<Rightarrow> 'a comp" where
  "returnS x w = (Inr x, w)"

definition throwS :: "abort \<Rightarrow> 'a comp" where
  "throwS e w = (Inl e, w)"

definition bindS :: "'a comp \<Rightarrow> ('a \<Rightarrow> 'b comp) \<Rightarrow> 'b comp" where
  "bindS m f w = (case m w of (Inl e, w') \<Rightarrow> (Inl e, w') | (Inr x, w') \<Rightarrow> f x w')"

definition liftR :: "(world \<Rightarrow> abort + 'a) \<Rightarrow> 'a comp" where
  "liftR f w = (f w, w)"

text \<open>\<^verbatim>\<open>try { m } catch (e) { h(e) }\<close>: the handler sees what was thrown, an \<^verbatim>\<open>exitWith\<close>
  included; a direct process exit and a prompt that never resolves pass through.\<close>

definition catchS :: "'a comp \<Rightarrow> (abort \<Rightarrow> 'a comp) \<Rightarrow> 'a comp" where
  "catchS m h w =
     (case m w of
        (Inl (Exit c msg), w') \<Rightarrow> h (Exit c msg) w'
      | (Inl (Thrown msg), w') \<Rightarrow> h (Thrown msg) w'
      | (Inl (ProcessExit c), w') \<Rightarrow> (Inl (ProcessExit c), w')
      | (Inl Blocked, w') \<Rightarrow> (Inl Blocked, w')
      | (Inr x, w') \<Rightarrow> (Inr x, w'))"

definition exitWith :: "nat \<Rightarrow> string option \<Rightarrow> 'a comp" where
  "exitWith code message = throwS (Exit code message)"

subsection \<open>The state of the store (dbState.mts)\<close>

datatype DbState = NO_DB | UNINITIALIZED | READY | CORRUPTED

text \<open>\<^verbatim>\<open>SELECT name FROM sqlite_master WHERE type='table' AND name=?\<close>, for the two
  tables of the schema.\<close>

definition tableExists :: "db \<Rightarrow> string \<Rightarrow> bool" where
  "tableExists d name =
     (if name = ''master'' then master d \<noteq> None
      else if name = ''credentials'' then credentials d \<noteq> None
      else False)"

text \<open>\<^verbatim>\<open>SELECT COUNT(*) as count FROM master\<close>.\<close>

definition sql_count_master :: "db \<Rightarrow> abort + nat" where
  "sql_count_master d =
     (case master d of
        None \<Rightarrow> Inl (Thrown ''no such table: master'')
      | Some rows \<Rightarrow> Inr (length rows))"

definition checkDbState :: "world \<Rightarrow> abort + DbState" where
  "checkDbState w =
     (case dbfile w of
        None \<Rightarrow> Inr NO_DB
      | Some d \<Rightarrow>
          if integrity_check d \<noteq> PragmaRow ''ok'' then Inr CORRUPTED
          else
            let hasMaster = tableExists d ''master'';
                hasCredentials = tableExists d ''credentials''
            in if \<not> hasMaster \<and> \<not> hasCredentials then Inr UNINITIALIZED
               else if hasMaster \<noteq> hasCredentials then Inr CORRUPTED
               else (case sql_count_master d of
                       Inl e \<Rightarrow> Inl e
                     | Inr cnt \<Rightarrow>
                         if cnt = 0 then Inr UNINITIALIZED
                         else if cnt = 1 then Inr READY
                         else Inr CORRUPTED))"

definition requireReadyState :: "unit comp" where
  "requireReadyState =
     bindS (liftR checkDbState) (\<lambda>state.
       if state = NO_DB \<or> state = UNINITIALIZED
       then exitWith ExitCode_IO_DB_ERROR (Some ''Database not initialized.'')
       else if state = CORRUPTED
       then exitWith ExitCode_IO_DB_ERROR (Some ''Database corrupted.'')
       else returnS ())"

subsection \<open>The platform library\<close>

text \<open>
  The functions of Node.js that the program calls and does not define: PBKDF2 with
  SHA-256, SHA-256 itself, AES-256-GCM, the base64 codec of \<^verbatim>\<open>Buffer\<close> and the functions
  of \<^verbatim>\<open>node:path\<close>. They are parameters of the model. \<open>gcm_encrypt key iv plain\<close> is the
  pair of the ciphertext and the authentication tag; \<open>gcm_decrypt key iv tag data\<close> is
  \<open>None\<close> when the decipher throws (the tag does not verify, or the key, the nonce or the
  tag is not acceptable).
\<close>

record node =
  pbkdf2Sync :: "string \<Rightarrow> string \<Rightarrow> nat \<Rightarrow> nat \<Rightarrow> string"
  sha256 :: "string \<Rightarrow> string"
  gcm_encrypt :: "string \<Rightarrow> string \<Rightarrow> string \<Rightarrow> string \<times> string"
  gcm_decrypt :: "string \<Rightarrow> string \<Rightarrow> string \<Rightarrow> string \<Rightarrow> string option"
  base64_encode :: "string \<Rightarrow> string"
  base64_decode :: "string \<Rightarrow> string"
  path_extname :: "string \<Rightarrow> string"
  path_dirname :: "string \<Rightarrow> string"
  path_basename :: "string \<Rightarrow> string \<Rightarrow> string"
  path_join :: "string \<Rightarrow> string \<Rightarrow> string"

text \<open>\<^verbatim>\<open>crypto.randomBytes(n)\<close>: the next \<open>n\<close> bytes of the random source.\<close>

definition randomBytes :: "nat \<Rightarrow> string comp" where
  "randomBytes n w = (Inr (map (entropy w) [epos w ..< epos w + n]), w\<lparr>epos := epos w + n\<rparr>)"

text \<open>\<^verbatim>\<open>buf.toString('hex')\<close> and \<^verbatim>\<open>Buffer.from(s, 'hex')\<close>; the latter stops at the first
  pair of characters that is not two hexadecimal digits.\<close>

definition hex_digit :: "nat \<Rightarrow> char" where
  "hex_digit n = (if n < 10 then char_of (48 + n) else char_of (87 + n))"

definition to_hex :: "string \<Rightarrow> string" where
  "to_hex bs = concat (map (\<lambda>b. [hex_digit (of_char b div 16), hex_digit (of_char b mod 16)]) bs)"

definition hex_val :: "char \<Rightarrow> nat option" where
  "hex_val c =
     (let n = (of_char c :: nat)
      in if 48 \<le> n \<and> n \<le> 57 then Some (n - 48)
         else if 97 \<le> n \<and> n \<le> 102 then Some (n - 87)
         else if 65 \<le> n \<and> n \<le> 70 then Some (n - 55)
         else None)"

fun from_hex :: "string \<Rightarrow> string" where
  "from_hex (a # b # rest) =
     (case (hex_val a, hex_val b) of
        (Some x, Some y) \<Rightarrow> char_of (16 * x + y) # from_hex rest
      | _ \<Rightarrow> [])"
| "from_hex _ = []"

text \<open>\<^verbatim>\<open>crypto.timingSafeEqual(a, b)\<close> throws when the lengths differ.\<close>

definition timingSafeEqual :: "string \<Rightarrow> string \<Rightarrow> abort + bool" where
  "timingSafeEqual a b =
     (if length a \<noteq> length b
      then Inl (Thrown ''Input buffers must have the same byte length'')
      else Inr (a = b))"

subsection \<open>Helpers (utils.mts)\<close>

text \<open>\<^verbatim>\<open>s.includes(p)\<close>.\<close>

fun str_includes :: "string \<Rightarrow> string \<Rightarrow> bool" where
  "str_includes [] p = (p = [])"
| "str_includes (c # cs) p = (take (length p) (c # cs) = p \<or> str_includes cs p)"

text \<open>\<^verbatim>\<open>xs[i]\<close>, which is \<^verbatim>\<open>undefined\<close> out of range.\<close>

definition arg :: "string list \<Rightarrow> nat \<Rightarrow> string option" where
  "arg xs i = (if i < length xs then Some (xs ! i) else None)"

text \<open>A string used as a condition is true when it is defined and not empty.\<close>

definition truthy :: "string option \<Rightarrow> bool" where
  "truthy v = (case v of None \<Rightarrow> False | Some s \<Rightarrow> s \<noteq> [])"

text \<open>The regular expression \<^verbatim>\<open>/[\t\r\n]/\<close>.\<close>

definition CONTROL_CHAR_RE_test :: "string \<Rightarrow> bool" where
  "CONTROL_CHAR_RE_test v = list_ex (\<lambda>c. c = CHR 0x09 \<or> c = CHR 0x0D \<or> c = CHR 0x0A) v"

definition Messages_errors_controlChar :: string where
  "Messages_errors_controlChar = ''Error: control characters are not allowed.''"

fun validateNoControlChars :: "string list \<Rightarrow> abort + unit" where
  "validateNoControlChars [] = Inr ()"
| "validateNoControlChars (v # values) =
     (if CONTROL_CHAR_RE_test v
      then Inl (Exit ExitCode_GENERAL_ERROR (Some Messages_errors_controlChar))
      else validateNoControlChars values)"

fun getOption :: "string list \<Rightarrow> string \<Rightarrow> string option" where
  "getOption [] name = None"
| "getOption (a # rest) name =
     (if a = name
      then (if truthy (arg rest 0) then arg rest 0 else None)
      else getOption rest name)"

text \<open>\<^verbatim>\<open>askPassword\<close>: the next answer of the operator; Ctrl+C ends the process with
  code 1.\<close>

definition askPassword :: "string \<Rightarrow> string comp" where
  "askPassword prompt w =
     (case tty w of
        [] \<Rightarrow> (Inl Blocked, w)
      | Interrupt # ks \<Rightarrow> (Inl (ProcessExit 1), w\<lparr>tty := ks\<rparr>)
      | Line s # ks \<Rightarrow> (Inr s, w\<lparr>tty := ks\<rparr>))"

text \<open>\<^verbatim>\<open>askChoice\<close> asks again until the answer is one of the allowed ones.\<close>

fun firstAllowed :: "string list \<Rightarrow> key list \<Rightarrow> (abort + string) \<times> key list" where
  "firstAllowed allowed [] = (Inl Blocked, [])"
| "firstAllowed allowed (Interrupt # ks) = (Inl (ProcessExit 1), ks)"
| "firstAllowed allowed (Line s # ks) =
     (if s \<in> set allowed then (Inr s, ks) else firstAllowed allowed ks)"

definition askChoice :: "string \<Rightarrow> string list \<Rightarrow> string comp" where
  "askChoice prompt allowed w =
     (case firstAllowed allowed (tty w) of (r, ks) \<Rightarrow> (r, w\<lparr>tty := ks\<rparr>))"

subsection \<open>Key derivation and envelopes (credentialCrypto.mts)\<close>

definition ITERATIONS :: nat where "ITERATIONS = 100000"
definition KEY_LEN :: nat where "KEY_LEN = 32"

definition deriveKey :: "node \<Rightarrow> string \<Rightarrow> string \<Rightarrow> string" where
  "deriveKey N masterPw slt = pbkdf2Sync N masterPw slt ITERATIONS KEY_LEN"

definition hashDerivedKey :: "node \<Rightarrow> string \<Rightarrow> string" where
  "hashDerivedKey N k = to_hex (sha256 N k)"

text \<open>\<^verbatim>\<open>createCipheriv('aes-256-gcm', key, iv)\<close> and \<^verbatim>\<open>createDecipheriv\<close> throw unless the
  key has 32 bytes.\<close>

definition encrypt :: "node \<Rightarrow> string \<Rightarrow> string \<Rightarrow> string comp" where
  "encrypt N plain k =
     bindS (randomBytes 12) (\<lambda>iv.
       if length k \<noteq> 32 then throwS (Thrown ''Invalid key length'')
       else (case gcm_encrypt N k iv plain of
               (encrypted, tag) \<Rightarrow> returnS (base64_encode N (iv @ tag @ encrypted))))"

definition decrypt :: "node \<Rightarrow> string \<Rightarrow> string \<Rightarrow> abort + string" where
  "decrypt N cipherText k =
     (let data = base64_decode N cipherText;
          iv = take 12 data;
          tag = take 16 (drop 12 data);
          encrypted = drop 28 data
      in if length k \<noteq> 32 then Inl (Thrown ''Invalid key length'')
         else (case gcm_decrypt N k iv tag encrypted of
                 None \<Rightarrow> Inl (Thrown ''Unsupported state or unable to authenticate data'')
               | Some plain \<Rightarrow> Inr plain))"

subsection \<open>Messages (messages.mts)\<close>

definition Messages_errors_dbNotInitialized :: string where
  "Messages_errors_dbNotInitialized = ''Error: DB is not initialized. Please run init first.''"
definition Messages_errors_dbAlreadyInitialized :: string where
  "Messages_errors_dbAlreadyInitialized = ''Error: DB already initialized.''"
definition Messages_errors_authFailed :: string where
  "Messages_errors_authFailed = ''Error: Authentication failed.''"
definition Messages_errors_masterNotSet :: string where
  "Messages_errors_masterNotSet = ''Error: Master password not set.''"
definition Messages_errors_invalidOldMaster :: string where
  "Messages_errors_invalidOldMaster = ''Error: invalid old master password.''"
definition Messages_errors_pwMismatch :: string where
  "Messages_errors_pwMismatch = ''Error: new master passwords do not match.''"
definition Messages_errors_emptyPassword :: string where
  "Messages_errors_emptyPassword = ''Error: Password cannot be empty.''"
definition Messages_errors_entryNotFound :: string where
  "Messages_errors_entryNotFound = ''Error: Entry not found.''"
definition Messages_errors_ioError :: string where
  "Messages_errors_ioError = ''Error: I/O or DB error.''"
definition Messages_errors_changeMasterFailed :: string where
  "Messages_errors_changeMasterFailed = ''Error: change-master failed''"
definition Messages_errors_exportTargetDir :: string where
  "Messages_errors_exportTargetDir = ''Error: export target must be a file path, not a directory.''"
definition Messages_errors_invalidImportFormat :: string where
  "Messages_errors_invalidImportFormat = ''Error: invalid import format''"
definition Messages_errors_importFailed :: string where
  "Messages_errors_importFailed = ''Error: import failed''"
definition Messages_infos_dbInitialized :: string where
  "Messages_infos_dbInitialized = ''DB initialized.''"
definition Messages_infos_entryDeleted :: string where
  "Messages_infos_entryDeleted = ''Deleted.''"
definition Messages_infos_masterUnchanged :: string where
  "Messages_infos_masterUnchanged = ''Info: master password unchanged.''"
definition Messages_infos_masterChanged :: string where
  "Messages_infos_masterChanged = ''Success: master password changed.''"
definition Messages_infos_exportCanceled :: string where
  "Messages_infos_exportCanceled = ''Canceled.''"
definition Messages_infos_importCanceled :: string where
  "Messages_infos_importCanceled = ''Canceled.''"
definition Messages_infos_initializedYes :: string where
  "Messages_infos_initializedYes = ''Initialized: yes''"
definition Messages_infos_NoData :: string where
  "Messages_infos_NoData = ''No data.''"
definition Messages_prompts_enterMaster :: string where
  "Messages_prompts_enterMaster = ''Enter master password: ''"
definition Messages_prompts_enterNewMaster :: string where
  "Messages_prompts_enterNewMaster = ''Enter new master password: ''"
definition Messages_prompts_confirmNewMaster :: string where
  "Messages_prompts_confirmNewMaster = ''Confirm new master password: ''"
definition Messages_prompts_enterOldMaster :: string where
  "Messages_prompts_enterOldMaster = ''Enter old master password: ''"

text \<open>A number in a template literal: its decimal digits.\<close>

fun show_nat :: "nat \<Rightarrow> string" where
  "show_nat n = (if n < 10 then [char_of (48 + n)] else show_nat (n div 10) @ [char_of (48 + n mod 10)])"

declare show_nat.simps [simp del]

definition Messages_errors_exportDirNotExist :: "string \<Rightarrow> string" where
  "Messages_errors_exportDirNotExist dir = ''Error: output directory does not exist: '' @ dir"
definition Messages_errors_csvCannotGenerateNewFileName :: "string \<Rightarrow> string" where
  "Messages_errors_csvCannotGenerateNewFileName filePath =
     ''Error: could not generate new file name: '' @ filePath"
definition Messages_errors_invalidImportLine :: "nat \<Rightarrow> string" where
  "Messages_errors_invalidImportLine line = ''Error: invalid import line at '' @ show_nat line"
definition Messages_errors_csvExtensionRequired :: "string \<Rightarrow> string \<Rightarrow> string \<Rightarrow> string" where
  "Messages_errors_csvExtensionRequired label ext filePath =
     ''Error: '' @ label @ '' target must end with '' @ [CHR 0x22] @ ext @ [CHR 0x22] @ '': '' @ filePath"
definition Messages_errors_csvImportFileNotFound :: "string \<Rightarrow> string" where
  "Messages_errors_csvImportFileNotFound filePath = ''Error: import file not found: '' @ filePath"
definition Messages_errors_csvImportSourceIsDirectory :: "string \<Rightarrow> string" where
  "Messages_errors_csvImportSourceIsDirectory filePath =
     ''Error: import source is a directory: '' @ filePath"
definition Messages_errors_csvBomNotAllowed :: "string \<Rightarrow> string" where
  "Messages_errors_csvBomNotAllowed filePath =
     ''Error: invalid CSV (BOM not allowed; only pwman-exported CSV is supported): '' @ filePath"
definition Messages_errors_csvCrlfNotAllowed :: "string \<Rightarrow> string" where
  "Messages_errors_csvCrlfNotAllowed filePath =
     ''Error: invalid CSV (CRLF not allowed; only pwman-exported CSV is supported): '' @ filePath"
definition Messages_errors_csvEmpty :: "string \<Rightarrow> string" where
  "Messages_errors_csvEmpty filePath = ''Error: invalid CSV (empty): '' @ filePath"
definition Messages_errors_csvInvalidHeader :: "string \<Rightarrow> string \<Rightarrow> string" where
  "Messages_errors_csvInvalidHeader expected actual =
     ''Error: invalid CSV header. expected '' @ [CHR 0x22] @ expected @ [CHR 0x22] @
     '', got '' @ [CHR 0x22] @ actual @ [CHR 0x22]"
definition Messages_infos_exportRenamedTo :: "string \<Rightarrow> string" where
  "Messages_infos_exportRenamedTo file = ''Info: exporting to '' @ file"
definition Messages_prompts_confirmExportConflict :: "string \<Rightarrow> string" where
  "Messages_prompts_confirmExportConflict file =
     ''File already exists: '' @ file @ [CHR 0x0A] @ ''[o] overwrite  [r] rename  [c] cancel : ''"
definition Messages_prompts_confirmImportReplace :: "nat \<Rightarrow> string" where
  "Messages_prompts_confirmImportReplace cnt =
     ''This will REPLACE existing '' @ show_nat cnt @ '' records. Continue? [y/n]: ''"

subsection \<open>The storage engine (db.mts and the SQL statements of the commands)\<close>

definition empty_db :: db where
  "empty_db = \<lparr>integrity_check = PragmaRow ''ok'', master = None, credentials = None\<rparr>"

text \<open>\<^verbatim>\<open>new DatabaseSync(DB_PATH)\<close> creates the file when there is none.\<close>

definition openDb :: "unit comp" where
  "openDb w = (Inr (), case dbfile w of None \<Rightarrow> w\<lparr>dbfile := Some empty_db\<rparr> | Some d \<Rightarrow> w)"

definition ensureDbExists :: "unit comp" where
  "ensureDbExists w =
     (case dbfile w of
        None \<Rightarrow> exitWith ExitCode_IO_DB_ERROR (Some Messages_errors_dbNotInitialized) w
      | Some d \<Rightarrow> returnS () w)"

text \<open>The engine refuses a statement when the schedule of faults says so.\<close>

definition tick :: "unit comp" where
  "tick w =
     (case faults w of
        None \<Rightarrow> (Inr (), w)
      | Some 0 \<Rightarrow> (Inl (Thrown ''disk I/O error''), w)
      | Some (Suc n) \<Rightarrow> (Inr (), w\<lparr>faults := Some n\<rparr>))"

definition db_write :: "(db \<Rightarrow> abort + 'a \<times> db) \<Rightarrow> 'a comp" where
  "db_write f =
     bindS tick (\<lambda>_ w.
       case dbfile w of
         None \<Rightarrow> (Inl (Thrown ''unable to open database file''), w)
       | Some d \<Rightarrow>
           (case f d of
              Inl e \<Rightarrow> (Inl e, w)
            | Inr (x, d') \<Rightarrow> (Inr x, w\<lparr>dbfile := Some d'\<rparr>)))"

definition db_read :: "(db \<Rightarrow> abort + 'a) \<Rightarrow> 'a comp" where
  "db_read f w =
     (case dbfile w of
        None \<Rightarrow> (Inl (Thrown ''unable to open database file''), w)
      | Some d \<Rightarrow> (f d, w))"

text \<open>\<^verbatim>\<open>BEGIN\<close> saves the content of the database, \<^verbatim>\<open>COMMIT\<close> forgets the saved content,
  \<^verbatim>\<open>ROLLBACK\<close> returns to it. \<^verbatim>\<open>BEGIN\<close> throws inside a transaction, \<^verbatim>\<open>COMMIT\<close> and
  \<^verbatim>\<open>ROLLBACK\<close> throw when no transaction is active. The schedule of faults applies to
  \<^verbatim>\<open>BEGIN\<close>, to \<^verbatim>\<open>COMMIT\<close> and to every writing statement, not to \<^verbatim>\<open>ROLLBACK\<close>: the engine
  never lets the content of a transaction that was not committed be observed.\<close>

definition exec_BEGIN :: "unit comp" where
  "exec_BEGIN =
     bindS tick (\<lambda>_ w.
       case txn w of
         Some saved \<Rightarrow> (Inl (Thrown ''cannot start a transaction within a transaction''), w)
       | None \<Rightarrow>
           (case dbfile w of
              None \<Rightarrow> (Inl (Thrown ''unable to open database file''), w)
            | Some d \<Rightarrow> (Inr (), w\<lparr>txn := Some d\<rparr>)))"

definition exec_COMMIT :: "unit comp" where
  "exec_COMMIT =
     bindS tick (\<lambda>_ w.
       case txn w of
         None \<Rightarrow> (Inl (Thrown ''cannot commit - no transaction is active''), w)
       | Some saved \<Rightarrow> (Inr (), w\<lparr>txn := None\<rparr>))"

definition exec_ROLLBACK :: "unit comp" where
  "exec_ROLLBACK w =
     (case txn w of
        None \<Rightarrow> (Inl (Thrown ''cannot rollback - no transaction is active''), w)
      | Some saved \<Rightarrow> (Inr (), w\<lparr>dbfile := Some saved, txn := None\<rparr>))"

text \<open>\<^verbatim>\<open>SCHEMA_SQL\<close>: both tables are created unless they exist.\<close>

definition sql_schema :: "db \<Rightarrow> abort + unit \<times> db" where
  "sql_schema d =
     Inr ((), d\<lparr>credentials := Some (case credentials d of None \<Rightarrow> [] | Some rows \<Rightarrow> rows),
                master := Some (case master d of None \<Rightarrow> [] | Some rows \<Rightarrow> rows)\<rparr>)"

text \<open>\<^verbatim>\<open>INSERT INTO master (id, password_hash, salt) VALUES (1, ?, ?)\<close>; the column
  \<^verbatim>\<open>id\<close> is the primary key.\<close>

definition sql_insert_master :: "string \<Rightarrow> string \<Rightarrow> db \<Rightarrow> abort + unit \<times> db" where
  "sql_insert_master h s d =
     (case master d of
        None \<Rightarrow> Inl (Thrown ''no such table: master'')
      | Some rows \<Rightarrow>
          if list_ex (\<lambda>r. mid r = 1) rows
          then Inl (Thrown ''UNIQUE constraint failed: master.id'')
          else Inr ((), d\<lparr>master := Some (rows @ [\<lparr>mid = 1, password_hash = h, salt = s\<rparr>])\<rparr>))"

text \<open>\<^verbatim>\<open>UPDATE master SET password_hash=?, salt=? WHERE id=1\<close>.\<close>

definition sql_update_master :: "string \<Rightarrow> string \<Rightarrow> db \<Rightarrow> abort + unit \<times> db" where
  "sql_update_master h s d =
     (case master d of
        None \<Rightarrow> Inl (Thrown ''no such table: master'')
      | Some rows \<Rightarrow>
          Inr ((), d\<lparr>master :=
                 Some (map (\<lambda>r. if mid r = 1 then r\<lparr>password_hash := h, salt := s\<rparr> else r) rows)\<rparr>))"

text \<open>\<^verbatim>\<open>SELECT password_hash, salt FROM master WHERE id = 1\<close>, first row.\<close>

definition sql_select_master :: "db \<Rightarrow> abort + master_row option" where
  "sql_select_master d =
     (case master d of
        None \<Rightarrow> Inl (Thrown ''no such table: master'')
      | Some rows \<Rightarrow> Inr (find (\<lambda>r. mid r = 1) rows))"

text \<open>\<^verbatim>\<open>INSERT INTO credentials (service, username, password) VALUES (?, ?, ?)\<close>; the
  primary key is the pair of the service and the user name.\<close>

definition sql_insert_credentials :: "string \<Rightarrow> string \<Rightarrow> string \<Rightarrow> db \<Rightarrow> abort + unit \<times> db" where
  "sql_insert_credentials s u p d =
     (case credentials d of
        None \<Rightarrow> Inl (Thrown ''no such table: credentials'')
      | Some rows \<Rightarrow>
          if list_ex (\<lambda>r. service r = s \<and> username r = u) rows
          then Inl (Thrown ''UNIQUE constraint failed: credentials.service, credentials.username'')
          else Inr ((), d\<lparr>credentials := Some (rows @ [\<lparr>service = s, username = u, password = p\<rparr>])\<rparr>))"

text \<open>\<^verbatim>\<open>DELETE FROM credentials WHERE service=? AND username=?\<close>, with the number of
  deleted rows.\<close>

definition sql_delete_credential :: "string \<Rightarrow> string \<Rightarrow> db \<Rightarrow> abort + nat \<times> db" where
  "sql_delete_credential s u d =
     (case credentials d of
        None \<Rightarrow> Inl (Thrown ''no such table: credentials'')
      | Some rows \<Rightarrow>
          Inr (length (filter (\<lambda>r. service r = s \<and> username r = u) rows),
               d\<lparr>credentials := Some (filter (\<lambda>r. \<not> (service r = s \<and> username r = u)) rows)\<rparr>))"

text \<open>\<^verbatim>\<open>DELETE FROM credentials\<close>.\<close>

definition sql_delete_credentials :: "db \<Rightarrow> abort + unit \<times> db" where
  "sql_delete_credentials d =
     (case credentials d of
        None \<Rightarrow> Inl (Thrown ''no such table: credentials'')
      | Some rows \<Rightarrow> Inr ((), d\<lparr>credentials := Some []\<rparr>))"

text \<open>\<^verbatim>\<open>SELECT password FROM credentials WHERE service=? AND username=?\<close>, first row.\<close>

definition sql_select_password :: "string \<Rightarrow> string \<Rightarrow> db \<Rightarrow> abort + string option" where
  "sql_select_password s u d =
     (case credentials d of
        None \<Rightarrow> Inl (Thrown ''no such table: credentials'')
      | Some rows \<Rightarrow>
          Inr (map_option password (find (\<lambda>r. service r = s \<and> username r = u) rows)))"

text \<open>\<^verbatim>\<open>SELECT service, username, password FROM credentials\<close>.\<close>

definition sql_select_credentials :: "db \<Rightarrow> abort + CsvRecord list" where
  "sql_select_credentials d =
     (case credentials d of
        None \<Rightarrow> Inl (Thrown ''no such table: credentials'')
      | Some rows \<Rightarrow> Inr rows)"

text \<open>\<^verbatim>\<open>SELECT COUNT(*) FROM credentials\<close>.\<close>

definition sql_count_credentials :: "db \<Rightarrow> abort + nat" where
  "sql_count_credentials d =
     (case credentials d of
        None \<Rightarrow> Inl (Thrown ''no such table: credentials'')
      | Some rows \<Rightarrow> Inr (length rows))"

text \<open>\<^verbatim>\<open>SELECT service, username FROM credentials ORDER BY column direction\<close>. Text is
  compared byte by byte. The engine reads the rows through the index of the primary key
  \<^verbatim>\<open>(service, username)\<close>: ordered by service it returns them in the order of the index,
  backwards for \<^verbatim>\<open>DESC\<close>; ordered by user name it sorts what it read, and rows with equal
  user names stay in the order of the index in both directions.\<close>

definition primary_key_order :: "CsvRecord list \<Rightarrow> CsvRecord list" where
  "primary_key_order rows = sort_key service (sort_key username rows)"

definition sql_select_ordered :: "string \<Rightarrow> string \<Rightarrow> db \<Rightarrow> abort + (string \<times> string) list" where
  "sql_select_ordered orderBy order d =
     (case credentials d of
        None \<Rightarrow> Inl (Thrown ''no such table: credentials'')
      | Some rows \<Rightarrow>
          if orderBy \<noteq> ''service'' \<and> orderBy \<noteq> ''username''
          then Inl (Thrown (''no such column: '' @ orderBy))
          else
            let indexed = primary_key_order rows;
                sorted_rows =
                  (if orderBy = ''service''
                   then (if order = ''DESC'' then rev indexed else indexed)
                   else (if order = ''DESC'' then rev (sort_key username (rev indexed))
                         else sort_key username indexed))
            in Inr (map (\<lambda>r. (service r, username r)) sorted_rows))"

subsection \<open>The master password (master.mts)\<close>

definition verifyMasterPassword :: "node \<Rightarrow> string \<Rightarrow> bool comp" where
  "verifyMasterPassword N inputPw =
     bindS (db_read sql_select_master) (\<lambda>row.
       case row of
         None \<Rightarrow> exitWith ExitCode_GENERAL_ERROR (Some Messages_errors_masterNotSet)
       | Some r \<Rightarrow>
           (let k = deriveKey N inputPw (salt r);
                hash = hashDerivedKey N k
            in liftR (\<lambda>w. timingSafeEqual (from_hex hash) (from_hex (password_hash r)))))"

definition getMasterPassword :: "string list \<Rightarrow> nat \<Rightarrow> string comp" where
  "getMasterPassword args argIndex =
     (case arg args (argIndex + 1) of
        Some v \<Rightarrow>
          if arg args argIndex = Some ''--master'' \<and> v \<noteq> [] then returnS v
          else askPassword Messages_prompts_enterMaster
      | None \<Rightarrow> askPassword Messages_prompts_enterMaster)"

definition askNewMasterWithConfirm :: "string comp" where
  "askNewMasterWithConfirm =
     bindS (askPassword Messages_prompts_enterNewMaster) (\<lambda>pw1.
     bindS (askPassword Messages_prompts_confirmNewMaster) (\<lambda>pw2.
       if pw1 \<noteq> pw2 then exitWith ExitCode_USAGE_ERROR (Some Messages_errors_pwMismatch)
       else returnS pw1))"

definition getMasterSalt :: "string comp" where
  "getMasterSalt =
     bindS (db_read sql_select_master) (\<lambda>row.
       case row of
         None \<Rightarrow> exitWith ExitCode_GENERAL_ERROR (Some Messages_errors_masterNotSet)
       | Some r \<Rightarrow> returnS (salt r))"

subsection \<open>The interchange format (csvSpec.mts)\<close>

definition CsvSpec_extension :: string where "CsvSpec_extension = ''.csv''"
definition CsvSpec_header :: string where "CsvSpec_header = ''service,username,password''"
definition CsvSpec_columns :: nat where "CsvSpec_columns = 3"
definition CsvSpec_newline :: char where "CsvSpec_newline = CHR 0x0A"

text \<open>\<^verbatim>\<open>toLowerCase\<close> on the letters A to Z; no other character becomes one of the
  characters of \<^verbatim>\<open>.csv\<close>.\<close>

definition toLowerCase :: "string \<Rightarrow> string" where
  "toLowerCase s =
     map (\<lambda>c. if 65 \<le> (of_char c :: nat) \<and> (of_char c :: nat) \<le> 90
               then char_of ((of_char c :: nat) + 32) else c) s"

text \<open>\<^verbatim>\<open>s.split(c)\<close> and \<^verbatim>\<open>lines.join(sep)\<close> for a separator of one character.\<close>

fun str_split :: "char \<Rightarrow> string \<Rightarrow> string list" where
  "str_split c [] = [[]]"
| "str_split c (x # xs) =
     (if x = c then [] # str_split c xs
      else (case str_split c xs of
              [] \<Rightarrow> [[x]]
            | l # ls \<Rightarrow> (x # l) # ls))"

fun str_join :: "char \<Rightarrow> string list \<Rightarrow> string" where
  "str_join c [] = []"
| "str_join c [l] = l"
| "str_join c (l # ls) = l @ c # str_join c ls"

definition requireCsvExtension :: "node \<Rightarrow> string \<Rightarrow> string \<Rightarrow> abort + unit" where
  "requireCsvExtension N filePath label =
     (let ext = toLowerCase (path_extname N filePath)
      in if ext \<noteq> CsvSpec_extension
         then Inl (Exit ExitCode_USAGE_ERROR
                (Some (Messages_errors_csvExtensionRequired label CsvSpec_extension filePath)))
         else Inr ())"

definition requireExistingFile :: "string \<Rightarrow> world \<Rightarrow> abort + unit" where
  "requireExistingFile filePath w =
     (case files w filePath of
        None \<Rightarrow> Inl (Exit ExitCode_IO_DB_ERROR (Some (Messages_errors_csvImportFileNotFound filePath)))
      | Some Dir \<Rightarrow>
          Inl (Exit ExitCode_USAGE_ERROR (Some (Messages_errors_csvImportSourceIsDirectory filePath)))
      | Some (File text) \<Rightarrow> Inr ())"

definition validateExportTargetPath :: "node \<Rightarrow> string \<Rightarrow> world \<Rightarrow> abort + unit" where
  "validateExportTargetPath N csvPath w =
     (case requireCsvExtension N csvPath ''export'' of
        Inl e \<Rightarrow> Inl e
      | Inr _ \<Rightarrow>
          if files w csvPath = Some Dir
          then Inl (Exit ExitCode_USAGE_ERROR (Some Messages_errors_exportTargetDir))
          else
            let dir = path_dirname N csvPath
            in if files w dir = None
               then Inl (Exit ExitCode_IO_DB_ERROR (Some (Messages_errors_exportDirNotExist dir)))
               else Inr ())"

text \<open>The first of the candidates numbered 1 to 9999 that does not exist.\<close>

definition suggestNonConflictingPath :: "node \<Rightarrow> string \<Rightarrow> world \<Rightarrow> abort + string" where
  "suggestNonConflictingPath N csvPath w =
     (let dir = path_dirname N csvPath;
          ext = path_extname N csvPath;
          base = path_basename N csvPath ext
      in case find (\<lambda>candidate. files w candidate = None)
                (map (\<lambda>i. path_join N dir (base @ '' ('' @ show_nat i @ '')'' @ ext)) [1 ..< 10000]) of
           Some candidate \<Rightarrow> Inr candidate
         | None \<Rightarrow>
             Inl (Exit ExitCode_IO_DB_ERROR
               (Some (Messages_errors_csvCannotGenerateNewFileName csvPath))))"

fun buildLines :: "CsvRecord list \<Rightarrow> abort + string list" where
  "buildLines [] = Inr []"
| "buildLines (r # rs) =
     (case validateNoControlChars [service r, username r, password r] of
        Inl e \<Rightarrow> Inl e
      | Inr _ \<Rightarrow>
          (case buildLines rs of
             Inl e \<Rightarrow> Inl e
           | Inr ls \<Rightarrow> Inr ((service r @ '','' @ username r @ '','' @ password r) # ls)))"

definition buildCsv :: "CsvRecord list \<Rightarrow> abort + string" where
  "buildCsv records =
     (case buildLines records of
        Inl e \<Rightarrow> Inl e
      | Inr ls \<Rightarrow> Inr (str_join CsvSpec_newline (CsvSpec_header # ls)))"

text \<open>The loop over the data lines; \<open>i\<close> is the index of the first of the lines that
  remain, and the line is the last one exactly when no line follows it.\<close>

fun parseLines :: "nat \<Rightarrow> string list \<Rightarrow> abort + CsvRecord list" where
  "parseLines i [] = Inr []"
| "parseLines i (line # rest) =
     (if line = [] \<and> rest = [] then parseLines (i + 1) rest
      else if line = []
      then Inl (Exit ExitCode_GENERAL_ERROR (Some (Messages_errors_invalidImportLine (i + 1))))
      else
        let parts = str_split (CHR '','') line
        in if length parts \<noteq> CsvSpec_columns
           then Inl (Exit ExitCode_GENERAL_ERROR (Some Messages_errors_invalidImportFormat))
           else
             (case validateNoControlChars [parts ! 0, parts ! 1, parts ! 2] of
                Inl e \<Rightarrow> Inl e
              | Inr _ \<Rightarrow>
                  (case parseLines (i + 1) rest of
                     Inl e \<Rightarrow> Inl e
                   | Inr records \<Rightarrow>
                       Inr (\<lparr>service = parts ! 0, username = parts ! 1, password = parts ! 2\<rparr>
                            # records))))"

text \<open>The checks on the text of the file. A byte order mark is the character U+FEFF,
  the bytes EF BB BF.\<close>

definition parseCsvText :: "string \<Rightarrow> string \<Rightarrow> abort + CsvRecord list" where
  "parseCsvText filePath text =
     (if take 3 text = [CHR 0xEF, CHR 0xBB, CHR 0xBF]
      then Inl (Exit ExitCode_GENERAL_ERROR (Some (Messages_errors_csvBomNotAllowed filePath)))
      else if CHR 0x0D \<in> set text
      then Inl (Exit ExitCode_GENERAL_ERROR (Some (Messages_errors_csvCrlfNotAllowed filePath)))
      else
        (case str_split CsvSpec_newline text of
           [] \<Rightarrow> Inl (Exit ExitCode_GENERAL_ERROR (Some (Messages_errors_csvEmpty filePath)))
         | first # rest \<Rightarrow>
             if first = []
             then Inl (Exit ExitCode_GENERAL_ERROR (Some (Messages_errors_csvEmpty filePath)))
             else if first \<noteq> CsvSpec_header
             then Inl (Exit ExitCode_GENERAL_ERROR
                    (Some (Messages_errors_csvInvalidHeader CsvSpec_header first)))
             else parseLines 1 rest))"

definition parseCsvFileStrict :: "node \<Rightarrow> string \<Rightarrow> world \<Rightarrow> abort + CsvRecord list" where
  "parseCsvFileStrict N filePath w =
     (case requireCsvExtension N filePath ''import'' of
        Inl e \<Rightarrow> Inl e
      | Inr _ \<Rightarrow>
          (case requireExistingFile filePath w of
             Inl e \<Rightarrow> Inl e
           | Inr _ \<Rightarrow>
               (case files w filePath of
                  Some (File text) \<Rightarrow> parseCsvText filePath text
                | _ \<Rightarrow> Inl (Thrown ''EISDIR: illegal operation on a directory, read''))))"

subsection \<open>The commands (pwman.mts)\<close>

definition Messages_usage_init :: string where
  "Messages_usage_init = ''Usage: node pwman.mts init [--master <masterPassword>]''"
definition Messages_usage_add :: string where
  "Messages_usage_add =
     ''Usage: node pwman.mts add <service> <username> <password> [--master <masterPassword>]''"
definition Messages_usage_get :: string where
  "Messages_usage_get = ''Usage: node pwman.mts get <service> <username> [--master <masterPassword>]''"
definition Messages_usage_del :: string where
  "Messages_usage_del = ''Usage: node pwman.mts del <service> <username> [--master <masterPassword>]''"
definition Messages_usage_list :: string where
  "Messages_usage_list = ''Usage: node pwman.mts list [--asc service|username] [--desc service|username]''"
definition Messages_usage_export :: string where
  "Messages_usage_export = ''Usage: node pwman.mts export <csvFilePath> [--master <masterPassword>]''"
definition Messages_usage_import :: string where
  "Messages_usage_import = ''Usage: node pwman.mts import <csvFilePath> [--master <masterPassword>]''"
definition Messages_usage_changeMaster :: string where
  "Messages_usage_changeMaster =
     ''Usage: node pwman.mts change-master [--old-master <oldMasterPassword>] [--new-master <newMasterPassword>]''"
definition Messages_usage_status :: string where
  "Messages_usage_status = ''Usage: node pwman.mts status''"

text \<open>\<^verbatim>\<open>console.log(line)\<close>.\<close>

definition consoleLog :: "string \<Rightarrow> unit comp" where
  "consoleLog line w = (Inr (), w\<lparr>stdout := stdout w @ [line]\<rparr>)"

text \<open>\<^verbatim>\<open>e?.message\<close> of what a \<^verbatim>\<open>catch\<close> received: an error has a message, the object
  thrown by \<^verbatim>\<open>exitWith\<close> has none and prints as \<^verbatim>\<open>[object Object]\<close>.\<close>

definition message_includes :: "abort \<Rightarrow> string \<Rightarrow> bool" where
  "message_includes e p = (case e of Thrown msg \<Rightarrow> str_includes msg p | _ \<Rightarrow> False)"

definition error_text :: "abort \<Rightarrow> string" where
  "error_text e = (case e of Thrown msg \<Rightarrow> msg | _ \<Rightarrow> ''[object Object]'')"

text \<open>\<^verbatim>\<open>try { db.exec('ROLLBACK'); } catch {}\<close>.\<close>

definition tryRollback :: "unit comp" where
  "tryRollback = catchS exec_ROLLBACK (\<lambda>e. returnS ())"

definition cmdInit :: "node \<Rightarrow> string list \<Rightarrow> unit comp" where
  "cmdInit N args =
     (if \<not> (length args = 1 \<or> (length args = 3 \<and> arg args 1 = Some ''--master''))
      then exitWith ExitCode_USAGE_ERROR (Some Messages_usage_init)
      else
        bindS (liftR checkDbState) (\<lambda>state.
          if state = READY
          then exitWith ExitCode_GENERAL_ERROR (Some Messages_errors_dbAlreadyInitialized)
          else if state = CORRUPTED
          then exitWith ExitCode_IO_DB_ERROR (Some ''Database corrupted.'')
          else
            bindS (if length args = 3 then returnS (args ! 2) else askNewMasterWithConfirm)
              (\<lambda>masterPw.
                if masterPw = []
                then exitWith ExitCode_USAGE_ERROR (Some Messages_errors_emptyPassword)
                else
                  bindS openDb (\<lambda>_.
                  bindS
                    (catchS
                      (bindS exec_BEGIN (\<lambda>_.
                       bindS (db_write sql_schema) (\<lambda>_.
                       bindS (randomBytes 16) (\<lambda>bytes.
                         let slt = to_hex bytes;
                             k = deriveKey N masterPw slt;
                             hash = hashDerivedKey N k
                         in bindS (db_write (sql_insert_master hash slt)) (\<lambda>_.
                            exec_COMMIT)))))
                      (\<lambda>err. bindS exec_ROLLBACK (\<lambda>_. throwS err)))
                    (\<lambda>_. exitWith ExitCode_OK (Some Messages_infos_dbInitialized))))))"

definition cmdAdd :: "node \<Rightarrow> string list \<Rightarrow> unit comp" where
  "cmdAdd N args =
     (if \<not> (length args = 4 \<or> length args = 6)
      then exitWith ExitCode_USAGE_ERROR (Some Messages_usage_add)
      else
        bindS requireReadyState (\<lambda>_.
          let svc = args ! 1; usr = args ! 2; pwd = args ! 3
          in
            bindS (getMasterPassword args 4) (\<lambda>masterPw.
            bindS (liftR (\<lambda>w. validateNoControlChars [svc, usr, pwd])) (\<lambda>_.
            bindS openDb (\<lambda>_.
            bindS (verifyMasterPassword N masterPw) (\<lambda>ok.
              if \<not> ok then exitWith ExitCode_AUTH_ERROR (Some Messages_errors_authFailed)
              else
                bindS getMasterSalt (\<lambda>slt.
                  let k = deriveKey N masterPw slt
                  in
                    bindS (encrypt N pwd k) (\<lambda>encrypted.
                    bindS
                      (catchS
                        (bindS exec_BEGIN (\<lambda>_.
                         bindS (db_write (sql_insert_credentials svc usr encrypted)) (\<lambda>_.
                         exec_COMMIT)))
                        (\<lambda>e.
                          bindS tryRollback (\<lambda>_.
                            if message_includes e ''UNIQUE constraint failed''
                            then exitWith ExitCode_GENERAL_ERROR
                                   (Some (''Entry already exists: '' @ svc @ '' '' @ usr))
                            else exitWith ExitCode_IO_DB_ERROR (Some Messages_errors_ioError))))
                      (\<lambda>_. exitWith ExitCode_OK (Some (''Added: '' @ svc @ '' '' @ usr)))))))))))"

definition cmdGet :: "node \<Rightarrow> string list \<Rightarrow> unit comp" where
  "cmdGet N args =
     (if length args < 3 then exitWith ExitCode_USAGE_ERROR (Some Messages_usage_get)
      else
        bindS requireReadyState (\<lambda>_.
          let svc = args ! 1; usr = args ! 2
          in
            bindS (getMasterPassword args 3) (\<lambda>masterPw.
            bindS openDb (\<lambda>_.
            bindS (verifyMasterPassword N masterPw) (\<lambda>ok.
              if \<not> ok then exitWith ExitCode_AUTH_ERROR (Some Messages_errors_authFailed)
              else
                bindS (db_read (sql_select_password svc usr)) (\<lambda>row.
                  case row of
                    None \<Rightarrow> exitWith ExitCode_GENERAL_ERROR (Some Messages_errors_entryNotFound)
                  | Some stored \<Rightarrow>
                      bindS getMasterSalt (\<lambda>slt.
                        let k = deriveKey N masterPw slt
                        in bindS (liftR (\<lambda>w. decrypt N stored k)) (\<lambda>decrypted.
                             exitWith ExitCode_OK
                               (Some (svc @ '', '' @ usr @ '', '' @ decrypted))))))))))"

definition cmdDel :: "node \<Rightarrow> string list \<Rightarrow> unit comp" where
  "cmdDel N args =
     (if length args < 3 then exitWith ExitCode_USAGE_ERROR (Some Messages_usage_del)
      else
        bindS requireReadyState (\<lambda>_.
          let svc = args ! 1; usr = args ! 2
          in
            bindS (getMasterPassword args 3) (\<lambda>masterPw.
            bindS openDb (\<lambda>_.
            bindS (verifyMasterPassword N masterPw) (\<lambda>ok.
              if \<not> ok then exitWith ExitCode_AUTH_ERROR (Some Messages_errors_authFailed)
              else
                bindS
                  (catchS
                    (bindS exec_BEGIN (\<lambda>_.
                     bindS (db_write (sql_delete_credential svc usr)) (\<lambda>changes.
                       if changes = 0
                       then bindS exec_ROLLBACK (\<lambda>_.
                              exitWith ExitCode_GENERAL_ERROR (Some Messages_errors_entryNotFound))
                       else exec_COMMIT)))
                    (\<lambda>e.
                      bindS tryRollback (\<lambda>_.
                        exitWith ExitCode_IO_DB_ERROR
                          (Some (''Error accessing DB: '' @ error_text e)))))
                  (\<lambda>_. exitWith ExitCode_OK (Some Messages_infos_entryDeleted)))))))"

fun logRows :: "(string \<times> string) list \<Rightarrow> unit comp" where
  "logRows [] = returnS ()"
| "logRows (r # rs) = bindS (consoleLog (fst r @ '' '' @ snd r)) (\<lambda>_. logRows rs)"

definition cmdList :: "node \<Rightarrow> string list \<Rightarrow> unit comp" where
  "cmdList N args =
     (if \<not> (length args = 1 \<or> length args = 3)
      then exitWith ExitCode_USAGE_ERROR (Some Messages_usage_list)
      else
        bindS requireReadyState (\<lambda>_.
          if length args = 3 \<and>
             (args ! 1 \<notin> {''--asc'', ''--desc''} \<or> args ! 2 \<notin> {''service'', ''username''})
          then exitWith ExitCode_USAGE_ERROR (Some Messages_usage_list)
          else
            let order = (if length args = 3 \<and> args ! 1 = ''--desc'' then ''DESC'' else ''ASC'');
                orderBy = (if length args = 3 then args ! 2 else ''service'')
            in
              bindS openDb (\<lambda>_.
              bindS (db_read (sql_select_ordered orderBy order)) (\<lambda>rows.
              bindS (if length rows = 0
                     then exitWith ExitCode_OK (Some Messages_infos_NoData)
                     else logRows rows) (\<lambda>_.
                exitWith ExitCode_OK None)))))"

definition cmdStatus :: "node \<Rightarrow> string list \<Rightarrow> unit comp" where
  "cmdStatus N args =
     (if length args \<noteq> 1 then exitWith ExitCode_USAGE_ERROR (Some Messages_usage_status)
      else
        bindS ensureDbExists (\<lambda>_.
        bindS
          (catchS
            (bindS openDb (\<lambda>_.
             bindS (db_read sql_count_credentials) (\<lambda>cnt.
             bindS (consoleLog Messages_infos_initializedYes) (\<lambda>_.
             consoleLog (''Entries: '' @ show_nat cnt)))))
            (\<lambda>e. exitWith ExitCode_IO_DB_ERROR (Some (''Error accessing DB: '' @ error_text e))))
          (\<lambda>_. exitWith ExitCode_OK None)))"

text \<open>\<^verbatim>\<open>rows.map(r => ({..., password: decrypt(r.password, key)}))\<close>: the first row that
  does not decrypt throws.\<close>

fun decryptRows :: "node \<Rightarrow> string \<Rightarrow> CsvRecord list \<Rightarrow> abort + CsvRecord list" where
  "decryptRows N k [] = Inr []"
| "decryptRows N k (r # rs) =
     (case decrypt N (password r) k of
        Inl e \<Rightarrow> Inl e
      | Inr plain \<Rightarrow>
          (case decryptRows N k rs of
             Inl e \<Rightarrow> Inl e
           | Inr plainRows \<Rightarrow>
               Inr (\<lparr>service = service r, username = username r, password = plain\<rparr> # plainRows)))"

text \<open>\<^verbatim>\<open>for (const r of records) insert.run(r.service, r.username, encrypt(r.password, key))\<close>.\<close>

fun insertAll :: "node \<Rightarrow> string \<Rightarrow> CsvRecord list \<Rightarrow> unit comp" where
  "insertAll N k [] = returnS ()"
| "insertAll N k (r # rs) =
     bindS (encrypt N (password r) k) (\<lambda>encrypted.
     bindS (db_write (sql_insert_credentials (service r) (username r) encrypted)) (\<lambda>_.
     insertAll N k rs))"

text \<open>\<^verbatim>\<open>fs.writeFileSync\<close> and \<^verbatim>\<open>fs.renameSync\<close>.\<close>

definition writeFileSync :: "string \<Rightarrow> string \<Rightarrow> unit comp" where
  "writeFileSync path text w =
     (if files w path = Some Dir
      then (Inl (Thrown ''EISDIR: illegal operation on a directory, open''), w)
      else (Inr (), w\<lparr>files := (files w)(path \<mapsto> File text)\<rparr>))"

definition renameSync :: "string \<Rightarrow> string \<Rightarrow> unit comp" where
  "renameSync oldPath newPath w =
     (case files w oldPath of
        None \<Rightarrow> (Inl (Thrown ''ENOENT: no such file or directory, rename''), w)
      | Some node \<Rightarrow> (Inr (), w\<lparr>files := (files w)(oldPath := None, newPath \<mapsto> node)\<rparr>))"

definition cmdExport :: "node \<Rightarrow> string list \<Rightarrow> unit comp" where
  "cmdExport N args =
     (if \<not> (length args = 2 \<or> length args = 4)
      then exitWith ExitCode_USAGE_ERROR (Some Messages_usage_export)
      else
        bindS requireReadyState (\<lambda>_.
          let requestedPath = args ! 1
          in
            bindS (liftR (validateExportTargetPath N requestedPath)) (\<lambda>_.
            bindS
              (\<lambda>w.
                if files w requestedPath \<noteq> None
                then
                  bindS (askChoice (Messages_prompts_confirmExportConflict requestedPath)
                           [''o'', ''r'', ''c'']) (\<lambda>choice.
                    if choice = ''c'' then exitWith ExitCode_OK (Some Messages_infos_exportCanceled)
                    else if choice = ''r''
                    then
                      bindS (liftR (suggestNonConflictingPath N requestedPath)) (\<lambda>renamed.
                      bindS (liftR (validateExportTargetPath N renamed)) (\<lambda>_.
                      bindS (consoleLog (Messages_infos_exportRenamedTo renamed)) (\<lambda>_.
                      returnS renamed)))
                    else returnS requestedPath) w
                else returnS requestedPath w)
              (\<lambda>csvPath.
                let tmpPath = csvPath @ ''.tmp''
                in
                  bindS (getMasterPassword args 2) (\<lambda>masterPw.
                  bindS openDb (\<lambda>_.
                  bindS (verifyMasterPassword N masterPw) (\<lambda>ok.
                    if \<not> ok then exitWith ExitCode_AUTH_ERROR (Some Messages_errors_authFailed)
                    else
                      bindS getMasterSalt (\<lambda>slt.
                        let k = deriveKey N masterPw slt
                        in
                          bindS (db_read sql_select_credentials) (\<lambda>rows.
                          bindS (liftR (\<lambda>w. decryptRows N k rows)) (\<lambda>plainRows.
                          bindS (liftR (\<lambda>w. buildCsv plainRows)) (\<lambda>csv.
                          bindS (writeFileSync tmpPath csv) (\<lambda>_.
                          bindS (renameSync tmpPath csvPath) (\<lambda>_.
                          exitWith ExitCode_OK
                            (Some (''Success: Exported to '' @ csvPath)))))))))))))))"

text \<open>The body of the \<^verbatim>\<open>try\<close> block of \<open>cmdImport\<close>: the replacement of all credentials
  in one transaction.\<close>

definition importTransaction :: "node \<Rightarrow> string \<Rightarrow> CsvRecord list \<Rightarrow> unit comp" where
  "importTransaction N masterPw records =
     bindS getMasterSalt (\<lambda>slt.
       let k = deriveKey N masterPw slt
       in
         bindS exec_BEGIN (\<lambda>_.
         bindS (db_write sql_delete_credentials) (\<lambda>_.
         bindS (insertAll N k records) (\<lambda>_.
         exec_COMMIT))))"

definition cmdImport :: "node \<Rightarrow> string list \<Rightarrow> unit comp" where
  "cmdImport N args =
     (if \<not> (length args = 2 \<or> length args = 4)
      then exitWith ExitCode_USAGE_ERROR (Some Messages_usage_import)
      else
        bindS requireReadyState (\<lambda>_.
          let filePath = args ! 1
          in
            bindS (getMasterPassword args 2) (\<lambda>masterPw.
            bindS openDb (\<lambda>_.
            bindS (verifyMasterPassword N masterPw) (\<lambda>ok.
              if \<not> ok then exitWith ExitCode_AUTH_ERROR (Some Messages_errors_authFailed)
              else
                bindS (liftR (parseCsvFileStrict N filePath)) (\<lambda>records.
                bindS (db_read sql_count_credentials) (\<lambda>cnt.
                bindS
                  (if cnt > 0
                   then bindS (askChoice (Messages_prompts_confirmImportReplace cnt) [''y'', ''n''])
                          (\<lambda>choice.
                            if choice = ''n''
                            then exitWith ExitCode_OK (Some Messages_infos_importCanceled)
                            else returnS ())
                   else returnS ())
                  (\<lambda>_.
                    bindS
                      (catchS (importTransaction N masterPw records)
                        (\<lambda>e.
                          bindS tryRollback (\<lambda>_.
                            exitWith ExitCode_IO_DB_ERROR (Some Messages_errors_importFailed))))
                      (\<lambda>_.
                        exitWith ExitCode_OK
                          (Some (''Success: imported '' @ show_nat (length records)
                                 @ '' records.'')))))))))))"

text \<open>The loop over the arguments of \<^verbatim>\<open>change-master\<close>, from index 1: an option must be
  one of the two allowed ones, and the argument after it is skipped.\<close>

fun changeMasterArgsOk :: "string list \<Rightarrow> bool" where
  "changeMasterArgsOk [] = True"
| "changeMasterArgsOk (a # rest) =
     (if take 2 a = ''--''
      then (if a \<in> {''--old-master'', ''--new-master''} then changeMasterArgsOk (drop 1 rest)
            else False)
      else False)"

text \<open>The body of the \<^verbatim>\<open>try\<close> block of \<open>cmdChangeMaster\<close>: every credential is decrypted
  under the old key; then, in one transaction, the row of \<^verbatim>\<open>master\<close> is updated and the
  credentials are replaced by their encryption under the new key.\<close>

definition changeMasterTransaction :: "node \<Rightarrow> string \<Rightarrow> string \<Rightarrow> unit comp" where
  "changeMasterTransaction N oldPw newPw =
     bindS (db_read sql_select_master) (\<lambda>masterRow.
       case masterRow of
         None \<Rightarrow> throwS (Thrown ''Cannot read properties of undefined (reading salt)'')
       | Some row \<Rightarrow>
           (let oldKey = deriveKey N oldPw (salt row)
            in
              bindS (db_read sql_select_credentials) (\<lambda>encryptedRows.
              bindS (liftR (\<lambda>w. decryptRows N oldKey encryptedRows)) (\<lambda>plainRows.
              bindS (randomBytes 16) (\<lambda>bytes.
                let newSalt = to_hex bytes;
                    newKey = deriveKey N newPw newSalt;
                    newHash = hashDerivedKey N newKey
                in
                  bindS exec_BEGIN (\<lambda>_.
                  bindS (db_write (sql_update_master newHash newSalt)) (\<lambda>_.
                  bindS (db_write sql_delete_credentials) (\<lambda>_.
                  bindS (insertAll N newKey plainRows) (\<lambda>_.
                  exec_COMMIT)))))))))"

definition cmdChangeMaster :: "node \<Rightarrow> string list \<Rightarrow> unit comp" where
  "cmdChangeMaster N args =
     (if \<not> changeMasterArgsOk (drop 1 args)
      then exitWith ExitCode_USAGE_ERROR (Some Messages_usage_changeMaster)
      else
        bindS requireReadyState (\<lambda>_.
        bindS (case getOption args ''--old-master'' of
                 Some v \<Rightarrow> returnS v
               | None \<Rightarrow> askPassword Messages_prompts_enterOldMaster) (\<lambda>oldPw.
        bindS (case getOption args ''--new-master'' of
                 Some v \<Rightarrow> returnS v
               | None \<Rightarrow> askNewMasterWithConfirm) (\<lambda>newPw.
          if oldPw = newPw then exitWith ExitCode_OK (Some Messages_infos_masterUnchanged)
          else
            bindS openDb (\<lambda>_.
            bindS (verifyMasterPassword N oldPw) (\<lambda>ok.
              if \<not> ok
              then exitWith ExitCode_AUTH_ERROR (Some Messages_errors_invalidOldMaster)
              else
                bindS
                  (catchS (changeMasterTransaction N oldPw newPw)
                    (\<lambda>e.
                      bindS tryRollback (\<lambda>_.
                        exitWith ExitCode_GENERAL_ERROR (Some Messages_errors_changeMasterFailed))))
                  (\<lambda>_. exitWith ExitCode_OK (Some Messages_infos_masterChanged))))))))"

definition Messages_usage_help :: string where
  "Messages_usage_help =
     ''Usage:'' @ [CHR 0x0A] @
     ''    node pwman.mts init [--master <masterPassword>]'' @ [CHR 0x0A] @
     ''    node pwman.mts add <service> <username> <password> [--master <masterPassword>]'' @ [CHR 0x0A] @
     ''    node pwman.mts get <service> <username> [--master <masterPassword>]'' @ [CHR 0x0A] @
     ''    node pwman.mts del <service> <username> [--master <masterPassword>]'' @ [CHR 0x0A] @
     ''    node pwman.mts list [--asc service|username] [--desc service|username]'' @ [CHR 0x0A] @
     ''    node pwman.mts export <csvFilePath> [--master <masterPassword>]'' @ [CHR 0x0A] @
     ''    node pwman.mts import <csvFilePath> [--master <masterPassword>]'' @ [CHR 0x0A] @
     ''    node pwman.mts change-master [--old-master <oldMasterPassword>] [--new-master <newMasterPassword>]'' @ [CHR 0x0A] @
     ''    node pwman.mts status''"

text \<open>The dispatch on \<^verbatim>\<open>COMMAND = ARGS[0]\<close>.\<close>

definition dispatch :: "node \<Rightarrow> string list \<Rightarrow> unit comp" where
  "dispatch N args =
     (case arg args 0 of
        None \<Rightarrow>
          exitWith ExitCode_USAGE_ERROR
            (Some (''Unknown command: undefined '' @ [CHR 0x0A] @ Messages_usage_help))
      | Some command \<Rightarrow>
          if command = ''init'' then cmdInit N args
          else if command = ''add'' then cmdAdd N args
          else if command = ''get'' then cmdGet N args
          else if command = ''del'' then cmdDel N args
          else if command = ''list'' then cmdList N args
          else if command = ''status'' then cmdStatus N args
          else if command = ''export'' then cmdExport N args
          else if command = ''import'' then cmdImport N args
          else if command = ''change-master'' then cmdChangeMaster N args
          else if command = ''help'' then exitWith ExitCode_OK (Some Messages_usage_help)
          else exitWith ExitCode_USAGE_ERROR
                 (Some (''Unknown command: '' @ command @ '' '' @ [CHR 0x0A] @ Messages_usage_help)))"

text \<open>The end of the process: the exit code (\<open>None\<close> when the process waits for input
  without end), and the database file, in which a transaction that was not committed
  leaves no trace.\<close>

definition exit_code :: "abort + unit \<Rightarrow> nat option" where
  "exit_code r =
     (case r of
        Inl (Exit code message) \<Rightarrow> Some code
      | Inl (Thrown message) \<Rightarrow> Some ExitCode_GENERAL_ERROR
      | Inl (ProcessExit code) \<Rightarrow> Some code
      | Inl Blocked \<Rightarrow> None
      | Inr _ \<Rightarrow> Some ExitCode_OK)"

definition close_db :: "world \<Rightarrow> world" where
  "close_db w = (case txn w of None \<Rightarrow> w | Some saved \<Rightarrow> w\<lparr>dbfile := Some saved, txn := None\<rparr>)"

definition main :: "node \<Rightarrow> string list \<Rightarrow> world \<Rightarrow> nat option \<times> world" where
  "main N args w = (case dispatch N args w of (r, w') \<Rightarrow> (exit_code r, close_db w'))"

subsection \<open>A small platform and a small vault\<close>

text \<open>
  An executable instance of the platform library, used to run the commands on concrete
  inputs: the key is cut from the password and the salt, the digest is the reversed
  input, the cipher reverses the text and tags it with the first half of the key, the
  base64 codec is the identity and a path has no directories.
\<close>

definition toy_node :: node where
  "toy_node =
     \<lparr>pbkdf2Sync = (\<lambda>pw slt iterations keylen. take keylen (pw @ slt @ replicate keylen (CHR ''0''))),
      sha256 = rev,
      gcm_encrypt = (\<lambda>k iv plain. (rev plain, take 16 k)),
      gcm_decrypt = (\<lambda>k iv tag data.
                       if length k = 32 \<and> length iv = 12 \<and> tag = take 16 k then Some (rev data)
                       else None),
      base64_encode = (\<lambda>bytes. bytes),
      base64_decode = (\<lambda>text. text),
      path_extname = (\<lambda>p. if CHR ''.'' \<in> set p
                            then CHR ''.'' # rev (takeWhile (\<lambda>c. c \<noteq> CHR ''.'') (rev p))
                            else []),
      path_dirname = (\<lambda>p. ''.''),
      path_basename = (\<lambda>p ext. take (length p - length ext) p),
      path_join = (\<lambda>dir file. file)\<rparr>"

definition fresh_world :: world where
  "fresh_world =
     \<lparr>dbfile = None, txn = None,
      files = (\<lambda>p. if p = ''.'' then Some Dir else None),
      tty = [], entropy = (\<lambda>i. CHR ''k''), epos = 0, faults = None, stdout = []\<rparr>"

text \<open>A vault in the state that \<^verbatim>\<open>init\<close> with the master password \<^verbatim>\<open>Passw0rd!\<close> and
  two \<^verbatim>\<open>add\<close> produce on the small platform.\<close>

definition vault_db :: db where
  "vault_db =
     \<lparr>integrity_check = PragmaRow ''ok'',
      master = Some [\<lparr>mid = 1,
         password_hash = ''3662366236623662366236623662366236623662366236216472307773736150'',
         salt = ''6b6b6b6b6b6b6b6b6b6b6b6b6b6b6b6b''\<rparr>],
      credentials = Some
        [\<lparr>service = ''github'', username = ''alice'',
           password = ''kkkkkkkkkkkkPassw0rd!6b6b6b6terc3s''\<rparr>,
         \<lparr>service = ''mail'', username = ''bob'',
           password = ''kkkkkkkkkkkkPassw0rd!6b6b6b62retnuh''\<rparr>]\<rparr>"

definition vault :: world where
  "vault = fresh_world\<lparr>dbfile := Some vault_db\<rparr>"

subsection \<open>Basic facts about the state of the store\<close>

lemma tableExists_master [simp]: "tableExists d ''master'' = (master d \<noteq> None)"
  by (simp add: tableExists_def)

lemma tableExists_credentials [simp]: "tableExists d ''credentials'' = (credentials d \<noteq> None)"
  by (simp add: tableExists_def)

lemma checkDbState_total: "\<exists>s. checkDbState w = Inr s"
  by (auto simp: checkDbState_def sql_count_master_def Let_def split: option.splits)

lemma checkDbState_NO_DB_iff: "checkDbState w = Inr NO_DB \<longleftrightarrow> dbfile w = None"
  by (auto simp: checkDbState_def sql_count_master_def Let_def split: option.splits)

lemma checkDbState_UNINITIALIZED_D:
  "checkDbState w = Inr UNINITIALIZED \<Longrightarrow> dbfile w = Some d \<Longrightarrow>
   integrity_check d = PragmaRow ''ok'' \<and>
   ((master d = None \<and> credentials d = None) \<or> (master d = Some [] \<and> credentials d \<noteq> None))"
  by (auto simp: checkDbState_def sql_count_master_def Let_def split: option.splits if_splits)

subsection \<open>Reasoning about computations\<close>

definition triple :: "(world \<Rightarrow> bool) \<Rightarrow> 'a comp \<Rightarrow> ('a \<Rightarrow> world \<Rightarrow> bool) \<Rightarrow> (abort \<Rightarrow> world \<Rightarrow> bool) \<Rightarrow> bool" where
  "triple P m Q E \<longleftrightarrow> (\<forall>w. P w \<longrightarrow> (case m w of (Inl e, w') \<Rightarrow> E e w' | (Inr x, w') \<Rightarrow> Q x w'))"

lemma tripleD:
  "triple P m Q E \<Longrightarrow> P w \<Longrightarrow> m w = (r, w') \<Longrightarrow> (case r of Inl e \<Rightarrow> E e w' | Inr x \<Rightarrow> Q x w')"
  by (auto simp: triple_def split: sum.splits)

lemma triple_bind:
  "triple P m Q E \<Longrightarrow> (\<And>x. triple (Q x) (f x) R E) \<Longrightarrow> triple P (bindS m f) R E"
  by (fastforce simp: triple_def bindS_def split: prod.splits sum.splits)

lemma triple_returnS: "(\<And>w. P w \<Longrightarrow> Q x w) \<Longrightarrow> triple P (returnS x) Q E"
  by (simp add: triple_def returnS_def)

lemma triple_throwS: "(\<And>w. P w \<Longrightarrow> E e w) \<Longrightarrow> triple P (throwS e) Q E"
  by (simp add: triple_def throwS_def)

lemma triple_exitWith: "(\<And>w. P w \<Longrightarrow> E (Exit c msg) w) \<Longrightarrow> triple P (exitWith c msg) Q E"
  by (simp add: triple_def exitWith_def throwS_def)

lemma triple_if:
  "(c \<Longrightarrow> triple P a Q E) \<Longrightarrow> (\<not> c \<Longrightarrow> triple P b Q E) \<Longrightarrow> triple P (if c then a else b) Q E"
  by simp

lemma triple_case_option:
  "(v = None \<Longrightarrow> triple P a Q E) \<Longrightarrow> (\<And>x. v = Some x \<Longrightarrow> triple P (b x) Q E)
   \<Longrightarrow> triple P (case v of None \<Rightarrow> a | Some x \<Rightarrow> b x) Q E"
  by (cases v) auto

definition catchable :: "abort \<Rightarrow> bool" where
  "catchable e = (case e of Exit c msg \<Rightarrow> True | Thrown msg \<Rightarrow> True | ProcessExit c \<Rightarrow> False | Blocked \<Rightarrow> False)"

lemma catchable_simps [simp]:
  "catchable (Exit c msg)" "catchable (Thrown m)" "\<not> catchable (ProcessExit c)" "\<not> catchable Blocked"
  by (simp_all add: catchable_def)

lemma triple_catch:
  assumes "triple P m Q E'" and "\<And>e w. E' e w \<Longrightarrow> catchable e"
    and "\<And>e. triple (E' e) (h e) Q E"
  shows "triple P (catchS m h) Q E"
  unfolding triple_def
proof (intro allI impI)
  fix w assume "P w"
  obtain r w' where run: "m w = (r, w')" by (cases "m w")
  from tripleD[OF assms(1) \<open>P w\<close> run] show "case catchS m h w of (Inl e, w') \<Rightarrow> E e w' | (Inr x, w') \<Rightarrow> Q x w'"
  proof (cases r)
    case (Inr x)
    with run tripleD[OF assms(1) \<open>P w\<close> run] show ?thesis by (simp add: catchS_def)
  next
    case (Inl e)
    with tripleD[OF assms(1) \<open>P w\<close> run] have E': "E' e w'" by simp
    then have "catchable e" by (rule assms(2))
    then have "catchS m h w = h e w'" using run Inl by (cases e) (simp_all add: catchS_def)
    moreover from assms(3)[of e] E' have "case h e w' of (Inl e, w') \<Rightarrow> E e w' | (Inr x, w') \<Rightarrow> Q x w'"
      by (simp add: triple_def)
    ultimately show ?thesis by simp
  qed
qed

text \<open>The content of the database file when no transaction is open, and the content to
  which an open transaction rolls back.\<close>

definition idle :: "db option \<Rightarrow> world \<Rightarrow> bool" where
  "idle D w \<longleftrightarrow> dbfile w = D \<and> txn w = None"

definition open_txn :: "db option \<Rightarrow> world \<Rightarrow> bool" where
  "open_txn D w \<longleftrightarrow> txn w = D \<and> D \<noteq> None"

definition in_try :: "db option \<Rightarrow> abort \<Rightarrow> world \<Rightarrow> bool" where
  "in_try D e w \<longleftrightarrow> catchable e \<and> (idle D w \<or> open_txn D w)"

definition stable :: "'a comp \<Rightarrow> bool" where
  "stable m \<longleftrightarrow> (\<forall>w. dbfile (snd (m w)) = dbfile w \<and> txn (snd (m w)) = txn w)"

definition quiet :: "'a comp \<Rightarrow> bool" where
  "quiet m \<longleftrightarrow> (\<forall>w e. fst (m w) = Inl e \<longrightarrow> catchable e)"

definition res_ok :: "abort + 'a \<Rightarrow> bool" where
  "res_ok r \<longleftrightarrow> (\<forall>e. r = Inl e \<longrightarrow> catchable e)"

lemma res_ok_simps [simp]: "res_ok (Inr x)" "res_ok (Inl e) = catchable e"
  by (simp_all add: res_ok_def)

lemma stable_returnS [simp]: "stable (returnS x)" by (simp add: stable_def returnS_def)
lemma stable_throwS [simp]: "stable (throwS e)" by (simp add: stable_def throwS_def)
lemma stable_exitWith [simp]: "stable (exitWith c msg)" by (simp add: exitWith_def)
lemma stable_liftR [simp]: "stable (liftR f)" by (simp add: stable_def liftR_def)
lemma stable_db_read [simp]: "stable (db_read f)"
  by (simp add: stable_def db_read_def split: option.splits)
lemma stable_randomBytes [simp]: "stable (randomBytes n)" by (simp add: stable_def randomBytes_def)
lemma stable_consoleLog [simp]: "stable (consoleLog l)" by (simp add: stable_def consoleLog_def)
lemma stable_askPassword [simp]: "stable (askPassword p)"
  by (auto simp: stable_def askPassword_def split: list.splits key.splits)
lemma stable_askChoice [simp]: "stable (askChoice p allowed)"
  by (auto simp: stable_def askChoice_def split: prod.splits)

lemma stable_bind: "stable m \<Longrightarrow> (\<And>x. stable (f x)) \<Longrightarrow> stable (bindS m f)"
  by (auto simp: stable_def bindS_def split: prod.splits sum.splits) (metis snd_conv)+

lemma stable_if: "(c \<Longrightarrow> stable a) \<Longrightarrow> (\<not> c \<Longrightarrow> stable b) \<Longrightarrow> stable (if c then a else b)"
  by simp

lemma stable_case_option:
  "stable a \<Longrightarrow> (\<And>x. stable (b x)) \<Longrightarrow> stable (case v of None \<Rightarrow> a | Some x \<Rightarrow> b x)"
  by (cases v) auto

lemmas stable_intros = stable_bind stable_if stable_case_option

lemma stable_getMasterPassword [simp]: "stable (getMasterPassword args i)"
  unfolding getMasterPassword_def by (intro stable_intros) simp_all

lemma stable_askNewMasterWithConfirm [simp]: "stable askNewMasterWithConfirm"
  unfolding askNewMasterWithConfirm_def by (intro stable_intros) simp_all

lemma stable_verifyMasterPassword [simp]: "stable (verifyMasterPassword N pw)"
  unfolding verifyMasterPassword_def Let_def by (intro stable_intros) simp_all

lemma stable_getMasterSalt [simp]: "stable getMasterSalt"
  unfolding getMasterSalt_def by (intro stable_intros) simp_all

lemma stable_requireReadyState [simp]: "stable requireReadyState"
  unfolding requireReadyState_def by (intro stable_intros) simp_all

lemma stable_encrypt [simp]: "stable (encrypt N p k)"
  unfolding encrypt_def by (intro stable_intros) (simp_all split: prod.splits)

lemma quiet_returnS [simp]: "quiet (returnS x)" by (simp add: quiet_def returnS_def)
lemma quiet_throwS [simp]: "quiet (throwS e) = catchable e" by (simp add: quiet_def throwS_def)
lemma quiet_exitWith [simp]: "quiet (exitWith c msg)" by (simp add: exitWith_def)
lemma quiet_liftR: "(\<And>w. res_ok (f w)) \<Longrightarrow> quiet (liftR f)"
  by (auto simp: quiet_def liftR_def res_ok_def)
lemma quiet_db_read: "(\<And>d. res_ok (f d)) \<Longrightarrow> quiet (db_read f)"
  by (auto simp: quiet_def db_read_def res_ok_def split: option.splits)
lemma quiet_randomBytes [simp]: "quiet (randomBytes n)" by (simp add: quiet_def randomBytes_def)

lemma quiet_bind: "quiet m \<Longrightarrow> (\<And>x. quiet (f x)) \<Longrightarrow> quiet (bindS m f)"
  unfolding quiet_def bindS_def
  by (auto split: prod.splits sum.splits) (metis fst_conv)+

lemma quiet_if: "(c \<Longrightarrow> quiet a) \<Longrightarrow> (\<not> c \<Longrightarrow> quiet b) \<Longrightarrow> quiet (if c then a else b)"
  by simp

lemma quiet_case_option:
  "quiet a \<Longrightarrow> (\<And>x. quiet (b x)) \<Longrightarrow> quiet (case v of None \<Rightarrow> a | Some x \<Rightarrow> b x)"
  by (cases v) auto

lemmas quiet_intros = quiet_bind quiet_if quiet_case_option quiet_liftR quiet_db_read

lemma quiet_encrypt [simp]: "quiet (encrypt N p k)"
  unfolding encrypt_def by (intro quiet_intros) (simp_all split: prod.splits)

lemma res_ok_sql [simp]:
  "res_ok (sql_select_master d)" "res_ok (sql_select_credentials d)"
  "res_ok (sql_count_credentials d)" "res_ok (sql_select_password s u d)"
  "res_ok (sql_update_master h sl d)" "res_ok (sql_delete_credentials d)"
  "res_ok (sql_insert_credentials s u p d)" "res_ok (sql_insert_master h sl d)"
  "res_ok (sql_schema d)" "res_ok (sql_delete_credential s u d)"
  by (simp_all add: sql_select_master_def sql_select_credentials_def sql_count_credentials_def
      sql_select_password_def sql_update_master_def sql_delete_credentials_def
      sql_insert_credentials_def sql_insert_master_def sql_schema_def sql_delete_credential_def
      split: option.splits)

lemma quiet_getMasterSalt [simp]: "quiet getMasterSalt"
  unfolding getMasterSalt_def by (intro quiet_intros) simp_all

lemma res_ok_decrypt [simp]: "res_ok (decrypt N c k)"
  by (simp add: decrypt_def Let_def split: option.splits)

lemma res_ok_decryptRows [simp]: "res_ok (decryptRows N k rows)"
proof (induction rows)
  case Nil
  show ?case by simp
next
  case (Cons r rows)
  have "res_ok (decrypt N (password r) k)" by simp
  with Cons show ?case by (auto simp: res_ok_def split: sum.splits)
qed


subsection \<open>Transactions\<close>

lemma triple_stable_idle:
  "stable m \<Longrightarrow> (\<And>e w. idle D w \<Longrightarrow> E e w) \<Longrightarrow> triple (idle D) m (\<lambda>x. idle D) E"
  unfolding triple_def stable_def idle_def
  by (auto split: prod.splits sum.splits) (metis snd_conv)+

lemma triple_try_idle:
  "stable m \<Longrightarrow> quiet m \<Longrightarrow> triple (idle D) m (\<lambda>x. idle D) (in_try D)"
  unfolding triple_def stable_def quiet_def idle_def in_try_def
  by (auto split: prod.splits sum.splits) (metis fst_conv snd_conv)+

lemma triple_try_open:
  "stable m \<Longrightarrow> quiet m \<Longrightarrow> triple (open_txn D) m (\<lambda>x. open_txn D) (in_try D)"
  unfolding triple_def stable_def quiet_def open_txn_def in_try_def
  by (auto split: prod.splits sum.splits) (metis fst_conv snd_conv)+

lemma triple_BEGIN: "triple (idle D) exec_BEGIN (\<lambda>x. open_txn D) (in_try D)"
  by (auto simp: triple_def exec_BEGIN_def bindS_def tick_def idle_def open_txn_def in_try_def
      split: option.splits nat.splits)

lemma triple_db_write:
  "(\<And>d. res_ok (f d)) \<Longrightarrow> triple (open_txn D) (db_write f) (\<lambda>x. open_txn D) (in_try D)"
  by (auto simp: triple_def db_write_def bindS_def tick_def open_txn_def in_try_def res_ok_def
      split: option.splits nat.splits sum.splits)

lemma triple_COMMIT: "triple (open_txn D) exec_COMMIT (\<lambda>x w. txn w = None) (in_try D)"
  by (auto simp: triple_def exec_COMMIT_def bindS_def tick_def open_txn_def in_try_def
      split: option.splits nat.splits)

lemma triple_insertAll:
  "triple (open_txn D) (insertAll N k rows) (\<lambda>x. open_txn D) (in_try D)"
proof (induction rows)
  case Nil
  show ?case by (simp add: triple_returnS)
next
  case (Cons r rows)
  show ?case
    unfolding insertAll.simps
    by (intro triple_bind[where Q = "\<lambda>x. open_txn D"] triple_try_open triple_db_write Cons) simp_all
qed

lemma tryRollback_restores:
  "idle D w \<or> open_txn D w \<Longrightarrow> \<exists>w'. tryRollback w = (Inr (), w') \<and> idle D w'"
  by (auto simp: tryRollback_def catchS_def exec_ROLLBACK_def returnS_def idle_def open_txn_def
      split: option.splits)

lemma triple_handler:
  assumes "\<And>w. idle D w \<Longrightarrow> E (Exit c msg) w"
  shows "triple (in_try D e) (bindS tryRollback (\<lambda>x. exitWith c msg)) Q E"
  unfolding triple_def
proof (intro allI impI)
  fix w assume "in_try D e w"
  then have "idle D w \<or> open_txn D w" by (simp add: in_try_def)
  then obtain w' where "tryRollback w = (Inr (), w')" "idle D w'"
    using tryRollback_restores by blast
  then show "case bindS tryRollback (\<lambda>x. exitWith c msg) w of
               (Inl e, w') \<Rightarrow> E e w' | (Inr x, w') \<Rightarrow> Q x w'"
    using assms by (simp add: bindS_def exitWith_def throwS_def)
qed

lemma triple_try_block:
  assumes "triple (idle D) body (\<lambda>x w. txn w = None) (in_try D)"
    and "\<And>w. idle D w \<Longrightarrow> E (Exit c msg) w"
  shows "triple (idle D) (catchS body (\<lambda>e. bindS tryRollback (\<lambda>x. exitWith c msg)))
           (\<lambda>x w. txn w = None) E"
  using assms(1)
proof (rule triple_catch)
  show "\<And>e w. in_try D e w \<Longrightarrow> catchable e" by (simp add: in_try_def)
  show "\<And>e. triple (in_try D e) (bindS tryRollback (\<lambda>x. exitWith c msg)) (\<lambda>x w. txn w = None) E"
    by (rule triple_handler) (rule assms(2))
qed

lemma checkDbState_READY_Some: "checkDbState w = Inr READY \<Longrightarrow> dbfile w \<noteq> None"
  by (auto simp: checkDbState_def split: option.splits)

lemma checkDbState_cong: "dbfile w' = dbfile w \<Longrightarrow> checkDbState w' = checkDbState w"
  by (simp add: checkDbState_def)

text \<open>Past \<open>requireReadyState\<close> the store is ready, and the database file exists.\<close>

lemma triple_requireReady:
  assumes "\<And>e w. idle D w \<Longrightarrow> E e w"
    and "D \<noteq> None \<Longrightarrow> triple (idle D) (f ()) Q E"
  shows "triple (idle D) (bindS requireReadyState f) Q E"
  unfolding triple_def
proof (intro allI impI)
  fix w assume w: "idle D w"
  obtain s where s: "checkDbState w = Inr s" using checkDbState_total by blast
  show "case bindS requireReadyState f w of (Inl e, w') \<Rightarrow> E e w' | (Inr x, w') \<Rightarrow> Q x w'"
  proof (cases "s = READY")
    case True
    with s have "D \<noteq> None" using checkDbState_READY_Some w by (auto simp: idle_def)
    from assms(2)[OF this] w have "case f () w of (Inl e, w') \<Rightarrow> E e w' | (Inr x, w') \<Rightarrow> Q x w'"
      by (simp add: triple_def)
    moreover have "bindS requireReadyState f w = f () w"
      using s True by (simp add: requireReadyState_def bindS_def liftR_def returnS_def)
    ultimately show ?thesis by simp
  next
    case False
    then have "\<exists>e. bindS requireReadyState f w = (Inl e, w)"
      using s by (cases s) (simp_all add: requireReadyState_def bindS_def liftR_def exitWith_def throwS_def)
    then show ?thesis using assms(1)[OF w] by auto
  qed
qed

lemma triple_openDb:
  "D \<noteq> None \<Longrightarrow> triple (idle D) openDb (\<lambda>x. idle D) E"
  by (auto simp: triple_def openDb_def idle_def split: option.splits)

subsection \<open>Running the first steps of a command\<close>

lemmas run_defs =
  bindS_def returnS_def throwS_def liftR_def catchS_def exitWith_def Let_def
  checkDbState_def requireReadyState_def sql_count_master_def
  verifyMasterPassword_def getMasterPassword_def getMasterSalt_def askPassword_def askChoice_def
  askNewMasterWithConfirm_def arg_def truthy_def
  db_read_def db_write_def tick_def openDb_def ensureDbExists_def
  exec_BEGIN_def exec_COMMIT_def exec_ROLLBACK_def tryRollback_def
  sql_schema_def sql_insert_master_def sql_update_master_def sql_select_master_def
  sql_insert_credentials_def sql_delete_credential_def sql_delete_credentials_def
  sql_select_password_def sql_select_credentials_def sql_count_credentials_def sql_select_ordered_def
  deriveKey_def hashDerivedKey_def encrypt_def decrypt_def randomBytes_def
  ITERATIONS_def KEY_LEN_def to_hex_def hex_digit_def hex_val_def timingSafeEqual_def char_of_eq_iff
  consoleLog_def message_includes_def error_text_def
  toy_node_def fresh_world_def vault_def vault_db_def

lemma verifyMasterPassword_dbfile:
  "dbfile w' = dbfile w \<Longrightarrow> fst (verifyMasterPassword N pw w') = fst (verifyMasterPassword N pw w)"
  by (simp add: verifyMasterPassword_def bindS_def db_read_def liftR_def exitWith_def throwS_def Let_def
      split: option.splits sum.splits)

lemma requireReadyState_READY:
  "checkDbState w = Inr READY \<Longrightarrow> requireReadyState w = (Inr (), w)"
  by (simp add: requireReadyState_def bindS_def liftR_def returnS_def)

lemma requireReadyState_not_initialized:
  "checkDbState w = Inr s \<Longrightarrow> s = NO_DB \<or> s = UNINITIALIZED \<Longrightarrow>
   requireReadyState w = (Inl (Exit ExitCode_IO_DB_ERROR (Some ''Database not initialized.'')), w)"
  by (auto simp: requireReadyState_def bindS_def liftR_def exitWith_def throwS_def)

lemma requireReadyState_corrupted:
  "checkDbState w = Inr CORRUPTED \<Longrightarrow>
   requireReadyState w = (Inl (Exit ExitCode_IO_DB_ERROR (Some ''Database corrupted.'')), w)"
  by (auto simp: requireReadyState_def bindS_def liftR_def exitWith_def throwS_def)

lemma openDb_existing: "dbfile w \<noteq> None \<Longrightarrow> openDb w = (Inr (), w)"
  by (auto simp: openDb_def)

lemma askPassword_frame: "askPassword p w = (r, w1) \<Longrightarrow> w1 = w\<lparr>tty := tty w1\<rparr>"
  by (auto simp: askPassword_def split: list.splits key.splits)

lemma askChoice_frame: "askChoice p allowed w = (r, w1) \<Longrightarrow> w1 = w\<lparr>tty := tty w1\<rparr>"
  by (auto simp: askChoice_def split: prod.splits)

lemma getMasterPassword_frame: "getMasterPassword args i w = (r, w1) \<Longrightarrow> w1 = w\<lparr>tty := tty w1\<rparr>"
  by (auto simp: getMasterPassword_def returnS_def dest: askPassword_frame split: option.splits if_splits)

lemma askNewMasterWithConfirm_frame:
  "askNewMasterWithConfirm w = (r, w1) \<Longrightarrow> w1 = w\<lparr>tty := tty w1\<rparr>"
  unfolding askNewMasterWithConfirm_def bindS_def
  apply (auto simp: returnS_def exitWith_def throwS_def split: prod.splits sum.splits if_splits dest!: askPassword_frame)
     apply (metis (no_types) world.surjective world.update_convs(4))+
  done


lemma logRows_run:
  "logRows rows w = (Inr (), w\<lparr>stdout := stdout w @ map (\<lambda>r. fst r @ '' '' @ snd r) rows\<rparr>)"
proof (induction rows arbitrary: w)
  case Nil
  show ?case by (simp add: returnS_def)
next
  case (Cons r rows)
  show ?case by (simp add: bindS_def consoleLog_def Cons)
qed

definition tty_only :: "world \<Rightarrow> world \<Rightarrow> bool" where
  "tty_only w w1 \<longleftrightarrow> w1 = w\<lparr>tty := tty w1\<rparr>"

lemma tty_only_fields:
  assumes "tty_only w w1"
  shows "dbfile w1 = dbfile w" "txn w1 = txn w" "files w1 = files w" "faults w1 = faults w"
    "stdout w1 = stdout w" "entropy w1 = entropy w" "epos w1 = epos w"
proof -
  from assms have eq: "w1 = w\<lparr>tty := tty w1\<rparr>" by (simp add: tty_only_def)
  show "dbfile w1 = dbfile w" by (subst eq) simp
  show "txn w1 = txn w" by (subst eq) simp
  show "files w1 = files w" by (subst eq) simp
  show "faults w1 = faults w" by (subst eq) simp
  show "stdout w1 = stdout w" by (subst eq) simp
  show "entropy w1 = entropy w" by (subst eq) simp
  show "epos w1 = epos w" by (subst eq) simp
qed

lemma tty_only_refl [simp]: "tty_only w w"
  by (simp add: tty_only_def)

lemma tty_only_trans: "tty_only w w1 \<Longrightarrow> tty_only w1 w2 \<Longrightarrow> tty_only w w2"
proof -
  assume "tty_only w w1" and "tty_only w1 w2"
  then have "w1 = w\<lparr>tty := tty w1\<rparr>" and "w2 = w1\<lparr>tty := tty w2\<rparr>"
    by (simp_all add: tty_only_def)
  then have "w2 = (w\<lparr>tty := tty w1\<rparr>)\<lparr>tty := tty w2\<rparr>" by simp
  then have "w2 = w\<lparr>tty := tty w2\<rparr>" by simp
  then show ?thesis by (simp add: tty_only_def)
qed

lemma askPassword_tty: "askPassword p w = (r, w1) \<Longrightarrow> tty_only w w1"
  unfolding tty_only_def by (rule askPassword_frame)

lemma askChoice_tty: "askChoice p allowed w = (r, w1) \<Longrightarrow> tty_only w w1"
  unfolding tty_only_def by (rule askChoice_frame)

lemma getMasterPassword_tty: "getMasterPassword args i w = (r, w1) \<Longrightarrow> tty_only w w1"
  unfolding tty_only_def by (rule getMasterPassword_frame)

lemma askNewMasterWithConfirm_tty: "askNewMasterWithConfirm w = (r, w1) \<Longrightarrow> tty_only w w1"
  unfolding tty_only_def by (rule askNewMasterWithConfirm_frame)

lemma option_or_ask_tty:
  "(case v of Some x \<Rightarrow> returnS x | None \<Rightarrow> m) w = (r, w1) \<Longrightarrow>
   (\<And>r w1. m w = (r, w1) \<Longrightarrow> tty_only w w1) \<Longrightarrow> tty_only w w1"
  by (cases v) (auto simp: returnS_def)

lemma verifyMasterPassword_reads: "snd (verifyMasterPassword N pw w) = w"
  by (simp add: verifyMasterPassword_def bindS_def db_read_def liftR_def exitWith_def throwS_def Let_def
      split: option.splits sum.splits)

lemma verifyMasterPassword_run:
  "dbfile w1 = dbfile w \<Longrightarrow>
   verifyMasterPassword N pw w1 = (fst (verifyMasterPassword N pw w), w1)"
  using verifyMasterPassword_reads[of N pw w1] verifyMasterPassword_dbfile[of w1 w N pw]
  by (metis prod.collapse)

lemma checkDbState_dbfile: "dbfile w1 = dbfile w \<Longrightarrow> checkDbState w1 = checkDbState w"
  by (simp add: checkDbState_def)

lemma parseCsvFileStrict_files:
  "files w1 = files w \<Longrightarrow> parseCsvFileStrict N p w1 = parseCsvFileStrict N p w"
proof -
  assume f: "files w1 = files w"
  then have eq: "requireExistingFile p w1 = requireExistingFile p w"
    by (simp add: requireExistingFile_def)
  show ?thesis unfolding parseCsvFileStrict_def eq f by (rule refl)
qed

text \<open>A file whose second data line has two fields.\<close>

definition malformed_csv :: string where
  "malformed_csv = ''service,username,password'' @ [CHR 0x0A] @ ''a,b,c'' @ [CHR 0x0A] @ ''d,e''"

lemmas csv_defs =
  parseCsvFileStrict_def parseCsvText_def requireCsvExtension_def requireExistingFile_def
  toLowerCase_def CsvSpec_extension_def CsvSpec_header_def CsvSpec_columns_def CsvSpec_newline_def
  CONTROL_CHAR_RE_test_def malformed_csv_def


subsection \<open>Statements counted against the schedule of faults\<close>

lemma tick_Inr:
  "tick w = (Inr x, w') \<Longrightarrow> faults w = Some k \<Longrightarrow> 0 < k \<and> faults w' = Some (k - 1)"
  by (auto simp: tick_def split: option.splits nat.splits)

lemma db_write_Inr:
  "db_write f w = (Inr x, w') \<Longrightarrow> faults w = Some k \<Longrightarrow> 0 < k \<and> faults w' = Some (k - 1)"
  by (auto simp: db_write_def bindS_def tick_def split: option.splits nat.splits sum.splits prod.splits)

lemma exec_BEGIN_Inr:
  "exec_BEGIN w = (Inr x, w') \<Longrightarrow> faults w = Some k \<Longrightarrow> 0 < k \<and> faults w' = Some (k - 1)"
  by (auto simp: exec_BEGIN_def bindS_def tick_def split: option.splits nat.splits sum.splits prod.splits)

lemma exec_COMMIT_Inr:
  "exec_COMMIT w = (Inr x, w') \<Longrightarrow> faults w = Some k \<Longrightarrow> 0 < k \<and> faults w' = Some (k - 1)"
  by (auto simp: exec_COMMIT_def bindS_def tick_def split: option.splits nat.splits sum.splits prod.splits)

lemma encrypt_faults: "encrypt N p k w = (r, w') \<Longrightarrow> faults w' = faults w"
  by (auto simp: encrypt_def bindS_def randomBytes_def returnS_def throwS_def split: if_splits prod.splits)

lemma bindS_Inr:
  "bindS m f w = (Inr y, w') \<Longrightarrow> \<exists>x w1. m w = (Inr x, w1) \<and> f x w1 = (Inr y, w')"
  by (auto simp: bindS_def split: prod.splits sum.splits)

lemma insertAll_Inr:
  "insertAll N key rows w = (Inr x, w') \<Longrightarrow> faults w = Some k \<Longrightarrow>
   length rows \<le> k \<and> faults w' = Some (k - length rows)"
proof (induction rows arbitrary: w k)
  case Nil
  then show ?case by (simp add: returnS_def)
next
  case (Cons r rows)
  from Cons.prems(1)
  have "bindS (encrypt N (password r) key) (\<lambda>encrypted.
          bindS (db_write (sql_insert_credentials (service r) (username r) encrypted))
            (\<lambda>_. insertAll N key rows)) w = (Inr x, w')"
    by simp
  from bindS_Inr[OF this] obtain enc w1 where e: "encrypt N (password r) key w = (Inr enc, w1)"
    and rest1: "bindS (db_write (sql_insert_credentials (service r) (username r) enc))
                  (\<lambda>_. insertAll N key rows) w1 = (Inr x, w')"
    by blast
  from bindS_Inr[OF rest1] obtain u w2
    where wr: "db_write (sql_insert_credentials (service r) (username r) enc) w1 = (Inr u, w2)"
    and rest2: "insertAll N key rows w2 = (Inr x, w')"
    by blast
  have "faults w1 = Some k" using encrypt_faults[OF e] Cons.prems(2) by simp
  from db_write_Inr[OF wr this] have k: "0 < k" and f2: "faults w2 = Some (k - 1)" by simp_all
  from Cons.IH[OF rest2 f2] k show ?case by auto
qed

lemma decryptRows_length: "decryptRows N k rows = Inr plain \<Longrightarrow> length plain = length rows"
  by (induction rows arbitrary: plain) (auto split: sum.splits)

lemma quiet_tick [simp]: "quiet tick"
  by (auto simp: quiet_def tick_def split: option.splits nat.splits)

lemma quiet_db_write: "(\<And>d. res_ok (f d)) \<Longrightarrow> quiet (db_write f)"
  unfolding quiet_def db_write_def bindS_def tick_def res_ok_def
  by (auto split: option.splits nat.splits sum.splits prod.splits)

lemma quiet_exec_BEGIN [simp]: "quiet exec_BEGIN"
  by (auto simp: quiet_def exec_BEGIN_def bindS_def tick_def split: option.splits nat.splits)

lemma quiet_exec_COMMIT [simp]: "quiet exec_COMMIT"
  by (auto simp: quiet_def exec_COMMIT_def bindS_def tick_def split: option.splits nat.splits)

lemma quiet_insertAll [simp]: "quiet (insertAll N k rows)"
proof (induction rows)
  case Nil
  show ?case by simp
next
  case (Cons r rows)
  show ?case
    unfolding insertAll.simps
    by (intro quiet_bind quiet_db_write Cons) simp_all
qed

lemma quiet_changeMasterTransaction: "quiet (changeMasterTransaction N oldPw newPw)"
  unfolding changeMasterTransaction_def Let_def
  by (intro quiet_intros quiet_db_write) simp_all

lemma quiet_importTransaction: "quiet (importTransaction N masterPw records)"
  unfolding importTransaction_def Let_def
  by (intro quiet_intros quiet_db_write) simp_all

lemma tryRollback_returns: "\<exists>w'. tryRollback w = (Inr (), w')"
  by (auto simp: tryRollback_def catchS_def exec_ROLLBACK_def returnS_def split: option.splits)

text \<open>A transaction that does not return ends the command with the exit of the
  handler.\<close>

lemma caught_exit:
  assumes "quiet m" and "m w = (Inl e, w1)"
  shows "fst (bindS (catchS m (\<lambda>e. bindS tryRollback (\<lambda>_. exitWith c msg))) f w)
           = Inl (Exit c msg)"
proof -
  from assms have "catchable e" by (auto simp: quiet_def dest: spec[of _ w])
  then have "catchS m (\<lambda>e. bindS tryRollback (\<lambda>_. exitWith c msg)) w
      = bindS tryRollback (\<lambda>_. exitWith c msg) w1"
    using assms(2) by (cases e) (simp_all add: catchS_def)
  moreover obtain w2 where "tryRollback w1 = (Inr (), w2)"
    using tryRollback_returns by blast
  ultimately show ?thesis by (simp add: bindS_def exitWith_def throwS_def)
qed

lemma db_read_Inr:
  "db_read f w = (Inr x, w') \<Longrightarrow> w' = w \<and> (\<exists>d. dbfile w = Some d \<and> f d = Inr x)"
  by (auto simp: db_read_def split: option.splits)

lemma liftR_Inr: "liftR f w = (Inr x, w') \<Longrightarrow> w' = w \<and> f w = Inr x"
  by (auto simp: liftR_def)

lemma randomBytes_faults: "randomBytes n w = (r, w') \<Longrightarrow> faults w' = faults w"
  by (auto simp: randomBytes_def)

text \<open>The transaction of the rotation executes four statements and one insertion per
  record; the one of the import three statements and one insertion per record.\<close>

lemma changeMasterTransaction_statements:
  assumes "changeMasterTransaction N oldPw newPw w = (Inr x, w')"
    and "dbfile w = Some d" and "credentials d = Some rows" and "faults w = Some k"
  shows "length rows + 4 \<le> k"
proof -
  from assms(1) obtain masterRow w1 where
    m: "db_read sql_select_master w = (Inr masterRow, w1)" and
    r1: "(case masterRow of
            None \<Rightarrow> throwS (Thrown ''Cannot read properties of undefined (reading salt)'')
          | Some row \<Rightarrow>
              bindS (db_read sql_select_credentials) (\<lambda>encryptedRows.
              bindS (liftR (\<lambda>w. decryptRows N (deriveKey N oldPw (salt row)) encryptedRows)) (\<lambda>plainRows.
              bindS (randomBytes 16) (\<lambda>bytes.
                bindS exec_BEGIN (\<lambda>_.
                bindS (db_write (sql_update_master
                         (hashDerivedKey N (deriveKey N newPw (to_hex bytes))) (to_hex bytes))) (\<lambda>_.
                bindS (db_write sql_delete_credentials) (\<lambda>_.
                bindS (insertAll N (deriveKey N newPw (to_hex bytes)) plainRows) (\<lambda>_.
                exec_COMMIT)))))))) w1 = (Inr x, w')"
    unfolding changeMasterTransaction_def Let_def by (blast dest: bindS_Inr)
  from db_read_Inr[OF m] have w1: "w1 = w" by simp
  from r1 obtain row where row: "masterRow = Some row"
    by (cases masterRow) (auto simp: throwS_def)
  from r1[unfolded row option.case] obtain encryptedRows w2 where
    s: "db_read sql_select_credentials w1 = (Inr encryptedRows, w2)" and
    r2: "bindS (liftR (\<lambda>w. decryptRows N (deriveKey N oldPw (salt row)) encryptedRows)) (\<lambda>plainRows.
              bindS (randomBytes 16) (\<lambda>bytes.
                bindS exec_BEGIN (\<lambda>_.
                bindS (db_write (sql_update_master
                         (hashDerivedKey N (deriveKey N newPw (to_hex bytes))) (to_hex bytes))) (\<lambda>_.
                bindS (db_write sql_delete_credentials) (\<lambda>_.
                bindS (insertAll N (deriveKey N newPw (to_hex bytes)) plainRows) (\<lambda>_.
                exec_COMMIT)))))) w2 = (Inr x, w')"
    by (blast dest: bindS_Inr)
  from db_read_Inr[OF s] w1 assms(2,3) have w2: "w2 = w" and enc: "encryptedRows = rows"
    by (auto simp: sql_select_credentials_def)
  from bindS_Inr[OF r2] obtain plainRows w3 where
    p: "liftR (\<lambda>w. decryptRows N (deriveKey N oldPw (salt row)) encryptedRows) w2 = (Inr plainRows, w3)" and
    r3: "bindS (randomBytes 16) (\<lambda>bytes.
                bindS exec_BEGIN (\<lambda>_.
                bindS (db_write (sql_update_master
                         (hashDerivedKey N (deriveKey N newPw (to_hex bytes))) (to_hex bytes))) (\<lambda>_.
                bindS (db_write sql_delete_credentials) (\<lambda>_.
                bindS (insertAll N (deriveKey N newPw (to_hex bytes)) plainRows) (\<lambda>_.
                exec_COMMIT))))) w3 = (Inr x, w')"
    by blast
  from liftR_Inr[OF p] w2 enc have w3: "w3 = w" and len: "length plainRows = length rows"
    by (auto dest: decryptRows_length)
  from bindS_Inr[OF r3] obtain bytes w4 where
    rb: "randomBytes 16 w3 = (Inr bytes, w4)" and
    r4: "bindS exec_BEGIN (\<lambda>_.
         bindS (db_write (sql_update_master
                  (hashDerivedKey N (deriveKey N newPw (to_hex bytes))) (to_hex bytes))) (\<lambda>_.
         bindS (db_write sql_delete_credentials) (\<lambda>_.
         bindS (insertAll N (deriveKey N newPw (to_hex bytes)) plainRows) (\<lambda>_.
         exec_COMMIT)))) w4 = (Inr x, w')"
    by blast
  have f4: "faults w4 = Some k" using randomBytes_faults[OF rb] w3 assms(4) by simp
  from bindS_Inr[OF r4] obtain x1 w5 where
    b: "exec_BEGIN w4 = (Inr x1, w5)" and
    r5: "bindS (db_write (sql_update_master
                  (hashDerivedKey N (deriveKey N newPw (to_hex bytes))) (to_hex bytes))) (\<lambda>_.
         bindS (db_write sql_delete_credentials) (\<lambda>_.
         bindS (insertAll N (deriveKey N newPw (to_hex bytes)) plainRows) (\<lambda>_.
         exec_COMMIT))) w5 = (Inr x, w')"
    by blast
  from bindS_Inr[OF r5] obtain x2 w6 where
    u: "db_write (sql_update_master
          (hashDerivedKey N (deriveKey N newPw (to_hex bytes))) (to_hex bytes)) w5 = (Inr x2, w6)" and
    r6: "bindS (db_write sql_delete_credentials) (\<lambda>_.
         bindS (insertAll N (deriveKey N newPw (to_hex bytes)) plainRows) (\<lambda>_.
         exec_COMMIT)) w6 = (Inr x, w')"
    by blast
  from bindS_Inr[OF r6] obtain x3 w7 where
    dl: "db_write sql_delete_credentials w6 = (Inr x3, w7)" and
    r7: "bindS (insertAll N (deriveKey N newPw (to_hex bytes)) plainRows) (\<lambda>_. exec_COMMIT) w7
           = (Inr x, w')"
    by blast
  from bindS_Inr[OF r7] obtain x4 w8 where
    i: "insertAll N (deriveKey N newPw (to_hex bytes)) plainRows w7 = (Inr x4, w8)" and
    c: "exec_COMMIT w8 = (Inr x, w')"
    by blast
  from exec_BEGIN_Inr[OF b f4] have k1: "0 < k" "faults w5 = Some (k - 1)" by simp_all
  from db_write_Inr[OF u k1(2)] have k2: "0 < k - 1" "faults w6 = Some (k - 1 - 1)" by simp_all
  from db_write_Inr[OF dl k2(2)] have k3: "0 < k - 1 - 1" "faults w7 = Some (k - 1 - 1 - 1)" by simp_all
  from insertAll_Inr[OF i k3(2)] have k4: "length plainRows \<le> k - 1 - 1 - 1"
    "faults w8 = Some (k - 1 - 1 - 1 - length plainRows)" by simp_all
  from exec_COMMIT_Inr[OF c k4(2)] have "0 < k - 1 - 1 - 1 - length plainRows" by simp
  with k4(1) len show ?thesis by arith
qed

lemma changeMasterTransaction_fault:
  assumes "dbfile w = Some d" and "credentials d = Some rows"
    and "faults w = Some k" and "k < length rows + 4"
  shows "fst (bindS (catchS (changeMasterTransaction N oldPw newPw)
                      (\<lambda>e. bindS tryRollback (\<lambda>_. exitWith c msg))) f w)
           = Inl (Exit c msg)"
proof -
  obtain r w1 where run: "changeMasterTransaction N oldPw newPw w = (r, w1)"
    by (cases "changeMasterTransaction N oldPw newPw w")
  show ?thesis
  proof (cases r)
    case (Inl e)
    with run show ?thesis
      by (intro caught_exit[OF quiet_changeMasterTransaction]) simp
  next
    case (Inr x)
    with run changeMasterTransaction_statements[OF _ assms(1,2,3)] assms(4)
    show ?thesis by fastforce
  qed
qed

lemma getMasterSalt_Inr: "getMasterSalt w = (Inr x, w') \<Longrightarrow> w' = w"
  by (auto simp: getMasterSalt_def bindS_def db_read_def returnS_def exitWith_def throwS_def
      split: option.splits sum.splits)

lemma importTransaction_statements:
  assumes "importTransaction N masterPw records w = (Inr x, w')"
    and "faults w = Some k"
  shows "length records + 3 \<le> k"
proof -
  from assms(1) obtain slt w1 where
    s: "getMasterSalt w = (Inr slt, w1)" and
    r1: "bindS exec_BEGIN (\<lambda>_. bindS (db_write sql_delete_credentials) (\<lambda>_.
         bindS (insertAll N (deriveKey N masterPw slt) records) (\<lambda>_. exec_COMMIT))) w1
           = (Inr x, w')"
    unfolding importTransaction_def Let_def by (blast dest: bindS_Inr)
  have f1: "faults w1 = Some k" using getMasterSalt_Inr[OF s] assms(2) by simp
  from bindS_Inr[OF r1] obtain x1 w2 where
    b: "exec_BEGIN w1 = (Inr x1, w2)" and
    r2: "bindS (db_write sql_delete_credentials) (\<lambda>_.
         bindS (insertAll N (deriveKey N masterPw slt) records) (\<lambda>_. exec_COMMIT)) w2
           = (Inr x, w')"
    by blast
  from bindS_Inr[OF r2] obtain x2 w3 where
    dl: "db_write sql_delete_credentials w2 = (Inr x2, w3)" and
    r3: "bindS (insertAll N (deriveKey N masterPw slt) records) (\<lambda>_. exec_COMMIT) w3
           = (Inr x, w')"
    by blast
  from bindS_Inr[OF r3] obtain x3 w4 where
    i: "insertAll N (deriveKey N masterPw slt) records w3 = (Inr x3, w4)" and
    c: "exec_COMMIT w4 = (Inr x, w')"
    by blast
  from exec_BEGIN_Inr[OF b f1] have k1: "0 < k" "faults w2 = Some (k - 1)" by simp_all
  from db_write_Inr[OF dl k1(2)] have k2: "0 < k - 1" "faults w3 = Some (k - 1 - 1)" by simp_all
  from insertAll_Inr[OF i k2(2)] have k3: "length records \<le> k - 1 - 1"
    "faults w4 = Some (k - 1 - 1 - length records)" by simp_all
  from exec_COMMIT_Inr[OF c k3(2)] have "0 < k - 1 - 1 - length records" by simp
  with k3(1) show ?thesis by arith
qed

lemma importTransaction_fault:
  assumes "faults w = Some k" and "k < length records + 3"
  shows "fst (bindS (catchS (importTransaction N masterPw records)
                      (\<lambda>e. bindS tryRollback (\<lambda>_. exitWith c msg))) f w)
           = Inl (Exit c msg)"
proof -
  obtain r w1 where run: "importTransaction N masterPw records w = (r, w1)"
    by (cases "importTransaction N masterPw records w")
  show ?thesis
  proof (cases r)
    case (Inl e)
    with run show ?thesis
      by (intro caught_exit[OF quiet_importTransaction]) simp
  next
    case (Inr x)
    with run importTransaction_statements[OF _ assms(1)] assms(2)
    show ?thesis by fastforce
  qed
qed

subsection \<open>Classification of the store\<close>

text \<open>
  Claim C6. \<open>checkDbState\<close> answers \<open>NO_DB\<close> exactly when there is no database file.
  With a file, it answers \<open>CORRUPTED\<close> exactly when the integrity check does not return
  \<^verbatim>\<open>ok\<close>, or exactly one of the tables \<^verbatim>\<open>master\<close> and \<^verbatim>\<open>credentials\<close> exists, or the table
  \<^verbatim>\<open>master\<close> holds more than one row; otherwise \<open>UNINITIALIZED\<close> exactly when the table
  \<^verbatim>\<open>master\<close> is absent or empty; and \<open>READY\<close> exactly when the check passes, both tables
  exist and \<^verbatim>\<open>master\<close> holds exactly one row.
\<close>

theorem checkDbState_classification:
  "(checkDbState w = Inr NO_DB \<longleftrightarrow> dbfile w = None) \<and>
   (checkDbState w = Inr CORRUPTED \<longleftrightarrow>
      (\<exists>d. dbfile w = Some d \<and>
         (integrity_check d \<noteq> PragmaRow ''ok'' \<or>
          (master d = None) \<noteq> (credentials d = None) \<or>
          (\<exists>rows. master d = Some rows \<and> 1 < length rows)))) \<and>
   (checkDbState w = Inr UNINITIALIZED \<longleftrightarrow>
      (\<exists>d. dbfile w = Some d \<and>
         \<not> (integrity_check d \<noteq> PragmaRow ''ok'' \<or>
            (master d = None) \<noteq> (credentials d = None) \<or>
            (\<exists>rows. master d = Some rows \<and> 1 < length rows)) \<and>
         (master d = None \<or> master d = Some []))) \<and>
   (checkDbState w = Inr READY \<longleftrightarrow>
      (\<exists>d m. dbfile w = Some d \<and> integrity_check d = PragmaRow ''ok'' \<and>
         master d = Some [m] \<and> credentials d \<noteq> None))"
proof (cases "dbfile w")
  case None
  then show ?thesis by (simp add: checkDbState_def)
next
  case (Some d)
  show ?thesis
  proof (cases "master d")
    case None
    with Some show ?thesis
      by (cases "credentials d") (auto simp: checkDbState_def sql_count_master_def Let_def)
  next
    case (Some rows)
    have len: "length rows = Suc 0 \<longleftrightarrow> (\<exists>m. rows = [m])"
      by (cases rows) auto
    have gt: "Suc 0 < length rows \<longleftrightarrow> rows \<noteq> [] \<and> (\<forall>m. rows \<noteq> [m])"
      by (cases rows) auto
    from \<open>dbfile w = Some d\<close> Some show ?thesis
      by (cases "credentials d")
        (auto simp: checkDbState_def sql_count_master_def Let_def len gt)
  qed
qed

theorem checkDbState_classification_witness:
  "checkDbState vault = Inr READY \<and> checkDbState fresh_world = Inr NO_DB \<and>
   checkDbState (fresh_world\<lparr>dbfile := Some empty_db\<rparr>) = Inr UNINITIALIZED \<and>
   checkDbState (fresh_world\<lparr>dbfile := Some (empty_db\<lparr>credentials := Some []\<rparr>)\<rparr>) = Inr CORRUPTED"
proof -
  have "\<exists>d m. dbfile vault = Some d \<and> integrity_check d = PragmaRow ''ok'' \<and>
          master d = Some [m] \<and> credentials d \<noteq> None"
    by (simp add: vault_def vault_db_def)
  then have "checkDbState vault = Inr READY"
    using checkDbState_classification[of vault] by blast
  moreover have "checkDbState fresh_world = Inr NO_DB"
    using checkDbState_classification[of fresh_world] by (simp add: fresh_world_def)
  moreover have "checkDbState (fresh_world\<lparr>dbfile := Some empty_db\<rparr>) = Inr UNINITIALIZED"
    using checkDbState_classification[of "fresh_world\<lparr>dbfile := Some empty_db\<rparr>"]
    by (simp add: empty_db_def)
  moreover have "checkDbState (fresh_world\<lparr>dbfile := Some (empty_db\<lparr>credentials := Some []\<rparr>)\<rparr>)
      = Inr CORRUPTED"
    using checkDbState_classification[of "fresh_world\<lparr>dbfile := Some (empty_db\<lparr>credentials := Some []\<rparr>)\<rparr>"]
    by (simp add: empty_db_def)
  ultimately show ?thesis by simp
qed

subsection \<open>Rotation of the master password\<close>

lemma cmdChangeMaster_triple:
  "triple (idle D) (cmdChangeMaster N args) (\<lambda>x w. False)
     (\<lambda>e w. e = Exit ExitCode_OK (Some Messages_infos_masterChanged) \<or> idle D w)"
  unfolding cmdChangeMaster_def changeMasterTransaction_def Let_def
  apply (rule triple_if)
   apply (rule triple_exitWith, simp)
  apply (rule triple_requireReady, simp)
  apply (rule triple_bind[where Q = "\<lambda>x. idle D"])
   apply (rule triple_stable_idle)
    apply (intro stable_intros; simp)
   apply simp
  apply (rule triple_bind[where Q = "\<lambda>x. idle D"])
   apply (rule triple_stable_idle)
    apply (intro stable_intros; simp)
   apply simp
  apply (rule triple_if)
   apply (rule triple_exitWith, simp)
  apply (rule triple_bind[where Q = "\<lambda>x. idle D"])
   apply (erule triple_openDb)
  apply (rule triple_bind[where Q = "\<lambda>x. idle D"])
   apply (rule triple_stable_idle, simp, simp)
  apply (rule triple_if)
   apply (rule triple_exitWith, simp)
  apply (rule triple_bind[where Q = "\<lambda>x w. txn w = None"])
   apply (rule triple_try_block)
    apply (rule triple_bind[where Q = "\<lambda>x. idle D"])
     apply (rule triple_try_idle, simp, intro quiet_intros, simp)
    apply (rule triple_case_option)
     apply (rule triple_throwS, simp add: in_try_def)
    apply (rule triple_bind[where Q = "\<lambda>x. idle D"])
     apply (rule triple_try_idle, simp, intro quiet_intros, simp)
    apply (rule triple_bind[where Q = "\<lambda>x. idle D"])
     apply (rule triple_try_idle, simp, intro quiet_intros, simp)
    apply (rule triple_bind[where Q = "\<lambda>x. idle D"])
     apply (rule triple_try_idle, simp, simp)
    apply (rule triple_bind[where Q = "\<lambda>x. open_txn D"])
     apply (rule triple_BEGIN)
    apply (rule triple_bind[where Q = "\<lambda>x. open_txn D"])
     apply (rule triple_db_write, simp)
    apply (rule triple_bind[where Q = "\<lambda>x. open_txn D"])
     apply (rule triple_db_write, simp)
    apply (rule triple_bind[where Q = "\<lambda>x. open_txn D"])
     apply (rule triple_insertAll)
    apply (rule triple_COMMIT)
   apply simp
  apply (rule triple_exitWith, simp)
  done

text \<open>A failure of the engine at any statement of the transaction is reported: with
  \<open>N\<close> records stored, a fault at one of the first \<open>N + 4\<close> statements ends the command
  with the report that the rotation failed.\<close>

lemma cmdChangeMaster_fault_reported:
  assumes "changeMasterArgsOk (drop 1 args)"
    and "checkDbState w = Inr READY"
    and "(case getOption args ''--old-master'' of
            Some v \<Rightarrow> returnS v
          | None \<Rightarrow> askPassword Messages_prompts_enterOldMaster) w = (Inr oldPw, w1)"
    and "(case getOption args ''--new-master'' of
            Some v \<Rightarrow> returnS v
          | None \<Rightarrow> askNewMasterWithConfirm) w1 = (Inr newPw, w2)"
    and "oldPw \<noteq> newPw"
    and "fst (verifyMasterPassword N oldPw w) = Inr True"
    and "dbfile w = Some d" and "credentials d = Some rows"
    and "faults w = Some k" and "k < length rows + 4"
  shows "fst (cmdChangeMaster N args w)
           = Inl (Exit ExitCode_GENERAL_ERROR (Some Messages_errors_changeMasterFailed))"
proof -
  have t1: "tty_only w w1"
    using assms(3) by (rule option_or_ask_tty) (rule askPassword_tty)
  have t2: "tty_only w1 w2"
    using assms(4) by (rule option_or_ask_tty) (rule askNewMasterWithConfirm_tty)
  have t: "tty_only w w2" using t1 t2 by (rule tty_only_trans)
  have db: "dbfile w2 = Some d" "faults w2 = Some k"
    using tty_only_fields[OF t] assms(7,9) by simp_all
  have ex: "dbfile w2 \<noteq> None" using db by simp
  have same: "dbfile w2 = dbfile w" using db assms(7) by simp
  have "cmdChangeMaster N args w =
      bindS (catchS (changeMasterTransaction N oldPw newPw)
              (\<lambda>e. bindS tryRollback (\<lambda>_.
                 exitWith ExitCode_GENERAL_ERROR (Some Messages_errors_changeMasterFailed))))
        (\<lambda>_. exitWith ExitCode_OK (Some Messages_infos_masterChanged)) w2"
    using assms(1,3,4,5,6) requireReadyState_READY[OF assms(2)] openDb_existing[OF ex]
      verifyMasterPassword_run[OF same, of N oldPw]
    by (simp add: cmdChangeMaster_def bindS_def)
  then show ?thesis
    using changeMasterTransaction_fault[OF db(1) assms(8) db(2) assms(10)] by simp
qed

text \<open>
  Claim C1. Rotation is all or nothing. Whenever \<open>cmdChangeMaster\<close>, started with no
  transaction open, ends in any other way than with the report that the master password
  was changed (a statement of the storage engine fails at any point, a record does not
  decrypt, the key is refused, the old password is wrong, ...), the database file is
  exactly as before: the row of \<^verbatim>\<open>master\<close> with its hash and salt and every row of
  \<^verbatim>\<open>credentials\<close>; no transaction stays open, and every master password verifies as it did
  before, the old one included.
\<close>

theorem cmdChangeMaster_atomic:
  assumes "txn w = None"
    and "cmdChangeMaster N args w = (r, w')"
    and "r \<noteq> Inl (Exit ExitCode_OK (Some Messages_infos_masterChanged))"
  shows "dbfile w' = dbfile w \<and> txn w' = None \<and>
         fst (verifyMasterPassword N pw w') = fst (verifyMasterPassword N pw w)"
proof -
  have "idle (dbfile w) w" using assms(1) by (simp add: idle_def)
  from tripleD[OF cmdChangeMaster_triple this assms(2)] assms(3)
  have "idle (dbfile w) w'" by (cases r) auto
  then have "dbfile w' = dbfile w" "txn w' = None" by (simp_all add: idle_def)
  then show ?thesis using verifyMasterPassword_dbfile by blast
qed

text \<open>A run on the small vault of two records in which the engine fails at the fifth
  writing statement: \<^verbatim>\<open>BEGIN\<close>, the update of \<^verbatim>\<open>master\<close>, the deletion and the first insertion
  succeed, the second insertion throws.\<close>

lemma rotation_fails_midway:
  "fst (cmdChangeMaster toy_node
         [''change-master'', ''--old-master'', ''Passw0rd!'', ''--new-master'', ''n3w'']
         (vault\<lparr>faults := Some 4\<rparr>))
   = Inl (Exit ExitCode_GENERAL_ERROR (Some Messages_errors_changeMasterFailed))"
  by (simp add: cmdChangeMaster_def changeMasterTransaction_def run_defs)

lemma vault_authenticates:
  "fst (verifyMasterPassword toy_node ''Passw0rd!'' (vault\<lparr>faults := Some 4\<rparr>)) = Inr True"
  by (simp add: run_defs)

theorem cmdChangeMaster_atomic_witness:
  "fst (cmdChangeMaster toy_node
         [''change-master'', ''--old-master'', ''Passw0rd!'', ''--new-master'', ''n3w'']
         (vault\<lparr>faults := Some 4\<rparr>))
     = Inl (Exit ExitCode_GENERAL_ERROR (Some Messages_errors_changeMasterFailed)) \<and>
   dbfile (snd (cmdChangeMaster toy_node
         [''change-master'', ''--old-master'', ''Passw0rd!'', ''--new-master'', ''n3w'']
         (vault\<lparr>faults := Some 4\<rparr>))) = Some vault_db \<and>
   txn (snd (cmdChangeMaster toy_node
         [''change-master'', ''--old-master'', ''Passw0rd!'', ''--new-master'', ''n3w'']
         (vault\<lparr>faults := Some 4\<rparr>))) = None \<and>
   fst (verifyMasterPassword toy_node ''Passw0rd!''
     (snd (cmdChangeMaster toy_node
         [''change-master'', ''--old-master'', ''Passw0rd!'', ''--new-master'', ''n3w'']
         (vault\<lparr>faults := Some 4\<rparr>)))) = Inr True"
proof -
  let ?w = "vault\<lparr>faults := Some 4\<rparr>"
  let ?run = "cmdChangeMaster toy_node
         [''change-master'', ''--old-master'', ''Passw0rd!'', ''--new-master'', ''n3w''] ?w"
  have t: "txn ?w = None" by (simp add: vault_def fresh_world_def)
  have d: "dbfile ?w = Some vault_db" by (simp add: vault_def)
  have run: "?run = (fst ?run, snd ?run)" by simp
  have failed: "fst ?run \<noteq> Inl (Exit ExitCode_OK (Some Messages_infos_masterChanged))"
    by (simp add: rotation_fails_midway)
  from cmdChangeMaster_atomic[OF t run failed, of "''Passw0rd!''"] d rotation_fails_midway vault_authenticates
  show ?thesis by simp
qed

subsection \<open>Control characters in \<^verbatim>\<open>add\<close>\<close>

lemma validateNoControlChars_third:
  "CONTROL_CHAR_RE_test c \<Longrightarrow>
   validateNoControlChars [a, b, c] = Inl (Exit ExitCode_GENERAL_ERROR (Some Messages_errors_controlChar))"
  by simp

lemma CONTROL_CHAR_RE_test_iff:
  "CONTROL_CHAR_RE_test v \<longleftrightarrow> CHR 0x09 \<in> set v \<or> CHR 0x0D \<in> set v \<or> CHR 0x0A \<in> set v"
  by (auto simp: CONTROL_CHAR_RE_test_def list_ex_iff)

text \<open>
  Claim C9. \<open>cmdAdd\<close> checks the password for control characters as it checks the service
  and the user name: on a ready store, a call with a well-formed argument list whose
  password contains a tab, a carriage return or a line feed ends with exit code 1 and the
  message of \<open>validateNoControlChars\<close>, whatever the master password is (it has been read,
  and is not verified), and the database is as before.
\<close>

theorem cmdAdd_control_characters:
  assumes "length args = 4 \<or> length args = 6"
    and "checkDbState w = Inr READY"
    and "getMasterPassword args 4 w = (Inr masterPw, w1)"
    and "CHR 0x09 \<in> set (args ! 3) \<or> CHR 0x0D \<in> set (args ! 3) \<or> CHR 0x0A \<in> set (args ! 3)"
  shows "cmdAdd N args w =
           (Inl (Exit ExitCode_GENERAL_ERROR (Some Messages_errors_controlChar)), w1) \<and>
         dbfile w1 = dbfile w \<and> txn w1 = txn w"
proof -
  have bad: "CONTROL_CHAR_RE_test (args ! 3)"
    using assms(4) by (simp add: CONTROL_CHAR_RE_test_iff)
  have "validateNoControlChars [args ! 1, args ! 2, args ! 3]
          = Inl (Exit ExitCode_GENERAL_ERROR (Some Messages_errors_controlChar))"
    using bad by simp
  then have "cmdAdd N args w =
      (Inl (Exit ExitCode_GENERAL_ERROR (Some Messages_errors_controlChar)), w1)"
    using assms(1,3) requireReadyState_READY[OF assms(2)]
    by (simp add: cmdAdd_def bindS_def liftR_def Let_def del: validateNoControlChars.simps)
  moreover have "w1 = w\<lparr>tty := tty w1\<rparr>"
    using assms(3) by (rule getMasterPassword_frame)
  then have "dbfile w1 = dbfile w \<and> txn w1 = txn w"
    by (metis world.select_convs(1,2) world.surjective world.update_convs(4))
  ultimately show ?thesis by simp
qed

theorem cmdAdd_control_characters_witness:
  "cmdAdd toy_node [''add'', ''github'', ''carol'', [CHR ''a'', CHR 0x09, CHR ''b''], ''--master'', ''wrong''] vault
     = (Inl (Exit ExitCode_GENERAL_ERROR (Some Messages_errors_controlChar)), vault) \<and>
   dbfile vault = Some vault_db"
proof -
  let ?args = "[''add'', ''github'', ''carol'', [CHR ''a'', CHR 0x09, CHR ''b''], ''--master'', ''wrong'']"
  have 1: "length ?args = 4 \<or> length ?args = 6" by simp
  have 2: "checkDbState vault = Inr READY" by (simp add: run_defs)
  have 3: "getMasterPassword ?args 4 vault = (Inr ''wrong'', vault)" by (simp add: run_defs)
  have 4: "CHR 0x09 \<in> set (?args ! 3) \<or> CHR 0x0D \<in> set (?args ! 3) \<or> CHR 0x0A \<in> set (?args ! 3)"
    by simp
  from cmdAdd_control_characters[OF 1 2 3 4, of toy_node] show ?thesis
    by (simp add: vault_def)
qed

subsection \<open>The default order of \<^verbatim>\<open>list\<close>\<close>

text \<open>
  Claim C10. \<open>cmdList\<close> without sort options on a ready store prints one line per
  credential, the service and the user name, and the lines are ordered by service
  ascending: the printed rows are a rearrangement of the rows of the table whose services
  are sorted. With no credentials it prints the message \<^verbatim>\<open>No data.\<close> instead.
\<close>

theorem cmdList_default_order:
  assumes "checkDbState w = Inr READY"
    and "dbfile w = Some d" and "credentials d = Some rows"
    and "length args = 1"
    and "cmdList N args w = (r, w')"
  shows "if rows = []
         then r = Inl (Exit ExitCode_OK (Some Messages_infos_NoData)) \<and> stdout w' = stdout w
         else r = Inl (Exit ExitCode_OK None) \<and>
              (\<exists>out. stdout w' = stdout w @ map (\<lambda>c. service c @ '' '' @ username c) out \<and>
                     sorted (map service out) \<and> mset out = mset rows)"
proof -
  let ?out = "sort_key service (sort_key username rows)"
  have sel: "sql_select_ordered ''service'' ''ASC'' d = Inr (map (\<lambda>c. (service c, username c)) ?out)"
    using assms(3) by (simp add: sql_select_ordered_def primary_key_order_def)
  have empty: "(?out = []) = (rows = [])"
    by (metis length_0_conv length_sort)
  have run: "cmdList N args w =
      (if length ?out = 0 then (Inl (Exit ExitCode_OK (Some Messages_infos_NoData)), w)
       else (Inl (Exit ExitCode_OK None),
             w\<lparr>stdout := stdout w @ map (\<lambda>r. fst r @ '' '' @ snd r) (map (\<lambda>c. (service c, username c)) ?out)\<rparr>))"
    using assms(2,4) requireReadyState_READY[OF assms(1)] openDb_existing[of w] sel
    by (simp add: cmdList_def bindS_def Let_def db_read_def logRows_run exitWith_def throwS_def empty)
  show ?thesis
  proof (cases "rows = []")
    case True
    with run assms(5) show ?thesis by (simp add: empty)
  next
    case False
    then have "length ?out \<noteq> 0" by (simp add: empty)
    with run assms(5) have r: "r = Inl (Exit ExitCode_OK None)"
      and out: "stdout w' = stdout w @ map (\<lambda>c. service c @ '' '' @ username c) ?out"
      by (auto simp: comp_def)
    have "sorted (map service ?out)" by (rule sorted_sort_key)
    moreover have "mset ?out = mset rows" by simp
    ultimately show ?thesis using False r out by auto
  qed
qed

theorem cmdList_default_order_witness:
  "fst (cmdList toy_node [''list''] (vault\<lparr>dbfile := Some (vault_db\<lparr>credentials := Some
       [\<lparr>service = ''mail'', username = ''bob'', password = ''x''\<rparr>,
        \<lparr>service = ''github'', username = ''alice'', password = ''y''\<rparr>]\<rparr>)\<rparr>))
     = Inl (Exit ExitCode_OK None) \<and>
   stdout (snd (cmdList toy_node [''list''] (vault\<lparr>dbfile := Some (vault_db\<lparr>credentials := Some
       [\<lparr>service = ''mail'', username = ''bob'', password = ''x''\<rparr>,
        \<lparr>service = ''github'', username = ''alice'', password = ''y''\<rparr>]\<rparr>)\<rparr>)))
     = [''github alice'', ''mail bob'']"
proof -
  let ?rows = "[\<lparr>service = ''mail'', username = ''bob'', password = ''x''\<rparr>,
        \<lparr>service = ''github'', username = ''alice'', password = ''y''\<rparr>]"
  let ?d = "vault_db\<lparr>credentials := Some ?rows\<rparr>"
  let ?w = "vault\<lparr>dbfile := Some ?d\<rparr>"
  let ?run = "cmdList toy_node [''list''] ?w"
  have 1: "checkDbState ?w = Inr READY" by (simp add: run_defs)
  have 2: "dbfile ?w = Some ?d" by simp
  have 3: "credentials ?d = Some ?rows" by simp
  have 4: "length [''list''] = 1" by simp
  have 5: "?run = (fst ?run, snd ?run)" by simp
  have out: "stdout ?w = []" by (simp add: vault_def fresh_world_def)
  from cmdList_default_order[OF 1 2 3 4 5]
  obtain out where r: "fst ?run = Inl (Exit ExitCode_OK None)"
    and o: "stdout (snd ?run) = stdout ?w @ map (\<lambda>c. service c @ '' '' @ username c) out"
    and s: "sorted (map service out)" and m: "mset out = mset ?rows"
    by auto
  have "stdout (snd ?run) = [''github alice'', ''mail bob'']"
    by (simp add: cmdList_def run_defs primary_key_order_def logRows_run less_char_def less_eq_char_def)
  with r show ?thesis by simp
qed

subsection \<open>Rotation with equal passwords\<close>

text \<open>
  Claim C3, as the code has it. On a ready store \<open>cmdChangeMaster\<close> obtains the old and
  the new password and compares them first: when they are equal it ends with exit code 0
  and the message \<^verbatim>\<open>master password unchanged\<close>, without verifying the old password and
  without touching the database. Only when they differ it verifies the old password, and
  ends with the authentication error when the verification fails; the database is as
  before in that case too.
\<close>

theorem cmdChangeMaster_noop_first:
  assumes "changeMasterArgsOk (drop 1 args)"
    and "checkDbState w = Inr READY"
    and "(case getOption args ''--old-master'' of
            Some v \<Rightarrow> returnS v
          | None \<Rightarrow> askPassword Messages_prompts_enterOldMaster) w = (Inr oldPw, w1)"
    and "(case getOption args ''--new-master'' of
            Some v \<Rightarrow> returnS v
          | None \<Rightarrow> askNewMasterWithConfirm) w1 = (Inr newPw, w2)"
  shows "(oldPw = newPw \<longrightarrow>
            cmdChangeMaster N args w =
              (Inl (Exit ExitCode_OK (Some Messages_infos_masterUnchanged)), w2)) \<and>
         (oldPw \<noteq> newPw \<and> fst (verifyMasterPassword N oldPw w) = Inr False \<longrightarrow>
            cmdChangeMaster N args w =
              (Inl (Exit ExitCode_AUTH_ERROR (Some Messages_errors_invalidOldMaster)), w2)) \<and>
         dbfile w2 = dbfile w \<and> txn w2 = txn w"
proof -
  have t1: "tty_only w w1"
    using assms(3) by (rule option_or_ask_tty) (rule askPassword_tty)
  have t2: "tty_only w1 w2"
    using assms(4) by (rule option_or_ask_tty) (rule askNewMasterWithConfirm_tty)
  have t: "tty_only w w2" using t1 t2 by (rule tty_only_trans)
  have db: "dbfile w2 = dbfile w" "txn w2 = txn w"
    using tty_only_fields[OF t] by simp_all
  have ex: "dbfile w2 \<noteq> None"
    using db assms(2) checkDbState_READY_Some by simp
  have same: "oldPw = newPw \<Longrightarrow> cmdChangeMaster N args w =
      (Inl (Exit ExitCode_OK (Some Messages_infos_masterUnchanged)), w2)"
    using assms(1,3,4) requireReadyState_READY[OF assms(2)]
    by (simp add: cmdChangeMaster_def bindS_def exitWith_def throwS_def)
  have differ: "oldPw \<noteq> newPw \<Longrightarrow> fst (verifyMasterPassword N oldPw w) = Inr False \<Longrightarrow>
      cmdChangeMaster N args w =
        (Inl (Exit ExitCode_AUTH_ERROR (Some Messages_errors_invalidOldMaster)), w2)"
    using assms(1,3,4) requireReadyState_READY[OF assms(2)] openDb_existing[OF ex]
      verifyMasterPassword_run[OF db(1), of N oldPw]
    by (simp add: cmdChangeMaster_def bindS_def exitWith_def throwS_def)
  show ?thesis using same differ db by blast
qed

text \<open>The claim as the specification states it fails: with a wrong old password that
  equals the new one, the command reports success where the claim asks for the
  authentication error.\<close>

theorem cmdChangeMaster_noop_counterexample:
  "fst (verifyMasterPassword toy_node ''wrong'' vault) = Inr False \<and>
   cmdChangeMaster toy_node
     [''change-master'', ''--old-master'', ''wrong'', ''--new-master'', ''wrong''] vault
     = (Inl (Exit ExitCode_OK (Some Messages_infos_masterUnchanged)), vault)"
  by (simp add: cmdChangeMaster_def changeMasterTransaction_def run_defs)

theorem cmdChangeMaster_noop_first_witness:
  "cmdChangeMaster toy_node
     [''change-master'', ''--old-master'', ''same'', ''--new-master'', ''same''] vault
     = (Inl (Exit ExitCode_OK (Some Messages_infos_masterUnchanged)), vault) \<and>
   cmdChangeMaster toy_node
     [''change-master'', ''--old-master'', ''wrong'', ''--new-master'', ''other''] vault
     = (Inl (Exit ExitCode_AUTH_ERROR (Some Messages_errors_invalidOldMaster)), vault)"
proof -
  let ?a = "[''change-master'', ''--old-master'', ''same'', ''--new-master'', ''same'']"
  let ?b = "[''change-master'', ''--old-master'', ''wrong'', ''--new-master'', ''other'']"
  have ready: "checkDbState vault = Inr READY" by (simp add: run_defs)
  have a1: "changeMasterArgsOk (drop 1 ?a)" by simp
  have a2: "(case getOption ?a ''--old-master'' of Some v \<Rightarrow> returnS v
             | None \<Rightarrow> askPassword Messages_prompts_enterOldMaster) vault = (Inr ''same'', vault)"
    by (simp add: run_defs)
  have a3: "(case getOption ?a ''--new-master'' of Some v \<Rightarrow> returnS v
             | None \<Rightarrow> askNewMasterWithConfirm) vault = (Inr ''same'', vault)"
    by (simp add: run_defs)
  have b1: "changeMasterArgsOk (drop 1 ?b)" by simp
  have b2: "(case getOption ?b ''--old-master'' of Some v \<Rightarrow> returnS v
             | None \<Rightarrow> askPassword Messages_prompts_enterOldMaster) vault = (Inr ''wrong'', vault)"
    by (simp add: run_defs)
  have b3: "(case getOption ?b ''--new-master'' of Some v \<Rightarrow> returnS v
             | None \<Rightarrow> askNewMasterWithConfirm) vault = (Inr ''other'', vault)"
    by (simp add: run_defs)
  have b4: "fst (verifyMasterPassword toy_node ''wrong'' vault) = Inr False"
    by (simp add: run_defs)
  from cmdChangeMaster_noop_first[OF a1 ready a2 a3, of toy_node]
       cmdChangeMaster_noop_first[OF b1 ready b2 b3, of toy_node] b4
  show ?thesis by simp
qed

subsection \<open>The order of the steps of \<^verbatim>\<open>import\<close>\<close>

text \<open>A computation that asks the operator nothing leaves the queue of answers as it
  is.\<close>

definition unprompted :: "'a comp \<Rightarrow> bool" where
  "unprompted m \<longleftrightarrow> (\<forall>w. tty (snd (m w)) = tty w)"

lemma unprompted_returnS [simp]: "unprompted (returnS x)" by (simp add: unprompted_def returnS_def)
lemma unprompted_throwS [simp]: "unprompted (throwS e)" by (simp add: unprompted_def throwS_def)
lemma unprompted_exitWith [simp]: "unprompted (exitWith c msg)" by (simp add: exitWith_def)
lemma unprompted_liftR [simp]: "unprompted (liftR f)" by (simp add: unprompted_def liftR_def)
lemma unprompted_db_read [simp]: "unprompted (db_read f)"
  by (simp add: unprompted_def db_read_def split: option.splits)
lemma unprompted_randomBytes [simp]: "unprompted (randomBytes n)"
  by (simp add: unprompted_def randomBytes_def)
lemma unprompted_tick [simp]: "unprompted tick"
  by (simp add: unprompted_def tick_def split: option.splits nat.splits)
lemma unprompted_exec_ROLLBACK [simp]: "unprompted exec_ROLLBACK"
  by (simp add: unprompted_def exec_ROLLBACK_def split: option.splits)

lemma unprompted_bind:
  "unprompted m \<Longrightarrow> (\<And>x. unprompted (f x)) \<Longrightarrow> unprompted (bindS m f)"
  by (auto simp: unprompted_def bindS_def split: prod.splits sum.splits) (metis snd_conv)+

lemma unprompted_catch:
  "unprompted m \<Longrightarrow> (\<And>e. unprompted (h e)) \<Longrightarrow> unprompted (catchS m h)"
  by (auto simp: unprompted_def catchS_def split: prod.splits sum.splits abort.splits)
     (metis snd_conv)+

lemma unprompted_if:
  "(c \<Longrightarrow> unprompted a) \<Longrightarrow> (\<not> c \<Longrightarrow> unprompted b) \<Longrightarrow> unprompted (if c then a else b)"
  by simp

lemma unprompted_case_option:
  "unprompted a \<Longrightarrow> (\<And>x. unprompted (b x)) \<Longrightarrow>
   unprompted (case v of None \<Rightarrow> a | Some x \<Rightarrow> b x)"
  by (cases v) auto

lemmas unprompted_intros = unprompted_bind unprompted_catch unprompted_if unprompted_case_option

lemma unprompted_db_write [simp]: "unprompted (db_write f)"
  unfolding db_write_def
  by (intro unprompted_intros unprompted_tick)
     (simp_all add: unprompted_def split: option.splits sum.splits prod.splits)

lemma unprompted_exec_BEGIN [simp]: "unprompted exec_BEGIN"
  unfolding exec_BEGIN_def
  by (intro unprompted_intros unprompted_tick) (simp_all add: unprompted_def split: option.splits)

lemma unprompted_exec_COMMIT [simp]: "unprompted exec_COMMIT"
  unfolding exec_COMMIT_def
  by (intro unprompted_intros unprompted_tick) (simp_all add: unprompted_def split: option.splits)

lemma unprompted_encrypt [simp]: "unprompted (encrypt N p k)"
  unfolding encrypt_def by (intro unprompted_intros) (simp_all split: prod.splits)

lemma unprompted_insertAll [simp]: "unprompted (insertAll N k rows)"
proof (induction rows)
  case Nil
  show ?case by simp
next
  case (Cons r rows)
  show ?case unfolding insertAll.simps by (intro unprompted_intros Cons) simp_all
qed

lemma unprompted_getMasterSalt [simp]: "unprompted getMasterSalt"
  unfolding getMasterSalt_def by (intro unprompted_intros) simp_all

lemma unprompted_tryRollback [simp]: "unprompted tryRollback"
  unfolding tryRollback_def by (intro unprompted_intros) simp_all

lemma unprompted_importTransaction [simp]: "unprompted (importTransaction N masterPw records)"
  unfolding importTransaction_def Let_def by (intro unprompted_intros) simp_all

lemma unprompted_import_block:
  "unprompted (bindS (catchS (importTransaction N masterPw records)
                        (\<lambda>e. bindS tryRollback (\<lambda>_. exitWith c msg)))
                 (\<lambda>_. exitWith c' msg'))"
  by (intro unprompted_intros) simp_all

text \<open>A file with one record, and the small vault with its table emptied.\<close>

definition valid_csv :: string where
  "valid_csv = ''service,username,password'' @ [CHR 0x0A] @ ''a,b,c''"

definition empty_vault :: world where
  "empty_vault = vault\<lparr>dbfile := Some (vault_db\<lparr>credentials := Some []\<rparr>)\<rparr>"

text \<open>
  Claim C4, as the code has it. On a ready store \<open>cmdImport\<close> reads the master password
  and verifies it first; a wrong password ends the command with the authentication error
  whatever the file holds. Only then the file is parsed and validated, and an error of
  \<open>parseCsvFileStrict\<close> ends the command before any question is asked. With a valid file,
  the confirmation of the replacement is asked exactly when the table is not empty. On an
  empty table nothing is asked: the command goes on to the replacement in the world it had
  after reading the password, and the queue of answers of the operator is at the end as it
  was then. On a table that is not empty the operator is asked once, with the number of
  rows; a prompt that fails ends the command, the answer \<^verbatim>\<open>n\<close> cancels with exit code 0,
  and any other answer goes on to the replacement. Up to the replacement the database is
  untouched.
\<close>

theorem cmdImport_step_order:
  assumes "length args = 2 \<or> length args = 4"
    and "checkDbState w = Inr READY"
    and "getMasterPassword args 2 w = (Inr masterPw, w1)"
  shows "(fst (verifyMasterPassword N masterPw w) = Inr False \<longrightarrow>
            cmdImport N args w =
              (Inl (Exit ExitCode_AUTH_ERROR (Some Messages_errors_authFailed)), w1)) \<and>
         (fst (verifyMasterPassword N masterPw w) = Inr True \<longrightarrow>
            (\<forall>e. parseCsvFileStrict N (args ! 1) w = Inl e \<longrightarrow> cmdImport N args w = (Inl e, w1))) \<and>
         (fst (verifyMasterPassword N masterPw w) = Inr True \<longrightarrow>
            (\<forall>records d rows.
               parseCsvFileStrict N (args ! 1) w = Inr records \<and>
               dbfile w = Some d \<and> credentials d = Some rows \<longrightarrow>
               (rows = [] \<longrightarrow>
                  cmdImport N args w =
                    bindS (catchS (importTransaction N masterPw records)
                             (\<lambda>e. bindS tryRollback (\<lambda>_.
                                exitWith ExitCode_IO_DB_ERROR (Some Messages_errors_importFailed))))
                      (\<lambda>_. exitWith ExitCode_OK
                              (Some (''Success: imported '' @ show_nat (length records)
                                     @ '' records.''))) w1 \<and>
                  tty (snd (cmdImport N args w)) = tty w1) \<and>
               (rows \<noteq> [] \<longrightarrow>
                  (\<forall>r w2.
                     askChoice (Messages_prompts_confirmImportReplace (length rows)) [''y'', ''n''] w1
                       = (r, w2) \<longrightarrow>
                     dbfile w2 = dbfile w \<and> txn w2 = txn w \<and>
                     cmdImport N args w =
                       (case r of
                          Inl e \<Rightarrow> (Inl e, w2)
                        | Inr choice \<Rightarrow>
                            if choice = ''n''
                            then (Inl (Exit ExitCode_OK (Some Messages_infos_importCanceled)), w2)
                            else bindS (catchS (importTransaction N masterPw records)
                                     (\<lambda>e. bindS tryRollback (\<lambda>_.
                                        exitWith ExitCode_IO_DB_ERROR (Some Messages_errors_importFailed))))
                              (\<lambda>_. exitWith ExitCode_OK
                                      (Some (''Success: imported '' @ show_nat (length records)
                                             @ '' records.''))) w2))))) \<and>
         dbfile w1 = dbfile w \<and> txn w1 = txn w"
proof -
  have t1: "tty_only w w1" using assms(3) by (rule getMasterPassword_tty)
  note f1 = tty_only_fields[OF t1]
  have ex: "dbfile w1 \<noteq> None"
    using f1(1) assms(2) checkDbState_READY_Some by simp
  note start = assms(1,3) requireReadyState_READY[OF assms(2)] openDb_existing[OF ex]
    verifyMasterPassword_run[OF f1(1), of N masterPw] parseCsvFileStrict_files[OF f1(3), of N "args ! 1"]
  let ?block = "\<lambda>records. bindS (catchS (importTransaction N masterPw records)
                             (\<lambda>e. bindS tryRollback (\<lambda>_.
                                exitWith ExitCode_IO_DB_ERROR (Some Messages_errors_importFailed))))
                      (\<lambda>_. exitWith ExitCode_OK
                              (Some (''Success: imported '' @ show_nat (length records)
                                     @ '' records.'')))"
  have wrong: "fst (verifyMasterPassword N masterPw w) = Inr False \<Longrightarrow>
      cmdImport N args w = (Inl (Exit ExitCode_AUTH_ERROR (Some Messages_errors_authFailed)), w1)"
    using start by (simp add: cmdImport_def bindS_def exitWith_def throwS_def)
  have malformed: "fst (verifyMasterPassword N masterPw w) = Inr True \<Longrightarrow>
      parseCsvFileStrict N (args ! 1) w = Inl e \<Longrightarrow> cmdImport N args w = (Inl e, w1)" for e
    using start by (simp add: cmdImport_def bindS_def liftR_def)
  have unasked: "cmdImport N args w = ?block records w1 \<and>
       tty (snd (cmdImport N args w)) = tty w1"
    if "fst (verifyMasterPassword N masterPw w) = Inr True"
      and "parseCsvFileStrict N (args ! 1) w = Inr records"
      and "dbfile w = Some d" and "credentials d = Some rows" and "rows = []"
    for records d rows
  proof -
    have "cmdImport N args w = ?block records w1"
      using start that f1(1)
      by (simp add: cmdImport_def bindS_def liftR_def returnS_def db_read_def
          sql_count_credentials_def)
    moreover have "tty (snd (?block records w1)) = tty w1"
      by (rule unprompted_import_block[unfolded unprompted_def, rule_format])
    ultimately show ?thesis by simp
  qed
  have asked: "dbfile w2 = dbfile w \<and> txn w2 = txn w \<and>
       cmdImport N args w =
         (case r of
            Inl e \<Rightarrow> (Inl e, w2)
          | Inr choice \<Rightarrow>
              if choice = ''n''
              then (Inl (Exit ExitCode_OK (Some Messages_infos_importCanceled)), w2)
              else ?block records w2)"
    if "fst (verifyMasterPassword N masterPw w) = Inr True"
      and "parseCsvFileStrict N (args ! 1) w = Inr records"
      and "dbfile w = Some d" and "credentials d = Some rows" and "rows \<noteq> []"
      and "askChoice (Messages_prompts_confirmImportReplace (length rows)) [''y'', ''n''] w1 = (r, w2)"
    for records d rows r w2
  proof -
    have "tty_only w1 w2" using that(6) by (rule askChoice_tty)
    then have "dbfile w2 = dbfile w" "txn w2 = txn w"
      using tty_only_fields[OF tty_only_trans[OF t1]] by simp_all
    moreover have "cmdImport N args w =
         (case r of
            Inl e \<Rightarrow> (Inl e, w2)
          | Inr choice \<Rightarrow>
              if choice = ''n''
              then (Inl (Exit ExitCode_OK (Some Messages_infos_importCanceled)), w2)
              else ?block records w2)"
      using start that f1(1)
      by (cases r)
         (simp_all add: cmdImport_def bindS_def liftR_def returnS_def db_read_def
            sql_count_credentials_def exitWith_def throwS_def)
    ultimately show ?thesis by simp
  qed
  show ?thesis using wrong malformed unasked asked f1(1,2) by blast
qed

text \<open>The claim as the specification states it fails: with a wrong master password and
  a file whose second data line has two fields, the parser would report the format error,
  and the command reports the authentication failure.\<close>

theorem cmdImport_step_order_counterexample:
  "parseCsvFileStrict toy_node ''in.csv''
       (vault\<lparr>files := (files vault)(''in.csv'' \<mapsto> File malformed_csv)\<rparr>)
     = Inl (Exit ExitCode_GENERAL_ERROR (Some Messages_errors_invalidImportFormat)) \<and>
   fst (cmdImport toy_node [''import'', ''in.csv'', ''--master'', ''wrong'']
       (vault\<lparr>files := (files vault)(''in.csv'' \<mapsto> File malformed_csv)\<rparr>))
     = Inl (Exit ExitCode_AUTH_ERROR (Some Messages_errors_authFailed))"
  by (simp add: cmdImport_def importTransaction_def run_defs csv_defs)

lemma import_unasked:
  "fst (cmdImport toy_node [''import'', ''in.csv'', ''--master'', ''Passw0rd!'']
         (empty_vault\<lparr>tty := [Line ''n''], files := (files vault)(''in.csv'' \<mapsto> File valid_csv)\<rparr>))
     = Inl (Exit ExitCode_OK (Some ''Success: imported 1 records.''))"
  by (simp add: cmdImport_def importTransaction_def run_defs csv_defs valid_csv_def empty_vault_def
      show_nat.simps)

theorem cmdImport_step_order_witness:
  "cmdImport toy_node [''import'', ''in.csv'', ''--master'', ''Passw0rd!'']
       (vault\<lparr>files := (files vault)(''in.csv'' \<mapsto> File malformed_csv)\<rparr>)
     = (Inl (Exit ExitCode_GENERAL_ERROR (Some Messages_errors_invalidImportFormat)),
        vault\<lparr>files := (files vault)(''in.csv'' \<mapsto> File malformed_csv)\<rparr>) \<and>
   cmdImport toy_node [''import'', ''in.csv'', ''--master'', ''wrong'']
       (vault\<lparr>files := (files vault)(''in.csv'' \<mapsto> File malformed_csv)\<rparr>)
     = (Inl (Exit ExitCode_AUTH_ERROR (Some Messages_errors_authFailed)),
        vault\<lparr>files := (files vault)(''in.csv'' \<mapsto> File malformed_csv)\<rparr>) \<and>
   cmdImport toy_node [''import'', ''in.csv'', ''--master'', ''Passw0rd!'']
       (vault\<lparr>tty := [Line ''n''], files := (files vault)(''in.csv'' \<mapsto> File valid_csv)\<rparr>)
     = (Inl (Exit ExitCode_OK (Some Messages_infos_importCanceled)),
        vault\<lparr>tty := [], files := (files vault)(''in.csv'' \<mapsto> File valid_csv)\<rparr>) \<and>
   fst (cmdImport toy_node [''import'', ''in.csv'', ''--master'', ''Passw0rd!'']
         (empty_vault\<lparr>tty := [Line ''n''], files := (files vault)(''in.csv'' \<mapsto> File valid_csv)\<rparr>))
     = Inl (Exit ExitCode_OK (Some ''Success: imported 1 records.'')) \<and>
   tty (snd (cmdImport toy_node [''import'', ''in.csv'', ''--master'', ''Passw0rd!'']
         (empty_vault\<lparr>tty := [Line ''n''], files := (files vault)(''in.csv'' \<mapsto> File valid_csv)\<rparr>)))
     = [Line ''n'']"
proof -
  let ?w = "vault\<lparr>files := (files vault)(''in.csv'' \<mapsto> File malformed_csv)\<rparr>"
  let ?v = "vault\<lparr>tty := [Line ''n''], files := (files vault)(''in.csv'' \<mapsto> File valid_csv)\<rparr>"
  let ?v' = "vault\<lparr>tty := [], files := (files vault)(''in.csv'' \<mapsto> File valid_csv)\<rparr>"
  let ?e = "empty_vault\<lparr>tty := [Line ''n''], files := (files vault)(''in.csv'' \<mapsto> File valid_csv)\<rparr>"
  let ?good = "[''import'', ''in.csv'', ''--master'', ''Passw0rd!'']"
  let ?bad = "[''import'', ''in.csv'', ''--master'', ''wrong'']"
  let ?one = "[\<lparr>service = ''a'', username = ''b'', password = ''c''\<rparr>]"
  have ready: "checkDbState ?w = Inr READY" by (simp add: run_defs)
  have g1: "length ?good = 2 \<or> length ?good = 4" by simp
  have g2: "getMasterPassword ?good 2 ?w = (Inr ''Passw0rd!'', ?w)" by (simp add: run_defs)
  have g3: "fst (verifyMasterPassword toy_node ''Passw0rd!'' ?w) = Inr True" by (simp add: run_defs)
  have g4: "parseCsvFileStrict toy_node (?good ! 1) ?w
      = Inl (Exit ExitCode_GENERAL_ERROR (Some Messages_errors_invalidImportFormat))"
    by (simp add: run_defs csv_defs)
  have b1: "length ?bad = 2 \<or> length ?bad = 4" by simp
  have b2: "getMasterPassword ?bad 2 ?w = (Inr ''wrong'', ?w)" by (simp add: run_defs)
  have b3: "fst (verifyMasterPassword toy_node ''wrong'' ?w) = Inr False" by (simp add: run_defs)
  have v0: "checkDbState ?v = Inr READY" by (simp add: run_defs)
  have v2: "getMasterPassword ?good 2 ?v = (Inr ''Passw0rd!'', ?v)" by (simp add: run_defs)
  have v3: "fst (verifyMasterPassword toy_node ''Passw0rd!'' ?v) = Inr True" by (simp add: run_defs)
  have v4: "parseCsvFileStrict toy_node (?good ! 1) ?v = Inr ?one"
    by (simp add: run_defs csv_defs valid_csv_def)
  have v5: "dbfile ?v = Some vault_db" by (simp add: vault_def)
  have v6: "credentials vault_db = Some (the (credentials vault_db))"
    "the (credentials vault_db) \<noteq> []" "length (the (credentials vault_db)) = 2"
    by (simp_all add: vault_db_def)
  have v7: "askChoice (Messages_prompts_confirmImportReplace 2) [''y'', ''n''] ?v = (Inr ''n'', ?v')"
    by (simp add: run_defs)
  have e0: "checkDbState ?e = Inr READY" by (simp add: run_defs empty_vault_def)
  have e2: "getMasterPassword ?good 2 ?e = (Inr ''Passw0rd!'', ?e)" by (simp add: run_defs)
  have e3: "fst (verifyMasterPassword toy_node ''Passw0rd!'' ?e) = Inr True"
    by (simp add: run_defs empty_vault_def)
  have e4: "parseCsvFileStrict toy_node (?good ! 1) ?e = Inr ?one"
    by (simp add: run_defs csv_defs valid_csv_def empty_vault_def)
  have e5: "dbfile ?e = Some (vault_db\<lparr>credentials := Some []\<rparr>)"
    by (simp add: empty_vault_def vault_def)
  have e6: "credentials (vault_db\<lparr>credentials := Some []\<rparr>) = Some []" by simp
  have e7: "tty ?e = [Line ''n'']" by simp
  from cmdImport_step_order[OF g1 ready g2, of toy_node] g3 g4
  have 1: "cmdImport toy_node ?good ?w
      = (Inl (Exit ExitCode_GENERAL_ERROR (Some Messages_errors_invalidImportFormat)), ?w)"
    by blast
  from cmdImport_step_order[OF b1 ready b2, of toy_node] b3
  have 2: "cmdImport toy_node ?bad ?w
      = (Inl (Exit ExitCode_AUTH_ERROR (Some Messages_errors_authFailed)), ?w)"
    by blast
  from cmdImport_step_order[OF g1 v0 v2, of toy_node] v3
  have "\<forall>records d rows.
      parseCsvFileStrict toy_node (?good ! 1) ?v = Inr records \<and>
      dbfile ?v = Some d \<and> credentials d = Some rows \<longrightarrow>
      (rows \<noteq> [] \<longrightarrow>
        (\<forall>r w2. askChoice (Messages_prompts_confirmImportReplace (length rows)) [''y'', ''n''] ?v
                   = (r, w2) \<longrightarrow>
           cmdImport toy_node ?good ?v =
             (case r of
                Inl e \<Rightarrow> (Inl e, w2)
              | Inr choice \<Rightarrow>
                  if choice = ''n''
                  then (Inl (Exit ExitCode_OK (Some Messages_infos_importCanceled)), w2)
                  else bindS (catchS (importTransaction toy_node ''Passw0rd!'' records)
                           (\<lambda>e. bindS tryRollback (\<lambda>_.
                              exitWith ExitCode_IO_DB_ERROR (Some Messages_errors_importFailed))))
                    (\<lambda>_. exitWith ExitCode_OK
                            (Some (''Success: imported '' @ show_nat (length records)
                                   @ '' records.''))) w2)))"
    by blast
  from this[rule_format, OF conjI[OF v4 conjI[OF v5 v6(1)]] v6(2), unfolded v6(3), OF v7]
  have 3: "cmdImport toy_node ?good ?v
      = (Inl (Exit ExitCode_OK (Some Messages_infos_importCanceled)), ?v')"
    by simp
  from cmdImport_step_order[OF g1 e0 e2, of toy_node] e3
  have "\<forall>records d rows.
      parseCsvFileStrict toy_node (?good ! 1) ?e = Inr records \<and>
      dbfile ?e = Some d \<and> credentials d = Some rows \<longrightarrow>
      (rows = [] \<longrightarrow> tty (snd (cmdImport toy_node ?good ?e)) = tty ?e)"
    by blast
  from this[rule_format, OF conjI[OF e4 conjI[OF e5 e6]] refl] e7
  have 4: "tty (snd (cmdImport toy_node ?good ?e)) = [Line ''n'']" by simp
  from 1 2 3 4 import_unasked show ?thesis by simp
qed
subsection \<open>The commands require a ready store\<close>

text \<open>A command refuses a store that is not ready: it ends with exit code 4 and the
  message of \<open>requireReadyState\<close>, and the world is the one it started in.\<close>

definition refuses :: "unit comp \<Rightarrow> world \<Rightarrow> DbState \<Rightarrow> bool" where
  "refuses m w s \<longleftrightarrow>
     (s = NO_DB \<or> s = UNINITIALIZED \<longrightarrow>
        m w = (Inl (Exit ExitCode_IO_DB_ERROR (Some ''Database not initialized.'')), w)) \<and>
     (s = CORRUPTED \<longrightarrow>
        m w = (Inl (Exit ExitCode_IO_DB_ERROR (Some ''Database corrupted.'')), w))"

lemma refuses_requireReady:
  assumes "checkDbState w = Inr s"
  shows "refuses (bindS requireReadyState f) w s"
  using requireReadyState_not_initialized[OF assms] requireReadyState_corrupted[of w] assms
  by (auto simp: refuses_def bindS_def)

text \<open>
  Claim C7, as the code has it. \<open>cmdInit\<close> refuses a ready store with the error
  \<^verbatim>\<open>DB already initialized\<close> and a corrupted one with \<^verbatim>\<open>Database corrupted.\<close>; the commands
  add, get, del, list, export, import and change-master call \<open>requireReadyState\<close> first
  and refuse every store that is not ready; in all these cases the world is left as
  it was. \<open>cmdStatus\<close> has a check of its own, the existence of the database file: without
  a file it ends with the error \<^verbatim>\<open>DB is not initialized\<close>; with a file it never changes the
  database, prints the number of entries whenever the table \<^verbatim>\<open>credentials\<close> exists, whatever
  the state of the store, and ends with an access error otherwise. All of this for
  argument lists that pass the usage check of the command.
\<close>

theorem commands_require_ready:
  assumes "checkDbState w = Inr s"
  shows
    "(length args = 1 \<or> (length args = 3 \<and> arg args 1 = Some ''--master'') \<longrightarrow>
        (s = READY \<longrightarrow> cmdInit N args w =
           (Inl (Exit ExitCode_GENERAL_ERROR (Some Messages_errors_dbAlreadyInitialized)), w)) \<and>
        (s = CORRUPTED \<longrightarrow> cmdInit N args w =
           (Inl (Exit ExitCode_IO_DB_ERROR (Some ''Database corrupted.'')), w))) \<and>
     (length args = 4 \<or> length args = 6 \<longrightarrow> refuses (cmdAdd N args) w s) \<and>
     (3 \<le> length args \<longrightarrow> refuses (cmdGet N args) w s) \<and>
     (3 \<le> length args \<longrightarrow> refuses (cmdDel N args) w s) \<and>
     (length args = 1 \<or> length args = 3 \<longrightarrow> refuses (cmdList N args) w s) \<and>
     (length args = 2 \<or> length args = 4 \<longrightarrow> refuses (cmdExport N args) w s) \<and>
     (length args = 2 \<or> length args = 4 \<longrightarrow> refuses (cmdImport N args) w s) \<and>
     (changeMasterArgsOk (drop 1 args) \<longrightarrow> refuses (cmdChangeMaster N args) w s) \<and>
     (length args = 1 \<longrightarrow>
        (s = NO_DB \<longrightarrow> cmdStatus N args w =
           (Inl (Exit ExitCode_IO_DB_ERROR (Some Messages_errors_dbNotInitialized)), w)) \<and>
        (\<forall>d. dbfile w = Some d \<longrightarrow>
           cmdStatus N args w =
             (case credentials d of
                Some rows \<Rightarrow>
                  (Inl (Exit ExitCode_OK None),
                   w\<lparr>stdout := stdout w @ [Messages_infos_initializedYes,
                                             ''Entries: '' @ show_nat (length rows)]\<rparr>)
              | None \<Rightarrow>
                  (Inl (Exit ExitCode_IO_DB_ERROR
                     (Some ''Error accessing DB: no such table: credentials'')), w))))"
proof -
  have init: "length args = 1 \<or> (length args = 3 \<and> arg args 1 = Some ''--master'') \<Longrightarrow>
      (s = READY \<longrightarrow> cmdInit N args w =
           (Inl (Exit ExitCode_GENERAL_ERROR (Some Messages_errors_dbAlreadyInitialized)), w)) \<and>
      (s = CORRUPTED \<longrightarrow> cmdInit N args w =
           (Inl (Exit ExitCode_IO_DB_ERROR (Some ''Database corrupted.'')), w))"
    using assms by (auto simp: cmdInit_def bindS_def liftR_def exitWith_def throwS_def)
  have add: "length args = 4 \<or> length args = 6 \<Longrightarrow> refuses (cmdAdd N args) w s"
    using refuses_requireReady[OF assms] by (auto simp: cmdAdd_def)
  have get: "3 \<le> length args \<Longrightarrow> refuses (cmdGet N args) w s"
    using refuses_requireReady[OF assms] by (auto simp: cmdGet_def)
  have del: "3 \<le> length args \<Longrightarrow> refuses (cmdDel N args) w s"
    using refuses_requireReady[OF assms] by (auto simp: cmdDel_def)
  have list: "length args = 1 \<or> length args = 3 \<Longrightarrow> refuses (cmdList N args) w s"
    using refuses_requireReady[OF assms] by (auto simp: cmdList_def)
  have export: "length args = 2 \<or> length args = 4 \<Longrightarrow> refuses (cmdExport N args) w s"
    using refuses_requireReady[OF assms] by (auto simp: cmdExport_def)
  have import: "length args = 2 \<or> length args = 4 \<Longrightarrow> refuses (cmdImport N args) w s"
    using refuses_requireReady[OF assms] by (auto simp: cmdImport_def)
  have change: "changeMasterArgsOk (drop 1 args) \<Longrightarrow> refuses (cmdChangeMaster N args) w s"
    using refuses_requireReady[OF assms] by (auto simp: cmdChangeMaster_def)
  have status1: "length args = 1 \<Longrightarrow> s = NO_DB \<Longrightarrow> cmdStatus N args w =
           (Inl (Exit ExitCode_IO_DB_ERROR (Some Messages_errors_dbNotInitialized)), w)"
    using assms checkDbState_NO_DB_iff[of w]
    by (simp add: cmdStatus_def bindS_def ensureDbExists_def exitWith_def throwS_def)
  have status2: "length args = 1 \<Longrightarrow> dbfile w = Some d \<Longrightarrow> cmdStatus N args w =
             (case credentials d of
                Some rows \<Rightarrow>
                  (Inl (Exit ExitCode_OK None),
                   w\<lparr>stdout := stdout w @ [Messages_infos_initializedYes,
                                             ''Entries: '' @ show_nat (length rows)]\<rparr>)
              | None \<Rightarrow>
                  (Inl (Exit ExitCode_IO_DB_ERROR
                     (Some ''Error accessing DB: no such table: credentials'')), w))" for d
    by (simp add: cmdStatus_def bindS_def catchS_def ensureDbExists_def openDb_def db_read_def
        sql_count_credentials_def consoleLog_def returnS_def exitWith_def throwS_def error_text_def
        split: option.splits)
  show ?thesis
    using init add get del list export import change status1 status2 by blast
qed


text \<open>The claim as the specification states it fails for \<open>cmdStatus\<close>: on a store that
  is not initialized (both tables, no master row) and on a corrupted one (the table
  \<^verbatim>\<open>credentials\<close> alone) it ends with exit code 0.\<close>

theorem commands_require_ready_counterexample:
  "checkDbState (fresh_world\<lparr>dbfile := Some (empty_db\<lparr>master := Some [], credentials := Some []\<rparr>)\<rparr>)
     = Inr UNINITIALIZED \<and>
   fst (cmdStatus toy_node [''status'']
         (fresh_world\<lparr>dbfile := Some (empty_db\<lparr>master := Some [], credentials := Some []\<rparr>)\<rparr>))
     = Inl (Exit ExitCode_OK None) \<and>
   checkDbState (fresh_world\<lparr>dbfile := Some (empty_db\<lparr>credentials := Some []\<rparr>)\<rparr>)
     = Inr CORRUPTED \<and>
   fst (cmdStatus toy_node [''status'']
         (fresh_world\<lparr>dbfile := Some (empty_db\<lparr>credentials := Some []\<rparr>)\<rparr>))
     = Inl (Exit ExitCode_OK None)"
  by (simp add: cmdStatus_def run_defs empty_db_def)

theorem commands_require_ready_witness:
  "cmdInit toy_node [''init'', ''--master'', ''again''] vault
     = (Inl (Exit ExitCode_GENERAL_ERROR (Some Messages_errors_dbAlreadyInitialized)), vault) \<and>
   cmdAdd toy_node [''add'', ''github'', ''alice'', ''s3cret''] fresh_world
     = (Inl (Exit ExitCode_IO_DB_ERROR (Some ''Database not initialized.'')), fresh_world) \<and>
   cmdChangeMaster toy_node [''change-master'']
       (fresh_world\<lparr>dbfile := Some (empty_db\<lparr>credentials := Some []\<rparr>)\<rparr>)
     = (Inl (Exit ExitCode_IO_DB_ERROR (Some ''Database corrupted.'')),
        fresh_world\<lparr>dbfile := Some (empty_db\<lparr>credentials := Some []\<rparr>)\<rparr>) \<and>
   cmdStatus toy_node [''status''] fresh_world
     = (Inl (Exit ExitCode_IO_DB_ERROR (Some Messages_errors_dbNotInitialized)), fresh_world)"
proof -
  let ?c = "fresh_world\<lparr>dbfile := Some (empty_db\<lparr>credentials := Some []\<rparr>)\<rparr>"
  have r: "checkDbState vault = Inr READY" by (simp add: run_defs)
  have n: "checkDbState fresh_world = Inr NO_DB" by (simp add: run_defs)
  have c: "checkDbState ?c = Inr CORRUPTED" by (simp add: run_defs empty_db_def)
  have a1: "arg [''init'', ''--master'', ''again''] 1 = Some ''--master''" by (simp add: arg_def)
  from commands_require_ready[OF r, of "[''init'', ''--master'', ''again'']" toy_node] a1
  have 1: "cmdInit toy_node [''init'', ''--master'', ''again''] vault
     = (Inl (Exit ExitCode_GENERAL_ERROR (Some Messages_errors_dbAlreadyInitialized)), vault)"
    by simp
  from commands_require_ready[OF n, of "[''add'', ''github'', ''alice'', ''s3cret'']" toy_node]
  have 2: "cmdAdd toy_node [''add'', ''github'', ''alice'', ''s3cret''] fresh_world
     = (Inl (Exit ExitCode_IO_DB_ERROR (Some ''Database not initialized.'')), fresh_world)"
    by (simp add: refuses_def)
  from commands_require_ready[OF c, of "[''change-master'']" toy_node]
  have 3: "cmdChangeMaster toy_node [''change-master''] ?c
     = (Inl (Exit ExitCode_IO_DB_ERROR (Some ''Database corrupted.'')), ?c)"
    by (simp add: refuses_def)
  from commands_require_ready[OF n, of "[''status'']" toy_node]
  have 4: "cmdStatus toy_node [''status''] fresh_world
     = (Inl (Exit ExitCode_IO_DB_ERROR (Some Messages_errors_dbNotInitialized)), fresh_world)"
    by simp
  from 1 2 3 4 show ?thesis by simp
qed

text \<open>From a store without a file or not initialized, \<open>cmdInit\<close> with a master password that
  is not empty, on an engine that does not fail, ends with exit code 0 and leaves a ready
  store.\<close>

lemma cmdInit_initializes:
  assumes "checkDbState w = Inr s" and "s = NO_DB \<or> s = UNINITIALIZED"
    and "masterPw \<noteq> []" and "faults w = None" and "txn w = None"
  shows "fst (cmdInit N [c, ''--master'', masterPw] w)
           = Inl (Exit ExitCode_OK (Some Messages_infos_dbInitialized)) \<and>
         checkDbState (snd (cmdInit N [c, ''--master'', masterPw] w)) = Inr READY \<and>
         txn (snd (cmdInit N [c, ''--master'', masterPw] w)) = None"
proof (cases "dbfile w")
  case None
  with assms show ?thesis
    by (simp add: cmdInit_def run_defs empty_db_def del: char_of_eq_iff)
next
  case (Some d)
  with assms(1,2) have "s = UNINITIALIZED"
    using checkDbState_NO_DB_iff[of w] by auto
  with assms(1) Some have ok: "integrity_check d = PragmaRow ''ok''"
    and tables: "(master d = None \<and> credentials d = None) \<or> (master d = Some [] \<and> credentials d \<noteq> None)"
    using checkDbState_UNINITIALIZED_D[of w d] by auto
  from tables show ?thesis
  proof
    assume "master d = None \<and> credentials d = None"
    with Some ok assms show ?thesis
      by (simp add: cmdInit_def run_defs del: char_of_eq_iff)
  next
    assume "master d = Some [] \<and> credentials d \<noteq> None"
    with Some ok assms show ?thesis
      by (auto simp: cmdInit_def run_defs simp del: char_of_eq_iff)
  qed
qed

subsection \<open>The round trip of the interchange format\<close>

lemma str_split_no_separator: "c \<notin> set xs \<Longrightarrow> str_split c xs = [xs]"
  by (induction xs) auto

lemma str_split_append:
  "c \<notin> set xs \<Longrightarrow> str_split c (xs @ c # ys) = xs # str_split c ys"
  by (induction xs) auto

lemma str_join_Cons: "ls \<noteq> [] \<Longrightarrow> str_join c (l # ls) = l @ c # str_join c ls"
  by (cases ls) auto

lemma str_split_join:
  "ls \<noteq> [] \<Longrightarrow> \<forall>l \<in> set ls. c \<notin> set l \<Longrightarrow> str_split c (str_join c ls) = ls"
proof (induction ls)
  case Nil
  then show ?case by simp
next
  case (Cons l ls)
  show ?case
  proof (cases "ls = []")
    case True
    with Cons.prems show ?thesis by (simp add: str_split_no_separator)
  next
    case False
    with Cons show ?thesis by (simp add: str_join_Cons str_split_append)
  qed
qed

lemma set_str_join: "set (str_join c ls) \<subseteq> insert c (\<Union>l \<in> set ls. set l)"
  by (induction c ls rule: str_join.induct) auto

definition csv_line :: "CsvRecord \<Rightarrow> string" where
  "csv_line r = service r @ '','' @ username r @ '','' @ password r"

definition plain_field :: "string \<Rightarrow> bool" where
  "plain_field f \<longleftrightarrow> \<not> CONTROL_CHAR_RE_test f \<and> CHR '','' \<notin> set f"

definition plain_record :: "CsvRecord \<Rightarrow> bool" where
  "plain_record r \<longleftrightarrow> plain_field (service r) \<and> plain_field (username r) \<and> plain_field (password r)"

lemma buildLines_plain:
  "\<forall>r \<in> set records. plain_record r \<Longrightarrow> buildLines records = Inr (map csv_line records)"
  by (induction records) (auto simp: plain_record_def plain_field_def csv_line_def)

lemma str_split_csv_line:
  "plain_record r \<Longrightarrow> str_split (CHR '','') (csv_line r) = [service r, username r, password r]"
  by (simp add: plain_record_def plain_field_def csv_line_def str_split_append str_split_no_separator)

lemma parseLines_csv_lines:
  "\<forall>r \<in> set records. plain_record r \<Longrightarrow> parseLines i (map csv_line records) = Inr records"
proof (induction records arbitrary: i)
  case Nil
  show ?case by simp
next
  case (Cons r records)
  then have r: "plain_record r" and rest: "parseLines (i + 1) (map csv_line records) = Inr records"
    by simp_all
  have ne: "csv_line r \<noteq> []" by (simp add: csv_line_def)
  have ok: "validateNoControlChars [service r, username r, password r] = Inr ()"
    using r by (simp add: plain_record_def plain_field_def)
  show ?case
    using ne ok rest str_split_csv_line[OF r]
    by (simp add: CsvSpec_columns_def Let_def)
qed

lemma csv_line_no_newline:
  "plain_record r \<Longrightarrow> CHR 0x0A \<notin> set (csv_line r) \<and> CHR 0x0D \<notin> set (csv_line r)"
  by (auto simp: plain_record_def plain_field_def csv_line_def CONTROL_CHAR_RE_test_iff)

lemma parseCsvText_buildCsv:
  assumes "\<forall>r \<in> set records. plain_record r"
  shows "parseCsvText path (str_join CsvSpec_newline (CsvSpec_header # map csv_line records)) = Inr records"
proof -
  let ?lines = "CsvSpec_header # map csv_line records"
  let ?text = "str_join CsvSpec_newline ?lines"
  have nl: "\<forall>l \<in> set ?lines. CsvSpec_newline \<notin> set l"
    using assms csv_line_no_newline by (auto simp: CsvSpec_newline_def CsvSpec_header_def)
  have split: "str_split CsvSpec_newline ?text = ?lines"
    by (rule str_split_join) (use nl in simp_all)
  have "set ?text \<subseteq> insert CsvSpec_newline (\<Union>l \<in> set ?lines. set l)"
    by (rule set_str_join)
  moreover have "\<forall>l \<in> set ?lines. CHR 0x0D \<notin> set l"
    using assms csv_line_no_newline by (auto simp: CsvSpec_header_def)
  ultimately have cr: "CHR 0x0D \<notin> set ?text"
    by (auto simp: CsvSpec_newline_def)
  have "take 3 ?text = take 3 CsvSpec_header"
    by (cases "map csv_line records = []") (simp_all add: str_join_Cons CsvSpec_header_def)
  then have bom: "take 3 ?text \<noteq> [CHR 0xEF, CHR 0xBB, CHR 0xBF]"
    by (simp add: CsvSpec_header_def)
  have hd: "CsvSpec_header \<noteq> []" by (simp add: CsvSpec_header_def)
  show ?thesis
    using bom cr split hd parseLines_csv_lines[OF assms, of 1]
    by (simp add: parseCsvText_def del: str_join.simps)
qed

text \<open>
  Where no field holds a comma the round trip holds: for every list of records whose
  fields contain no tab, carriage return or line feed and no comma, \<open>buildCsv\<close> succeeds,
  and \<open>parseCsvFileStrict\<close> applied to a file with the extension \<^verbatim>\<open>.csv\<close> that holds the text
  built returns exactly the same list of records. The text is the header and one line per
  record, joined by line feeds.
\<close>

lemma csv_round_trip_without_comma:
  assumes "\<forall>r \<in> set records. plain_record r"
  shows "\<exists>text. buildCsv records = Inr text \<and>
           text = str_join CsvSpec_newline (CsvSpec_header # map csv_line records) \<and>
           parseCsvText path text = Inr records \<and>
           (\<forall>N w. toLowerCase (path_extname N path) = CsvSpec_extension \<and>
                  files w path = Some (File text) \<longrightarrow>
                  parseCsvFileStrict N path w = Inr records)"
proof -
  let ?text = "str_join CsvSpec_newline (CsvSpec_header # map csv_line records)"
  have b: "buildCsv records = Inr ?text"
    using buildLines_plain[OF assms] by (simp add: buildCsv_def)
  have p: "parseCsvText path ?text = Inr records"
    by (rule parseCsvText_buildCsv[OF assms])
  have "parseCsvFileStrict N path w = Inr records"
    if "toLowerCase (path_extname N path) = CsvSpec_extension" "files w path = Some (File ?text)"
    for N w
    using that p by (simp add: parseCsvFileStrict_def requireCsvExtension_def requireExistingFile_def)
  with b p show ?thesis by blast
qed

lemma csv_round_trip_example:
  "buildCsv [\<lparr>service = ''github'', username = ''alice'', password = ''s3cret''\<rparr>,
             \<lparr>service = ''mail'', username = ''bob'', password = ''hunter2''\<rparr>]
     = Inr (''service,username,password'' @ [CHR 0x0A] @ ''github,alice,s3cret'' @ [CHR 0x0A]
            @ ''mail,bob,hunter2'') \<and>
   parseCsvText ''out.csv'' (''service,username,password'' @ [CHR 0x0A] @ ''github,alice,s3cret''
            @ [CHR 0x0A] @ ''mail,bob,hunter2'')
     = Inr [\<lparr>service = ''github'', username = ''alice'', password = ''s3cret''\<rparr>,
            \<lparr>service = ''mail'', username = ''bob'', password = ''hunter2''\<rparr>]"
proof -
  let ?rs = "[\<lparr>service = ''github'', username = ''alice'', password = ''s3cret''\<rparr>,
             \<lparr>service = ''mail'', username = ''bob'', password = ''hunter2''\<rparr>]"
  have plain: "\<forall>r \<in> set ?rs. plain_record r"
    by (simp add: plain_record_def plain_field_def CONTROL_CHAR_RE_test_def)
  have built: "str_join CsvSpec_newline (CsvSpec_header # map csv_line ?rs)
      = ''service,username,password'' @ [CHR 0x0A] @ ''github,alice,s3cret'' @ [CHR 0x0A]
            @ ''mail,bob,hunter2''"
    by (simp add: CsvSpec_newline_def CsvSpec_header_def csv_line_def)
  from csv_round_trip_without_comma[OF plain, of "''out.csv''"] built show ?thesis by auto
qed

text \<open>The small vault after \<^verbatim>\<open>add a,b u p\<close>, and the text that \<^verbatim>\<open>export\<close> writes for it.\<close>

definition comma_vault :: world where
  "comma_vault =
     vault\<lparr>dbfile := Some (vault_db\<lparr>credentials := Some
          [\<lparr>service = ''github'', username = ''alice'',
             password = ''kkkkkkkkkkkkPassw0rd!6b6b6b6terc3s''\<rparr>,
           \<lparr>service = ''mail'', username = ''bob'',
             password = ''kkkkkkkkkkkkPassw0rd!6b6b6b62retnuh''\<rparr>,
           \<lparr>service = ''a,b'', username = ''u'',
             password = ''kkkkkkkkkkkkPassw0rd!6b6b6b6p''\<rparr>]\<rparr>), epos := 12\<rparr>"

definition comma_csv :: string where
  "comma_csv = ''service,username,password'' @ [CHR 0x0A] @ ''github,alice,s3cret'' @ [CHR 0x0A]
                 @ ''mail,bob,hunter2'' @ [CHR 0x0A] @ ''a,b,u,p''"

lemmas export_defs =
  cmdExport_def validateExportTargetPath_def buildCsv_def writeFileSync_def renameSync_def

lemma add_with_comma:
  "cmdAdd toy_node [''add'', ''a,b'', ''u'', ''p'', ''--master'', ''Passw0rd!''] vault
     = (Inl (Exit ExitCode_OK (Some ''Added: a,b u'')), comma_vault)"
  by (simp add: cmdAdd_def run_defs csv_defs comma_vault_def)
     (simp add: map_replicate_const eval_nat_numeral)

lemma export_with_comma:
  "fst (cmdExport toy_node [''export'', ''out.csv'', ''--master'', ''Passw0rd!''] comma_vault)
     = Inl (Exit ExitCode_OK (Some ''Success: Exported to out.csv'')) \<and>
   files (snd (cmdExport toy_node [''export'', ''out.csv'', ''--master'', ''Passw0rd!''] comma_vault))
       ''out.csv'' = Some (File comma_csv)"
  by (simp add: export_defs run_defs csv_defs comma_vault_def comma_csv_def)

lemma import_of_export:
  "fst (cmdImport toy_node [''import'', ''out.csv'', ''--master'', ''Passw0rd!'']
         (snd (cmdExport toy_node [''export'', ''out.csv'', ''--master'', ''Passw0rd!''] comma_vault)))
     = Inl (Exit ExitCode_GENERAL_ERROR (Some Messages_errors_invalidImportFormat))"
  by (simp add: cmdImport_def importTransaction_def export_defs run_defs csv_defs comma_vault_def)

lemma comma_not_parsed:
  "buildCsv [\<lparr>service = ''a,b'', username = ''u'', password = ''p''\<rparr>]
     = Inr (''service,username,password'' @ [CHR 0x0A] @ ''a,b,u,p'') \<and>
   parseCsvFileStrict toy_node ''out.csv''
       (fresh_world\<lparr>files := (files fresh_world)(''out.csv'' \<mapsto>
          File (''service,username,password'' @ [CHR 0x0A] @ ''a,b,u,p''))\<rparr>)
     = Inl (Exit ExitCode_GENERAL_ERROR (Some Messages_errors_invalidImportFormat))"
  by (simp add: buildCsv_def csv_defs toy_node_def fresh_world_def)

text \<open>
  Claim C5 does not hold of the code. The claim is the round trip for every list of
  records whose fields contain no control characters: \<open>parseCsvFileStrict\<close> applied to the
  bytes produced by \<open>buildCsv\<close> returns the same records. The record with the service
  \<^verbatim>\<open>a,b\<close>, the username \<^verbatim>\<open>u\<close> and the password \<^verbatim>\<open>p\<close> has no control character in any field;
  \<open>buildCsv\<close> writes its line \<^verbatim>\<open>a,b,u,p\<close> with the comma as it is, and \<open>parseCsvFileStrict\<close>
  rejects the text built with exit code 1 and the message of an invalid format. The
  program reaches this input by its own commands: on the small vault \<^verbatim>\<open>add a,b u p\<close>
  succeeds, \<^verbatim>\<open>export out.csv\<close> succeeds and writes the line, and \<^verbatim>\<open>import out.csv\<close> of the
  file just exported fails. The list of tests of the repository (row 54) expects exported
  data with commas and quotes to be restored by the import, and the comment in \<open>buildCsv\<close>
  says that its check guarantees the format on export.
\<close>

theorem csv_round_trip_broken:
  "\<not> CONTROL_CHAR_RE_test ''a,b'' \<and> \<not> CONTROL_CHAR_RE_test ''u'' \<and> \<not> CONTROL_CHAR_RE_test ''p'' \<and>
   buildCsv [\<lparr>service = ''a,b'', username = ''u'', password = ''p''\<rparr>]
     = Inr (''service,username,password'' @ [CHR 0x0A] @ ''a,b,u,p'') \<and>
   parseCsvFileStrict toy_node ''out.csv''
       (fresh_world\<lparr>files := (files fresh_world)(''out.csv'' \<mapsto>
          File (''service,username,password'' @ [CHR 0x0A] @ ''a,b,u,p''))\<rparr>)
     = Inl (Exit ExitCode_GENERAL_ERROR (Some Messages_errors_invalidImportFormat)) \<and>
   cmdAdd toy_node [''add'', ''a,b'', ''u'', ''p'', ''--master'', ''Passw0rd!''] vault
     = (Inl (Exit ExitCode_OK (Some ''Added: a,b u'')), comma_vault) \<and>
   fst (cmdExport toy_node [''export'', ''out.csv'', ''--master'', ''Passw0rd!''] comma_vault)
     = Inl (Exit ExitCode_OK (Some ''Success: Exported to out.csv'')) \<and>
   files (snd (cmdExport toy_node [''export'', ''out.csv'', ''--master'', ''Passw0rd!''] comma_vault))
       ''out.csv'' = Some (File comma_csv) \<and>
   fst (cmdImport toy_node [''import'', ''out.csv'', ''--master'', ''Passw0rd!'']
         (snd (cmdExport toy_node [''export'', ''out.csv'', ''--master'', ''Passw0rd!''] comma_vault)))
     = Inl (Exit ExitCode_GENERAL_ERROR (Some Messages_errors_invalidImportFormat))"
  using add_with_comma export_with_comma import_of_export comma_not_parsed
  by (simp add: CONTROL_CHAR_RE_test_def)
subsection \<open>The envelope of a password\<close>

text \<open>What the envelope needs of the platform: under a key of 32 bytes and a nonce of 12
  bytes the cipher produces a tag of 16 bytes and the decipher, given the same key, nonce
  and tag, returns the plaintext; and the base64 decoder inverts the encoder.\<close>

definition aead_correct :: "node \<Rightarrow> bool" where
  "aead_correct N \<longleftrightarrow>
     (\<forall>k iv plain. length k = 32 \<and> length iv = 12 \<longrightarrow>
        length (snd (gcm_encrypt N k iv plain)) = 16 \<and>
        gcm_decrypt N k iv (snd (gcm_encrypt N k iv plain)) (fst (gcm_encrypt N k iv plain))
          = Some plain) \<and>
     (\<forall>bytes. base64_decode N (base64_encode N bytes) = bytes)"

lemma length_randomBytes: "fst (randomBytes n w) = Inr bs \<Longrightarrow> length bs = n"
  by (auto simp: randomBytes_def)

text \<open>
  Claim C8. On a platform whose cipher and base64 codec are correct, for every plaintext
  and every key of 256 bits, \<open>encrypt\<close> returns an envelope: the base64 text of a nonce of
  12 bytes drawn from the random source at its current position (which moves on by 12, so
  that the next nonce is made of new bytes), followed by the tag of 16 bytes and the
  ciphertext; and \<open>decrypt\<close> of this envelope under the same key returns the plaintext.
\<close>

theorem envelope_round_trip:
  assumes "aead_correct N" and "length k = 32"
  shows "\<exists>iv tag encrypted envelope.
           encrypt N plain k w = (Inr envelope, w\<lparr>epos := epos w + 12\<rparr>) \<and>
           envelope = base64_encode N (iv @ tag @ encrypted) \<and>
           iv = map (entropy w) [epos w ..< epos w + 12] \<and> length iv = 12 \<and> length tag = 16 \<and>
           (encrypted, tag) = gcm_encrypt N k iv plain \<and>
           decrypt N envelope k = Inr plain"
proof -
  let ?iv = "map (entropy w) [epos w ..< epos w + 12]"
  obtain encrypted tag where g: "gcm_encrypt N k ?iv plain = (encrypted, tag)"
    by (cases "gcm_encrypt N k ?iv plain")
  let ?envelope = "base64_encode N (?iv @ tag @ encrypted)"
  have iv: "length ?iv = 12" by simp
  from assms iv g have tag: "length tag = 16"
    and dec: "gcm_decrypt N k ?iv tag encrypted = Some plain"
    and b64: "base64_decode N ?envelope = ?iv @ tag @ encrypted"
    unfolding aead_correct_def by (metis fst_conv snd_conv)+
  have e: "encrypt N plain k w = (Inr ?envelope, w\<lparr>epos := epos w + 12\<rparr>)"
    using assms(2) g by (simp add: encrypt_def bindS_def randomBytes_def returnS_def)
  have d: "decrypt N ?envelope k = Inr plain"
    using assms(2) tag dec b64 by (simp add: decrypt_def Let_def)
  from e d g iv tag show ?thesis by (metis (no_types, lifting))
qed

lemma toy_node_aead_correct: "aead_correct toy_node"
  by (simp add: aead_correct_def toy_node_def)

theorem envelope_round_trip_witness:
  "encrypt toy_node ''s3cret'' ''Passw0rd!6b6b6b6b6b6b6b6b6b6b6b6'' fresh_world
     = (Inr ''kkkkkkkkkkkkPassw0rd!6b6b6b6terc3s'', fresh_world\<lparr>epos := 12\<rparr>) \<and>
   decrypt toy_node ''kkkkkkkkkkkkPassw0rd!6b6b6b6terc3s'' ''Passw0rd!6b6b6b6b6b6b6b6b6b6b6b6''
     = Inr ''s3cret''"
proof -
  let ?k = "''Passw0rd!6b6b6b6b6b6b6b6b6b6b6b6''"
  have len: "length ?k = 32" by simp
  have run: "encrypt toy_node ''s3cret'' ?k fresh_world
     = (Inr ''kkkkkkkkkkkkPassw0rd!6b6b6b6terc3s'', fresh_world\<lparr>epos := 12\<rparr>)"
    by (simp add: run_defs upt_rec)
  from envelope_round_trip[OF toy_node_aead_correct len, of "''s3cret''" fresh_world] run
  show ?thesis by auto
qed

subsection \<open>Atomicity of \<^verbatim>\<open>import\<close>\<close>

text \<open>The strict format in the words of the specification: no byte order mark, no
  carriage return, the fixed header as first line, and every data line, a single empty
  line at the end apart, made of exactly three fields separated by commas, none of which
  contains a tab, a carriage return or a line feed.\<close>

definition spec_data_line :: "string \<Rightarrow> bool" where
  "spec_data_line l \<longleftrightarrow>
     length (str_split (CHR '','') l) = 3 \<and>
     list_all (\<lambda>f. \<not> CONTROL_CHAR_RE_test f) (str_split (CHR '','') l)"

definition spec_data_lines :: "string list \<Rightarrow> bool" where
  "spec_data_lines ls \<longleftrightarrow> list_all spec_data_line (if ls \<noteq> [] \<and> last ls = [] then butlast ls else ls)"

definition spec_strict_csv :: "string \<Rightarrow> bool" where
  "spec_strict_csv text \<longleftrightarrow>
     take 3 text \<noteq> [CHR 0xEF, CHR 0xBB, CHR 0xBF] \<and>
     CHR 0x0D \<notin> set text \<and>
     (case str_split (CHR 0x0A) text of
        [] \<Rightarrow> False
      | first # rest \<Rightarrow> first = ''service,username,password'' \<and> spec_data_lines rest)"

lemma spec_data_line_empty [simp]: "\<not> spec_data_line []"
  by (simp add: spec_data_line_def)

lemma spec_data_lines_Cons:
  "spec_data_lines (l # ls) \<longleftrightarrow> (l = [] \<and> ls = []) \<or> (spec_data_line l \<and> spec_data_lines ls)"
  by (cases "ls = []") (auto simp: spec_data_lines_def)

lemma spec_data_lines_Nil [simp]: "spec_data_lines []"
  by (simp add: spec_data_lines_def)

lemma validate_three:
  "validateNoControlChars [a, b, c] = Inr () \<longleftrightarrow>
     \<not> CONTROL_CHAR_RE_test a \<and> \<not> CONTROL_CHAR_RE_test b \<and> \<not> CONTROL_CHAR_RE_test c"
  by simp

lemma three_parts: "length ps = 3 \<Longrightarrow> ps = [ps ! 0, ps ! 1, ps ! 2]"
  by (cases ps; cases "tl ps"; cases "tl (tl ps)") auto

lemma parseLines_accepts_iff:
  "(\<exists>records. parseLines i ls = Inr records) \<longleftrightarrow> spec_data_lines ls"
proof (induction ls arbitrary: i)
  case Nil
  show ?case by simp
next
  case (Cons l ls)
  show ?case
  proof (cases "l = []")
    case True
    then show ?thesis by (auto simp: spec_data_lines_Cons)
  next
    case False
    let ?ps = "str_split (CHR '','') l"
    show ?thesis
    proof (cases "length ?ps = 3")
      case len: True
      then have ps: "?ps = [?ps ! 0, ?ps ! 1, ?ps ! 2]" by (rule three_parts)
      have ctl: "list_all (\<lambda>f. \<not> CONTROL_CHAR_RE_test f) ?ps \<longleftrightarrow>
          validateNoControlChars [?ps ! 0, ?ps ! 1, ?ps ! 2] = Inr ()"
        by (subst ps) (simp del: validateNoControlChars.simps add: validate_three)
      show ?thesis
        using False len ctl Cons.IH[of "i + 1"]
        by (auto simp: spec_data_lines_Cons spec_data_line_def CsvSpec_columns_def Let_def
            simp del: validateNoControlChars.simps split: sum.splits)
    next
      case False
      with \<open>l \<noteq> []\<close> show ?thesis
        by (auto simp: spec_data_lines_Cons spec_data_line_def CsvSpec_columns_def Let_def)
    qed
  qed
qed

lemma validate_error:
  "validateNoControlChars vs = Inl e \<Longrightarrow>
   e = Exit ExitCode_GENERAL_ERROR (Some Messages_errors_controlChar)"
  by (induction vs) (auto split: if_splits)

lemma parseLines_error:
  "parseLines i ls = Inl e \<Longrightarrow> \<exists>msg. e = Exit ExitCode_GENERAL_ERROR (Some msg)"
proof (induction ls arbitrary: i)
  case Nil
  then show ?case by simp
next
  case (Cons l ls)
  then show ?case
    by (auto simp: Let_def simp del: validateNoControlChars.simps
        split: if_splits sum.splits dest: validate_error)
qed

lemma parseCsvText_accepts_iff:
  "(\<exists>records. parseCsvText path text = Inr records) \<longleftrightarrow> spec_strict_csv text"
  using parseLines_accepts_iff[of 1]
  by (auto simp: parseCsvText_def spec_strict_csv_def CsvSpec_newline_def CsvSpec_header_def
      split: list.splits)

lemma parseCsvText_error:
  "parseCsvText path text = Inl e \<Longrightarrow> \<exists>msg. e = Exit ExitCode_GENERAL_ERROR (Some msg)"
  by (auto simp: parseCsvText_def split: if_splits list.splits dest: parseLines_error)

lemma parseCsvText_rejects:
  "\<not> spec_strict_csv text \<Longrightarrow>
   \<exists>msg. parseCsvText path text = Inl (Exit ExitCode_GENERAL_ERROR (Some msg))"
  using parseCsvText_accepts_iff[of path "text"] parseCsvText_error[of path "text"]
  by (cases "parseCsvText path text") auto


lemma cmdImport_triple:
  "triple (idle D) (cmdImport N args) (\<lambda>x w. False)
     (\<lambda>e w. (\<exists>n. e = Exit ExitCode_OK (Some (''Success: imported '' @ show_nat n @ '' records.'')))
            \<or> idle D w)"
  unfolding cmdImport_def importTransaction_def Let_def
  apply (rule triple_if)
   apply (rule triple_exitWith, simp)
  apply (rule triple_requireReady, simp)
  apply (rule triple_bind[where Q = "\<lambda>x. idle D"])
   apply (rule triple_stable_idle, simp, simp)
  apply (rule triple_bind[where Q = "\<lambda>x. idle D"])
   apply (erule triple_openDb)
  apply (rule triple_bind[where Q = "\<lambda>x. idle D"])
   apply (rule triple_stable_idle, simp, simp)
  apply (rule triple_if)
   apply (rule triple_exitWith, simp)
  apply (rule triple_bind[where Q = "\<lambda>x. idle D"])
   apply (rule triple_stable_idle, simp, simp)
  apply (rule triple_bind[where Q = "\<lambda>x. idle D"])
   apply (rule triple_stable_idle, simp, simp)
  apply (rule triple_bind[where Q = "\<lambda>x. idle D"])
   apply (rule triple_stable_idle)
    apply (intro stable_intros; simp)
   apply simp
  apply (rule triple_bind[where Q = "\<lambda>x w. txn w = None"])
   apply (rule triple_try_block)
    apply (rule triple_bind[where Q = "\<lambda>x. idle D"])
     apply (rule triple_try_idle, simp, simp)
    apply (rule triple_bind[where Q = "\<lambda>x. open_txn D"])
     apply (rule triple_BEGIN)
    apply (rule triple_bind[where Q = "\<lambda>x. open_txn D"])
     apply (rule triple_db_write, simp)
    apply (rule triple_bind[where Q = "\<lambda>x. open_txn D"])
     apply (rule triple_insertAll)
    apply (rule triple_COMMIT)
   apply simp
  apply (rule triple_exitWith)
  apply blast
  done

lemma cmdImport_parse_error:
  assumes "length args = 2 \<or> length args = 4"
    and "checkDbState w = Inr READY"
    and "getMasterPassword args 2 w = (Inr masterPw, w1)"
    and "fst (verifyMasterPassword N masterPw w) = Inr True"
    and "parseCsvFileStrict N (args ! 1) w = Inl e"
  shows "cmdImport N args w = (Inl e, w1)"
proof -
  have t1: "tty_only w w1" using assms(3) by (rule getMasterPassword_tty)
  note f1 = tty_only_fields[OF t1]
  have ex: "dbfile w1 \<noteq> None"
    using f1(1) assms(2) checkDbState_READY_Some by simp
  show ?thesis
    using assms(1,3,4,5) requireReadyState_READY[OF assms(2)] openDb_existing[OF ex]
      verifyMasterPassword_run[OF f1(1), of N masterPw]
      parseCsvFileStrict_files[OF f1(3), of N "args ! 1"]
    by (simp add: cmdImport_def bindS_def liftR_def)
qed

text \<open>A failure of the engine at any statement of the replacement is reported: with
  \<open>M\<close> records in the file, a fault at one of the first \<open>M + 3\<close> statements ends the
  command with the report that the import failed.\<close>

lemma cmdImport_fault_reported:
  assumes "length args = 2 \<or> length args = 4"
    and "checkDbState w = Inr READY"
    and "getMasterPassword args 2 w = (Inr masterPw, w1)"
    and "fst (verifyMasterPassword N masterPw w) = Inr True"
    and "parseCsvFileStrict N (args ! 1) w = Inr records"
    and "dbfile w = Some d" and "credentials d = Some rows"
    and "rows \<noteq> [] \<Longrightarrow>
           fst (askChoice (Messages_prompts_confirmImportReplace (length rows)) [''y'', ''n''] w1)
             = Inr ''y''"
    and "faults w = Some k" and "k < length records + 3"
  shows "fst (cmdImport N args w)
           = Inl (Exit ExitCode_IO_DB_ERROR (Some Messages_errors_importFailed))"
proof -
  have t1: "tty_only w w1" using assms(3) by (rule getMasterPassword_tty)
  note f1 = tty_only_fields[OF t1]
  have ex: "dbfile w1 \<noteq> None" using f1(1) assms(6) by simp
  have cnt: "db_read sql_count_credentials w1 = (Inr (length rows), w1)"
    using f1(1) assms(6,7) by (simp add: db_read_def sql_count_credentials_def)
  let ?block = "bindS (catchS (importTransaction N masterPw records)
                        (\<lambda>e. bindS tryRollback (\<lambda>_.
                           exitWith ExitCode_IO_DB_ERROR (Some Messages_errors_importFailed))))
                  (\<lambda>_. exitWith ExitCode_OK
                          (Some (''Success: imported '' @ show_nat (length records)
                                 @ '' records.'')))"
  have "\<exists>w2. cmdImport N args w = ?block w2 \<and> faults w2 = Some k"
  proof (cases "rows = []")
    case True
    then have "cmdImport N args w = ?block w1"
      using assms(1,3,4,5) requireReadyState_READY[OF assms(2)] openDb_existing[OF ex]
        verifyMasterPassword_run[OF f1(1), of N masterPw]
        parseCsvFileStrict_files[OF f1(3), of N "args ! 1"] cnt
      by (simp add: cmdImport_def bindS_def liftR_def returnS_def)
    then show ?thesis using f1(4) assms(9) by auto
  next
    case False
    obtain r w2 where ask:
      "askChoice (Messages_prompts_confirmImportReplace (length rows)) [''y'', ''n''] w1 = (r, w2)"
      by (cases "askChoice (Messages_prompts_confirmImportReplace (length rows)) [''y'', ''n''] w1")
    with assms(8)[OF False] have r: "r = Inr ''y''" by simp
    have f2: "faults w2 = Some k"
      using tty_only_fields(4)[OF askChoice_tty[OF ask]] f1(4) assms(9) by simp
    have "cmdImport N args w = ?block w2"
      using False assms(1,3,4,5) requireReadyState_READY[OF assms(2)] openDb_existing[OF ex]
        verifyMasterPassword_run[OF f1(1), of N masterPw]
        parseCsvFileStrict_files[OF f1(3), of N "args ! 1"] cnt ask r
      by (simp add: cmdImport_def bindS_def liftR_def returnS_def)
    then show ?thesis using f2 by auto
  qed
  then obtain w2 where "cmdImport N args w = ?block w2" and "faults w2 = Some k" by blast
  then show ?thesis using importTransaction_fault[OF _ assms(10)] by simp
qed

text \<open>
  Claim C2, as the code has it. \<open>cmdImport\<close> replaces all or nothing. Whenever it ends, started with no
  transaction open, in any other way than with the report of the imported records, the
  database file is exactly as before and no transaction stays open: this covers a file that
  fails validation, a cancelled confirmation, and a failure of any statement while the
  records are inserted, which the rollback undoes. And when the text of the file is not in
  the strict format (a byte order mark, a carriage return, a wrong header, a data line
  that does not split into three fields, a control character in a field, a blank line that
  is not the last line), then, the store being ready and the master password verified, the
  command ends with the validation error of the parser and exit code 1, in the world it
  had after reading the password: no statement was executed.
\<close>

theorem cmdImport_atomic:
  assumes "txn w = None"
    and "cmdImport N args w = (r, w')"
  shows "((\<forall>n. r \<noteq> Inl (Exit ExitCode_OK
                   (Some (''Success: imported '' @ show_nat n @ '' records.'')))) \<longrightarrow>
            dbfile w' = dbfile w \<and> txn w' = None) \<and>
         ((length args = 2 \<or> length args = 4) \<and> checkDbState w = Inr READY \<longrightarrow>
            (\<forall>masterPw w1 content.
               getMasterPassword args 2 w = (Inr masterPw, w1) \<and>
               fst (verifyMasterPassword N masterPw w) = Inr True \<and>
               toLowerCase (path_extname N (args ! 1)) = CsvSpec_extension \<and>
               files w (args ! 1) = Some (File content) \<and> \<not> spec_strict_csv content \<longrightarrow>
               (\<exists>msg. r = Inl (Exit ExitCode_GENERAL_ERROR (Some msg)) \<and>
                      parseCsvText (args ! 1) content = Inl (Exit ExitCode_GENERAL_ERROR (Some msg))) \<and>
               w' = w1 \<and> dbfile w' = dbfile w \<and> txn w' = None))"
proof -
  have idle: "idle (dbfile w) w" using assms(1) by (simp add: idle_def)
  have unchanged: "dbfile w' = dbfile w \<and> txn w' = None"
    if "\<forall>n. r \<noteq> Inl (Exit ExitCode_OK (Some (''Success: imported '' @ show_nat n @ '' records.'')))"
  proof -
    from tripleD[OF cmdImport_triple idle assms(2)] that
    have "idle (dbfile w) w'" by (cases r) auto
    then show ?thesis by (simp add: idle_def)
  qed
  have rejected: "(\<exists>msg. r = Inl (Exit ExitCode_GENERAL_ERROR (Some msg)) \<and>
                      parseCsvText (args ! 1) content = Inl (Exit ExitCode_GENERAL_ERROR (Some msg))) \<and>
               w' = w1 \<and> dbfile w' = dbfile w \<and> txn w' = None"
    if "length args = 2 \<or> length args = 4" "checkDbState w = Inr READY"
      "getMasterPassword args 2 w = (Inr masterPw, w1)"
      "fst (verifyMasterPassword N masterPw w) = Inr True"
      "toLowerCase (path_extname N (args ! 1)) = CsvSpec_extension"
      "files w (args ! 1) = Some (File content)" "\<not> spec_strict_csv content"
    for masterPw w1 content
  proof -
    from parseCsvText_rejects[OF that(7), of "args ! 1"] obtain msg
      where msg: "parseCsvText (args ! 1) content = Inl (Exit ExitCode_GENERAL_ERROR (Some msg))"
      by blast
    then have "parseCsvFileStrict N (args ! 1) w = Inl (Exit ExitCode_GENERAL_ERROR (Some msg))"
      using that(5,6) by (simp add: parseCsvFileStrict_def requireCsvExtension_def requireExistingFile_def)
    from cmdImport_parse_error[OF that(1,2,3,4) this] assms(2)
    have r: "r = Inl (Exit ExitCode_GENERAL_ERROR (Some msg))" and w': "w' = w1" by simp_all
    from r have "\<forall>n. r \<noteq> Inl (Exit ExitCode_OK (Some (''Success: imported '' @ show_nat n @ '' records.'')))"
      by simp
    from unchanged[OF this] r w' msg show ?thesis by blast
  qed
  show ?thesis using unchanged rejected by blast
qed

text \<open>The claim as the specification states it fails for a call that does not
  authenticate: with a blank line between two data lines and a wrong master password, the
  command ends with the authentication error, not with the error of the parser (the
  database is untouched all the same).\<close>

definition blank_line_csv :: string where
  "blank_line_csv =
     ''service,username,password'' @ [CHR 0x0A] @ ''a,b,c'' @ [CHR 0x0A] @ [CHR 0x0A] @ ''d,e,f''"

theorem cmdImport_atomic_counterexample:
  "\<not> spec_strict_csv blank_line_csv \<and>
   parseCsvFileStrict toy_node ''in.csv''
       (vault\<lparr>files := (files vault)(''in.csv'' \<mapsto> File blank_line_csv)\<rparr>)
     = Inl (Exit ExitCode_GENERAL_ERROR (Some (Messages_errors_invalidImportLine 3))) \<and>
   cmdImport toy_node [''import'', ''in.csv'', ''--master'', ''guess'']
       (vault\<lparr>files := (files vault)(''in.csv'' \<mapsto> File blank_line_csv)\<rparr>)
     = (Inl (Exit ExitCode_AUTH_ERROR (Some Messages_errors_authFailed)),
        vault\<lparr>files := (files vault)(''in.csv'' \<mapsto> File blank_line_csv)\<rparr>)"
  by (simp add: cmdImport_def importTransaction_def run_defs csv_defs blank_line_csv_def
      spec_strict_csv_def spec_data_lines_def spec_data_line_def)
    (simp add: numeral_3_eq_3)

definition duplicate_csv :: string where
  "duplicate_csv = ''service,username,password'' @ [CHR 0x0A] @ ''a,b,c'' @ [CHR 0x0A] @ ''a,b,d''"

text \<open>Two runs on the small vault: a file whose second data line has two fields, and a
  file with the same key twice, confirmed by the operator, whose second insertion violates
  the primary key after the table was emptied and the first record inserted.\<close>

lemma import_rejects_malformed:
  "fst (cmdImport toy_node [''import'', ''in.csv'', ''--master'', ''Passw0rd!'']
         (vault\<lparr>files := (files vault)(''in.csv'' \<mapsto> File malformed_csv)\<rparr>))
     = Inl (Exit ExitCode_GENERAL_ERROR (Some Messages_errors_invalidImportFormat))"
  by (simp add: cmdImport_def importTransaction_def run_defs csv_defs)

lemma import_fails_midway:
  "fst (cmdImport toy_node [''import'', ''in.csv'', ''--master'', ''Passw0rd!'']
         (vault\<lparr>tty := [Line ''y''], files := (files vault)(''in.csv'' \<mapsto> File duplicate_csv)\<rparr>))
     = Inl (Exit ExitCode_IO_DB_ERROR (Some Messages_errors_importFailed))"
  by (simp add: cmdImport_def importTransaction_def run_defs csv_defs duplicate_csv_def)

theorem cmdImport_atomic_witness:
  "\<not> spec_strict_csv malformed_csv \<and>
   cmdImport toy_node [''import'', ''in.csv'', ''--master'', ''Passw0rd!'']
         (vault\<lparr>files := (files vault)(''in.csv'' \<mapsto> File malformed_csv)\<rparr>)
     = (Inl (Exit ExitCode_GENERAL_ERROR (Some Messages_errors_invalidImportFormat)),
        vault\<lparr>files := (files vault)(''in.csv'' \<mapsto> File malformed_csv)\<rparr>) \<and>
   fst (cmdImport toy_node [''import'', ''in.csv'', ''--master'', ''Passw0rd!'']
         (vault\<lparr>tty := [Line ''y''], files := (files vault)(''in.csv'' \<mapsto> File duplicate_csv)\<rparr>))
     = Inl (Exit ExitCode_IO_DB_ERROR (Some Messages_errors_importFailed)) \<and>
   dbfile (snd (cmdImport toy_node [''import'', ''in.csv'', ''--master'', ''Passw0rd!'']
         (vault\<lparr>tty := [Line ''y''], files := (files vault)(''in.csv'' \<mapsto> File duplicate_csv)\<rparr>)))
     = Some vault_db \<and>
   txn (snd (cmdImport toy_node [''import'', ''in.csv'', ''--master'', ''Passw0rd!'']
         (vault\<lparr>tty := [Line ''y''], files := (files vault)(''in.csv'' \<mapsto> File duplicate_csv)\<rparr>)))
     = None"
proof -
  let ?args = "[''import'', ''in.csv'', ''--master'', ''Passw0rd!'']"
  let ?w1 = "vault\<lparr>files := (files vault)(''in.csv'' \<mapsto> File malformed_csv)\<rparr>"
  let ?w2 = "vault\<lparr>tty := [Line ''y''], files := (files vault)(''in.csv'' \<mapsto> File duplicate_csv)\<rparr>"
  let ?r1 = "cmdImport toy_node ?args ?w1"
  let ?r2 = "cmdImport toy_node ?args ?w2"
  have t1: "txn ?w1 = None" and t2: "txn ?w2 = None" by (simp_all add: vault_def fresh_world_def)
  have d2: "dbfile ?w2 = Some vault_db" by (simp add: vault_def)
  have p1: "?r1 = (fst ?r1, snd ?r1)" and p2: "?r2 = (fst ?r2, snd ?r2)" by simp_all
  have a: "length ?args = 2 \<or> length ?args = 4" by simp
  have ready: "checkDbState ?w1 = Inr READY" by (simp add: run_defs)
  have pw: "getMasterPassword ?args 2 ?w1 = (Inr ''Passw0rd!'', ?w1)" by (simp add: run_defs)
  have auth: "fst (verifyMasterPassword toy_node ''Passw0rd!'' ?w1) = Inr True" by (simp add: run_defs)
  have ext: "toLowerCase (path_extname toy_node (?args ! 1)) = CsvSpec_extension"
    by (simp add: toy_node_def csv_defs)
  have csv: "files ?w1 (?args ! 1) = Some (File malformed_csv)" by simp
  have bad: "\<not> spec_strict_csv malformed_csv"
    by (simp add: spec_strict_csv_def spec_data_lines_def spec_data_line_def malformed_csv_def)
  from cmdImport_atomic[OF t1 p1] a ready pw auth ext csv bad
  have "snd ?r1 = ?w1" by blast
  with import_rejects_malformed
  have 1: "?r1 = (Inl (Exit ExitCode_GENERAL_ERROR (Some Messages_errors_invalidImportFormat)), ?w1)"
    by (metis p1)
  have n2: "\<forall>n. fst ?r2 \<noteq> Inl (Exit ExitCode_OK (Some (''Success: imported '' @ show_nat n @ '' records.'')))"
    by (simp add: import_fails_midway)
  from cmdImport_atomic[OF t2 p2] n2 d2
  have 2: "dbfile (snd ?r2) = Some vault_db \<and> txn (snd ?r2) = None" by simp
  from bad 1 2 import_fails_midway show ?thesis by simp
qed


end
